theory Spec2Isabelle
  imports Complex_Main
begin

section \<open>Python values and exceptions\<close>

text \<open>
  The agents pass untyped dictionaries around (JSON documents, LangGraph state, Prolog
  query solutions).  One datatype stands for every such value.  A dictionary is an
  association list in insertion order; Python keeps the keys of a dictionary distinct, and
  \<open>map_of\<close> looks a key up.  A float is the rational number it denotes.
\<close>

datatype pyval =
    PNone
  | PBool bool
  | PInt int
  | PFloat rat
  | PStr string
  | PList "pyval list"
  | PDict "(string \<times> pyval) list"

datatype exn_kind =
    AttributeError
  | TypeError
  | KeyError
  | IndexError
  | ValueError
  | ZeroDivisionError
  | RuntimeError
  | FileNotFoundError
  | JSONDecodeError
  | ValidationError
  | PlainException
  | OtherError

text \<open>An exception is its class and the text \<open>str(e)\<close> gives.\<close>

datatype pyexn = PyExn exn_kind string

fun exn_kind_of :: "pyexn \<Rightarrow> exn_kind" where
  "exn_kind_of (PyExn k m) = k"

fun exn_str :: "pyexn \<Rightarrow> string" where
  "exn_str (PyExn k m) = m"

text \<open>Sequencing of statements that may raise: the first exception wins.\<close>

definition bindE :: "pyexn + 'a \<Rightarrow> ('a \<Rightarrow> pyexn + 'b) \<Rightarrow> pyexn + 'b" where
  "bindE m f = (case m of Inl e \<Rightarrow> Inl e | Inr x \<Rightarrow> f x)"

fun type_name :: "pyval \<Rightarrow> string" where
  "type_name PNone = ''NoneType''"
| "type_name (PBool b) = ''bool''"
| "type_name (PInt i) = ''int''"
| "type_name (PFloat r) = ''float''"
| "type_name (PStr s) = ''str''"
| "type_name (PList xs) = ''list''"
| "type_name (PDict kvs) = ''dict''"

definition quoted :: "string \<Rightarrow> string" where
  "quoted s = CHR 0x27 # s @ [CHR 0x27]"

definition no_attribute :: "pyval \<Rightarrow> string \<Rightarrow> pyexn" where
  "no_attribute v a =
     PyExn AttributeError (quoted (type_name v) @ '' object has no attribute '' @ quoted a)"

fun is_dict :: "pyval \<Rightarrow> bool" where
  "is_dict (PDict kvs) = True"
| "is_dict v = False"

fun is_str :: "pyval \<Rightarrow> bool" where
  "is_str (PStr s) = True"
| "is_str v = False"

text \<open>Python truthiness, as \<open>if x\<close>, \<open>x or y\<close> and \<open>not x\<close> read it.\<close>

fun truthy :: "pyval \<Rightarrow> bool" where
  "truthy PNone = False"
| "truthy (PBool b) = b"
| "truthy (PInt i) = (i \<noteq> 0)"
| "truthy (PFloat r) = (r \<noteq> 0)"
| "truthy (PStr s) = (s \<noteq> [])"
| "truthy (PList xs) = (xs \<noteq> [])"
| "truthy (PDict kvs) = (kvs \<noteq> [])"

definition dict_get :: "(string \<times> pyval) list \<Rightarrow> string \<Rightarrow> pyval \<Rightarrow> pyval" where
  "dict_get kvs k d = (case map_of kvs k of Some v \<Rightarrow> v | None \<Rightarrow> d)"

text \<open>\<open>v.get(k, d)\<close> on a value that may not be a dictionary.\<close>

definition py_get :: "pyval \<Rightarrow> string \<Rightarrow> pyval \<Rightarrow> pyexn + pyval" where
  "py_get v k d =
     (case v of PDict kvs \<Rightarrow> Inr (dict_get kvs k d) | _ \<Rightarrow> Inl (no_attribute v ''get''))"

text \<open>\<open>v.items()\<close>.\<close>

definition py_items :: "pyval \<Rightarrow> pyexn + (string \<times> pyval) list" where
  "py_items v = (case v of PDict kvs \<Rightarrow> Inr kvs | _ \<Rightarrow> Inl (no_attribute v ''items''))"

text \<open>What \<open>for x in v\<close> (and \<open>enumerate(v)\<close>) runs over.\<close>

definition py_iter :: "pyval \<Rightarrow> pyexn + pyval list" where
  "py_iter v =
     (case v of
        PList xs \<Rightarrow> Inr xs
      | PDict kvs \<Rightarrow> Inr (map (\<lambda>kv. PStr (fst kv)) kvs)
      | PStr s \<Rightarrow> Inr (map (\<lambda>c. PStr [c]) s)
      | _ \<Rightarrow> Inl (PyExn TypeError (quoted (type_name v) @ '' object is not iterable'')))"

fun is_prefix :: "string \<Rightarrow> string \<Rightarrow> bool" where
  "is_prefix [] s = True"
| "is_prefix (c # cs) [] = False"
| "is_prefix (c # cs) (d # ds) = (c = d \<and> is_prefix cs ds)"

fun is_substring :: "string \<Rightarrow> string \<Rightarrow> bool" where
  "is_substring k [] = (k = [])"
| "is_substring k (c # cs) = (is_prefix k (c # cs) \<or> is_substring k cs)"

text \<open>\<open>k in v\<close> for a string \<open>k\<close>.\<close>

definition py_contains :: "string \<Rightarrow> pyval \<Rightarrow> pyexn + bool" where
  "py_contains k v =
     (case v of
        PDict kvs \<Rightarrow> Inr (map_of kvs k \<noteq> None)
      | PList xs \<Rightarrow> Inr (PStr k \<in> set xs)
      | PStr s \<Rightarrow> Inr (is_substring k s)
      | _ \<Rightarrow> Inl (PyExn TypeError (''argument of type '' @ quoted (type_name v) @ '' is not iterable'')))"

text \<open>\<open>v[k]\<close> for a string \<open>k\<close>.\<close>

definition py_subscript :: "pyval \<Rightarrow> string \<Rightarrow> pyexn + pyval" where
  "py_subscript v k =
     (case v of
        PDict kvs \<Rightarrow>
          (case map_of kvs k of
             Some x \<Rightarrow> Inr x
           | None \<Rightarrow> Inl (PyExn KeyError (quoted k)))
      | PList xs \<Rightarrow> Inl (PyExn TypeError ''list indices must be integers or slices, not str'')
      | PStr s \<Rightarrow> Inl (PyExn TypeError (''string indices must be integers, not '' @ quoted ''str''))
      | _ \<Rightarrow> Inl (PyExn TypeError (quoted (type_name v) @ '' object is not subscriptable'')))"

text \<open>\<open>str.split(".")\<close>: every dot separates, and the empty string gives one empty part.\<close>

fun split_dot :: "string \<Rightarrow> string list" where
  "split_dot [] = [[]]"
| "split_dot (c # cs) =
     (if c = CHR ''.'' then [] # split_dot cs
      else (case split_dot cs of p # ps \<Rightarrow> (c # p) # ps | [] \<Rightarrow> [[c]]))"

section \<open>The heuristic analyzer: fact extraction\<close>

definition replace_char :: "char \<Rightarrow> string \<Rightarrow> string \<Rightarrow> string" where
  "replace_char c r s = concat (map (\<lambda>x. if x = c then r else [x]) s)"

text \<open>
  \<open>_escape_prolog_string\<close>: backslashes are doubled, then every apostrophe gets a
  backslash.
\<close>

definition escape_prolog_string :: "string \<Rightarrow> string" where
  "escape_prolog_string s =
     replace_char (CHR 0x27) [CHR 0x5C, CHR 0x27]
       (replace_char (CHR 0x5C) [CHR 0x5C, CHR 0x5C] s)"

text \<open>The call on a value read from a dictionary: one without \<open>replace\<close> raises.\<close>

definition escape_prolog_value :: "pyval \<Rightarrow> pyexn + string" where
  "escape_prolog_value v =
     (case v of
        PStr s \<Rightarrow> Inr (escape_prolog_string s)
      | _ \<Rightarrow> Inl (no_attribute v ''replace''))"

definition domain_mapping :: "(string \<times> string) list" where
  "domain_mapping =
     [(''1'', ''Discrimination & Toxicity''),
      (''2'', ''Privacy & Security''),
      (''3'', ''Misinformation''),
      (''4'', ''Malicious actors''),
      (''5'', ''Human-Computer Interaction''),
      (''6'', ''Socioeconomic & Environmental''),
      (''7'', ''AI system safety, failures, & limitations'')]"

definition extract_domain_name :: "string \<Rightarrow> string" where
  "extract_domain_name domain_key =
     (case map_of domain_mapping (case split_dot domain_key of p # ps \<Rightarrow> p | [] \<Rightarrow> []) of
        Some n \<Rightarrow> n
      | None \<Rightarrow> ''Domain '' @ domain_key)"

definition subdomain_mapping :: "(string \<times> string) list" where
  "subdomain_mapping =
     [(''1.1'', ''Unfair discrimination and misrepresentation''),
      (''1.2'', ''Exposure to toxic content''),
      (''1.3'', ''Unequal performance across groups''),
      (''2.1'', ''Compromise of privacy by obtaining, leaking or correctly inferring sensitive information''),
      (''2.2'', ''AI system security vulnerabilities and attacks''),
      (''3.1'', ''False or misleading information''),
      (''3.2'', ''Pollution of information ecosystem and loss of consensus reality''),
      (''4.1'', ''Disinformation, surveillance, and influence at scale''),
      (''4.2'', ''Cyberattacks, weapon development or use, and mass harm''),
      (''4.3'', ''Fraud, scams, and targeted manipulation''),
      (''5.1'', ''Overreliance and unsafe use''),
      (''5.2'', ''Loss of human agency and autonomy''),
      (''6.1'', ''Power centralization and unfair distribution of benefits''),
      (''6.2'', ''Increased inequality and decline in employment quality''),
      (''6.3'', ''Economic and cultural devaluation of human effort''),
      (''6.4'', ''Competitive dynamics''),
      (''6.5'', ''Governance failure''),
      (''6.6'', ''Environmental harm''),
      (''7.1'', ''AI pursuing its own goals in conflict with human goals or values''),
      (''7.2'', ''AI possessing dangerous capabilities''),
      (''7.3'', ''Lack of capability or robustness''),
      (''7.4'', ''Lack of transparency or interpretability''),
      (''7.5'', ''AI welfare and rights''),
      (''7.6'', ''Multi-agent risks'')]"

definition extract_subdomain_name :: "string \<Rightarrow> string \<Rightarrow> string" where
  "extract_subdomain_name domain_key subdomain_key =
     (let full_key = domain_key @ ''.'' @ subdomain_key
      in case map_of subdomain_mapping full_key of
           Some n \<Rightarrow> n
         | None \<Rightarrow> ''Subdomain '' @ full_key)"

text \<open>
  A Prolog fact is an f-string in the source.  The model keeps which template it is and
  the values the template interpolates, in the template's order:
  \<^verbatim>\<open>domain('{domain}', '{name}')\<close>,
  \<^verbatim>\<open>subdomain('{domain}', '{subdomain}', '{name}')\<close>,
  \<^verbatim>\<open>risk('{domain}', '{subdomain}', {risk_id}, '{title}', {severity})\<close>,
  \<^verbatim>\<open>causality_entity('{domain}', '{subdomain}', {risk_id}, {entity})\<close>,
  \<^verbatim>\<open>causality_intent('{domain}', '{subdomain}', {risk_id}, {intent})\<close> and
  \<^verbatim>\<open>causality_timing('{domain}', '{subdomain}', {risk_id}, '{timing}')\<close>.
\<close>

datatype fact =
    DomainFact string string
  | SubdomainFact string string string
  | RiskFact string string nat string pyval
  | CausalityEntity string string nat pyval
  | CausalityIntent string string nat pyval
  | CausalityTiming string string nat pyval

text \<open>
  The causality values of one risk: the nested form when \<open>causality["entity"]\<close> is a
  dictionary, the flat top-level keys otherwise.
\<close>

definition causality_values :: "pyval \<Rightarrow> pyval \<Rightarrow> pyexn + (pyval \<times> pyval \<times> pyval)" where
  "causality_values risk causality =
     bindE (py_contains ''entity'' causality) (\<lambda>has_entity.
     bindE (if has_entity then py_subscript causality ''entity'' else Inr PNone) (\<lambda>ent.
       if has_entity \<and> is_dict ent then
         bindE (py_get causality ''entity'' (PDict [])) (\<lambda>e.
         bindE (py_get e ''value'' (PStr ''other'')) (\<lambda>entity.
         bindE (py_get causality ''intent'' (PDict [])) (\<lambda>i.
         bindE (py_get i ''value'' (PStr ''other'')) (\<lambda>intent.
         bindE (py_get causality ''timing'' (PDict [])) (\<lambda>t.
         bindE (py_get t ''value'' (PStr ''other'')) (\<lambda>timing.
           Inr (entity, intent, timing)))))))
       else
         bindE (py_get risk ''entity'' (PStr ''other'')) (\<lambda>entity.
         bindE (py_get risk ''intent'' (PStr ''other'')) (\<lambda>intent.
         bindE (py_get risk ''timing'' (PStr ''other'')) (\<lambda>timing.
           Inr (entity, intent, timing))))))"

text \<open>The body of the loop over \<open>enumerate(risks, start=1)\<close>: four facts per risk.\<close>

definition risk_facts :: "string \<Rightarrow> string \<Rightarrow> nat \<Rightarrow> pyval \<Rightarrow> pyexn + fact list" where
  "risk_facts domain subdomain risk_id risk =
     bindE (py_get risk ''title'' (PStr [])) (\<lambda>t.
     bindE (escape_prolog_value t) (\<lambda>title.
     bindE (py_get risk ''severity'' (PStr ''medium'')) (\<lambda>severity.
     bindE (py_get risk ''causality'' (PDict [])) (\<lambda>causality.
     bindE (causality_values risk causality) (\<lambda>evs.
       case evs of (entity, intent, timing) \<Rightarrow>
         Inr [RiskFact domain subdomain risk_id title severity,
              CausalityEntity domain subdomain risk_id entity,
              CausalityIntent domain subdomain risk_id intent,
              CausalityTiming domain subdomain risk_id timing])))))"

fun risks_loop :: "string \<Rightarrow> string \<Rightarrow> nat \<Rightarrow> pyval list \<Rightarrow> pyexn + fact list" where
  "risks_loop domain subdomain risk_id [] = Inr []"
| "risks_loop domain subdomain risk_id (risk # rest) =
     bindE (risk_facts domain subdomain risk_id risk) (\<lambda>fs.
     bindE (risks_loop domain subdomain (Suc risk_id) rest) (\<lambda>gs.
       Inr (fs @ gs)))"

record gen_state =
  facts :: "fact list"
  domains_seen :: "string set"
  subdomains_seen :: "string set"

text \<open>
  One turn of the loop over \<open>analysis.items()\<close>.  The risk list is read before the
  key is split; a key that does not split into two parts is skipped by \<open>continue\<close>.
\<close>

definition item_step :: "gen_state \<Rightarrow> string \<times> pyval \<Rightarrow> pyexn + gen_state" where
  "item_step g kc =
     (case kc of (domain_subdomain, content) \<Rightarrow>
        bindE (py_get content ''risks'' (PList [])) (\<lambda>risks.
          case split_dot domain_subdomain of
            [domain, subdomain] \<Rightarrow>
              (let g1 = (if domain \<notin> domains_seen g
                         then g\<lparr>facts := facts g @
                                  [DomainFact domain
                                     (escape_prolog_string (extract_domain_name domain))],
                                domains_seen := insert domain (domains_seen g)\<rparr>
                         else g);
                   subdomain_key = domain @ ''.'' @ subdomain;
                   g2 = (if subdomain_key \<notin> subdomains_seen g1
                         then g1\<lparr>facts := facts g1 @
                                  [SubdomainFact domain subdomain
                                     (escape_prolog_string
                                        (extract_subdomain_name domain subdomain))],
                                 subdomains_seen := insert subdomain_key (subdomains_seen g1)\<rparr>
                         else g1)
               in bindE (py_iter risks) (\<lambda>rs.
                  bindE (risks_loop domain subdomain 1 rs) (\<lambda>fs.
                    Inr (g2\<lparr>facts := facts g2 @ fs\<rparr>))))
          | _ \<Rightarrow> Inr g))"

fun items_loop :: "gen_state \<Rightarrow> (string \<times> pyval) list \<Rightarrow> pyexn + gen_state" where
  "items_loop g [] = Inr g"
| "items_loop g (kc # rest) = bindE (item_step g kc) (\<lambda>g'. items_loop g' rest)"

text \<open>The \<open>try\<close> block of \<open>node_generate_prolog_facts\<close>: all facts, or the exception.\<close>

definition generate_facts :: "pyval \<Rightarrow> pyexn + fact list" where
  "generate_facts analysis =
     bindE (py_items analysis) (\<lambda>kvs.
     bindE (items_loop \<lparr>facts = [], domains_seen = {}, subdomains_seen = {}\<rparr> kvs) (\<lambda>g.
       Inr (facts g)))"

section \<open>Pipeline state\<close>

text \<open>
  The state of every stage is a dictionary with optional keys; \<open>None\<close> is a key that
  is absent.  One record has the keys of the four stages.  The \<open>errors\<close> key always
  holds a list (the graph runtime creates it, the orchestrator seeds it and the load nodes
  reset it), so \<open>state.setdefault("errors", [])\<close> is the list itself.  The \<open>messages\<close>
  key holds the prompt of the generation service and is part of the service call here.
  A Prolog instance is what it answers: \<open>list(prolog.query(q))\<close> is a list of
  solutions, each a dictionary from variable names to values, or an exception.
\<close>

type_synonym solution = "(string \<times> pyval) list"

type_synonym prolog = "string \<Rightarrow> pyexn + solution list"

record state =
  metadata :: "pyval option"
  questionnaire :: "pyval option"
  analysis :: "pyval option"
  heuristic :: "pyval option"
  prolog_facts :: "fact list"
  prolog :: "prolog option"
  html_path :: "string option"
  errors :: "string list"

text \<open>
  A node returns the state, or raises with the state as it has left it.
\<close>

datatype 'a outcome = Returned 'a | Raised pyexn 'a

text \<open>
  The recurring idiom
  \<^verbatim>\<open>errs = state.setdefault("errors", []); if msg not in errs: errs.append(msg)\<close>.
\<close>

definition add_error :: "string \<Rightarrow> string list \<Rightarrow> string list" where
  "add_error msg errs = (if msg \<in> set errs then errs else errs @ [msg])"

definition node_generate_prolog_facts :: "state \<Rightarrow> state outcome" where
  "node_generate_prolog_facts s =
     (case generate_facts (case analysis s of Some a \<Rightarrow> a | None \<Rightarrow> PDict []) of
        Inr fs \<Rightarrow> Returned (s\<lparr>prolog_facts := fs\<rparr>)
      | Inl e \<Rightarrow>
          Returned (s\<lparr>errors :=
            add_error (''Prolog facts generation failed: '' @ exn_str e) (errors s)\<rparr>))"

section \<open>The heuristic analyzer: queries and metrics\<close>

text \<open>
  Python rounds a float operation to the nearest double.  The rounding is below this
  model: the three float operations the metrics use are parameters, as is \<open>str\<close> of
  a value that is not a string.  A float is the rational it denotes (NaN and the infinities
  are not modelled); comparing a number with an integer literal is exact in Python and here.
\<close>

record py_ops =
  fdiv :: "rat \<Rightarrow> rat \<Rightarrow> rat"
  fmul :: "rat \<Rightarrow> rat \<Rightarrow> rat"
  fround2 :: "rat \<Rightarrow> rat"
  str_other :: "pyval \<Rightarrow> string"

definition py_format :: "py_ops \<Rightarrow> pyval \<Rightarrow> string" where
  "py_format ops v = (case v of PStr s \<Rightarrow> s | _ \<Rightarrow> str_other ops v)"

text \<open>The number a value is in arithmetic and comparisons (\<open>bool\<close> is an \<open>int\<close>).\<close>

fun num_of :: "pyval \<Rightarrow> rat option" where
  "num_of (PInt i) = Some (of_int i)"
| "num_of (PFloat r) = Some r"
| "num_of (PBool b) = Some (if b then 1 else 0)"
| "num_of v = None"

definition not_supported :: "string \<Rightarrow> pyval \<Rightarrow> pyexn" where
  "not_supported opr v =
     PyExn TypeError (quoted opr @ '' not supported between instances of '' @
                      quoted (type_name v) @ '' and '' @ quoted ''int'')"

text \<open>\<open>v > n\<close>, \<open>v < n\<close> and \<open>v >= n\<close> for an integer literal \<open>n\<close>.\<close>

definition py_gt :: "pyval \<Rightarrow> int \<Rightarrow> pyexn + bool" where
  "py_gt v n = (case num_of v of Some r \<Rightarrow> Inr (of_int n < r) | None \<Rightarrow> Inl (not_supported ''>'' v))"

definition py_lt :: "pyval \<Rightarrow> int \<Rightarrow> pyexn + bool" where
  "py_lt v n = (case num_of v of Some r \<Rightarrow> Inr (r < of_int n) | None \<Rightarrow> Inl (not_supported ''<'' v))"

definition py_ge :: "pyval \<Rightarrow> int \<Rightarrow> pyexn + bool" where
  "py_ge v n = (case num_of v of Some r \<Rightarrow> Inr (of_int n \<le> r) | None \<Rightarrow> Inl (not_supported ''>='' v))"

text \<open>\<open>round(v, 2)\<close>: an integer is returned as it is, a float is rounded.\<close>

definition py_round2 :: "py_ops \<Rightarrow> pyval \<Rightarrow> pyexn + pyval" where
  "py_round2 ops v =
     (case v of
        PInt i \<Rightarrow> Inr (PInt i)
      | PBool b \<Rightarrow> Inr (PInt (if b then 1 else 0))
      | PFloat r \<Rightarrow> Inr (PFloat (fround2 ops r))
      | _ \<Rightarrow> Inl (PyExn TypeError
                 (''type '' @ type_name v @ '' doesn't define __round__ method'')))"

text \<open>
  \<open>(part / whole * 100) if whole > 0 else 0\<close>, for a count and the total.  A quotient
  outside the range of a float, for which Python raises \<open>OverflowError\<close> or gives an
  infinity, is not modelled: the counts of a fact base are far below that range.
\<close>

definition py_percentage :: "py_ops \<Rightarrow> pyval \<Rightarrow> pyval \<Rightarrow> pyexn + pyval" where
  "py_percentage ops part whole =
     bindE (py_gt whole 0) (\<lambda>positive.
       if positive then
         (case (num_of part, num_of whole) of
            (Some c, Some t) \<Rightarrow> Inr (PFloat (fmul ops (fdiv ops c t) 100))
          | _ \<Rightarrow>
              Inl (PyExn TypeError
                     (''unsupported operand type(s) for /: '' @ quoted (type_name part) @
                      '' and '' @ quoted (type_name whole))))
       else Inr (PInt 0))"

text \<open>\<open>list(prolog.query(q))[0][v]\<close>.\<close>

definition first_binding :: "prolog \<Rightarrow> string \<Rightarrow> string \<Rightarrow> pyexn + pyval" where
  "first_binding p q v =
     bindE (p q) (\<lambda>sols.
       case sols of
         [] \<Rightarrow> Inl (PyExn IndexError ''list index out of range'')
       | sol # rest \<Rightarrow> py_subscript (PDict sol) v)"

text \<open>A \<open>try\<close> block whose \<open>except Exception\<close> stores \<open>None\<close>.\<close>

definition try_or_none :: "pyexn + pyval \<Rightarrow> pyval" where
  "try_or_none m = (case m of Inr v \<Rightarrow> v | Inl e \<Rightarrow> PNone)"

definition count_metric :: "prolog \<Rightarrow> string \<Rightarrow> pyval" where
  "count_metric p q = try_or_none (first_binding p q ''Count'')"

definition rounded_metric :: "py_ops \<Rightarrow> prolog \<Rightarrow> string \<Rightarrow> string \<Rightarrow> pyval" where
  "rounded_metric ops p q v = try_or_none (bindE (first_binding p q v) (py_round2 ops))"

text \<open>The alerts of \<open>_run_pattern_analysis\<close>, each the \<open>try\<close> block of the source.\<close>

definition alert_critical_risk_concentration :: "py_ops \<Rightarrow> prolog \<Rightarrow> pyval" where
  "alert_critical_risk_concentration ops p =
     try_or_none (
       bindE (p ''percentage_high_severity(P)'') (\<lambda>high_pct_query.
       bindE (case high_pct_query of
                [] \<Rightarrow> Inr (PInt 0)
              | sol # rest \<Rightarrow> py_subscript (PDict sol) ''P'') (\<lambda>high_pct.
       bindE (py_gt high_pct 40) (\<lambda>has_critical.
       bindE (py_round2 ops high_pct) (\<lambda>v.
         Inr (PDict [(''alert'', PBool has_critical), (''value'', v)]))))))"

definition alert_ai_dominance :: "py_ops \<Rightarrow> prolog \<Rightarrow> pyval" where
  "alert_ai_dominance ops p =
     try_or_none (
       bindE (first_binding p ''risks_by_entity(ai, C)'' ''C'') (\<lambda>ai_count.
       bindE (first_binding p ''total_risks(T)'' ''T'') (\<lambda>total.
       bindE (py_percentage ops ai_count total) (\<lambda>ai_pct.
       bindE (py_gt ai_pct 60) (\<lambda>has_dominance.
       bindE (py_round2 ops ai_pct) (\<lambda>v.
         Inr (PDict [(''alert'', PBool has_dominance), (''value'', v)])))))))"

definition alert_intentional_threats :: "prolog \<Rightarrow> pyval" where
  "alert_intentional_threats p =
     try_or_none (
       bindE (first_binding p ''risks_by_intent(intentional, C)'' ''C'') (\<lambda>intent_count.
       bindE (py_gt intent_count 3) (\<lambda>has_threats.
         Inr (PDict [(''alert'', PBool has_threats), (''value'', intent_count)]))))"

definition alert_operational_risks :: "py_ops \<Rightarrow> prolog \<Rightarrow> pyval" where
  "alert_operational_risks ops p =
     try_or_none (
       bindE (first_binding p ''risks_by_timing('post-deployment', C)'' ''C'') (\<lambda>post_count.
       bindE (first_binding p ''total_risks(T)'' ''T'') (\<lambda>total.
       bindE (py_percentage ops post_count total) (\<lambda>post_pct.
       bindE (py_gt post_pct 70) (\<lambda>has_operational.
       bindE (py_round2 ops post_pct) (\<lambda>v.
         Inr (PDict [(''alert'', PBool has_operational), (''value'', v)])))))))"

definition alert_low_preventable_ratio :: "py_ops \<Rightarrow> prolog \<Rightarrow> pyval" where
  "alert_low_preventable_ratio ops p =
     try_or_none (
       bindE (first_binding p ''risks_by_timing('pre-deployment', C)'' ''C'') (\<lambda>pre_count.
       bindE (first_binding p ''total_risks(T)'' ''T'') (\<lambda>total.
       bindE (py_percentage ops pre_count total) (\<lambda>pre_pct.
       bindE (py_lt pre_pct 10) (\<lambda>low_preventable.
       bindE (py_round2 ops pre_pct) (\<lambda>v.
         Inr (PDict [(''alert'', PBool low_preventable), (''value'', v)])))))))"

definition alert_medium_risk_accumulation :: "py_ops \<Rightarrow> prolog \<Rightarrow> pyval" where
  "alert_medium_risk_accumulation ops p =
     try_or_none (
       bindE (first_binding p ''risks_by_severity(medium, C)'' ''C'') (\<lambda>medium_count.
       bindE (first_binding p ''total_risks(T)'' ''T'') (\<lambda>total.
       bindE (py_percentage ops medium_count total) (\<lambda>medium_pct.
       bindE (py_gt medium_pct 40) (\<lambda>has_medium.
       bindE (py_round2 ops medium_pct) (\<lambda>v.
         Inr (PDict [(''alert'', PBool has_medium), (''value'', v)])))))))"

definition alert_human_error_dominance :: "py_ops \<Rightarrow> prolog \<Rightarrow> pyval" where
  "alert_human_error_dominance ops p =
     try_or_none (
       bindE (first_binding p ''risks_by_entity(human, C)'' ''C'') (\<lambda>human_count.
       bindE (first_binding p ''total_risks(T)'' ''T'') (\<lambda>total.
       bindE (py_percentage ops human_count total) (\<lambda>human_pct.
       bindE (py_gt human_pct 50) (\<lambda>has_human_dom.
       bindE (py_round2 ops human_pct) (\<lambda>v.
         Inr (PDict [(''alert'', PBool has_human_dom), (''value'', v)])))))))"

text \<open>
  \<open>[d["D"] for d in solutions]\<close>, and \<open>len(set(...))\<close>: a list or a dictionary
  cannot be a member of a set.
\<close>

fun bindings_of :: "string \<Rightarrow> solution list \<Rightarrow> pyexn + pyval list" where
  "bindings_of v [] = Inr []"
| "bindings_of v (sol # rest) =
     bindE (py_subscript (PDict sol) v) (\<lambda>x.
     bindE (bindings_of v rest) (\<lambda>xs. Inr (x # xs)))"

fun hashable :: "pyval \<Rightarrow> bool" where
  "hashable (PList xs) = False"
| "hashable (PDict kvs) = False"
| "hashable v = True"

text \<open>
  \<open>==\<close> between two members of a set: numbers (\<open>bool\<close>, \<open>int\<close>, \<open>float\<close>) are
  equal when they denote the same number, and have the same hash; \<open>set(xs)\<close> adds the
  elements in order, each unless an equal one is there.
\<close>

definition py_eq :: "pyval \<Rightarrow> pyval \<Rightarrow> bool" where
  "py_eq a b =
     (case (num_of a, num_of b) of
        (Some x, Some y) \<Rightarrow> x = y
      | (None, None) \<Rightarrow> a = b
      | _ \<Rightarrow> False)"

definition set_add :: "pyval list \<Rightarrow> pyval \<Rightarrow> pyval list" where
  "set_add seen x = (if list_ex (\<lambda>y. py_eq y x) seen then seen else seen @ [x])"

definition count_distinct :: "pyval list \<Rightarrow> pyexn + nat" where
  "count_distinct xs =
     (case filter (\<lambda>x. \<not> hashable x) xs of
        [] \<Rightarrow> Inr (length (foldl set_add [] xs))
      | x # rest \<Rightarrow> Inl (PyExn TypeError (''unhashable type: '' @ quoted (type_name x))))"

definition alert_high_risk_fragmentation :: "prolog \<Rightarrow> pyval" where
  "alert_high_risk_fragmentation p =
     try_or_none (
       bindE (p ''risks_in_domain_by_severity(D, high, C), C > 0'') (\<lambda>domains_with_high_query.
       bindE (bindings_of ''D'' domains_with_high_query) (\<lambda>ds.
       bindE (count_distinct ds) (\<lambda>domain_count.
       bindE (first_binding p ''risks_by_severity(high, C)'' ''C'') (\<lambda>high_count.
       bindE (if 4 \<le> domain_count then py_ge high_count 6 else Inr False) (\<lambda>is_fragmented.
         Inr (PDict [(''alert'', PBool is_fragmented), (''value'', (PInt (int domain_count)))])))))))"

definition run_alerts :: "py_ops \<Rightarrow> prolog \<Rightarrow> pyval" where
  "run_alerts ops p =
     PDict [(''critical_risk_concentration'', alert_critical_risk_concentration ops p),
            (''ai_dominance'', alert_ai_dominance ops p),
            (''intentional_threats'', alert_intentional_threats p),
            (''operational_risks'', alert_operational_risks ops p),
            (''low_preventable_ratio'', alert_low_preventable_ratio ops p),
            (''medium_risk_accumulation'', alert_medium_risk_accumulation ops p),
            (''human_error_dominance'', alert_human_error_dominance ops p),
            (''high_risk_fragmentation'', alert_high_risk_fragmentation p)]"

text \<open>The two subdomain rankings; the second key stays unset when the query has no solution.\<close>

definition subdomain_entry :: "py_ops \<Rightarrow> solution \<Rightarrow> pyexn + pyval" where
  "subdomain_entry ops sol =
     bindE (py_subscript (PDict sol) ''D'') (\<lambda>domain.
     bindE (py_subscript (PDict sol) ''SD'') (\<lambda>subdomain.
     bindE (py_subscript (PDict sol) ''Name'') (\<lambda>subdomain_name.
     bindE (py_subscript (PDict sol) ''Count'') (\<lambda>count.
       Inr (PDict [(''subdomain'', PStr (py_format ops domain @ ''.'' @ py_format ops subdomain)),
                   (''subdomain_name'', subdomain_name),
                   (''high_risk_count'', count)])))))"

definition run_subdomain_analysis :: "py_ops \<Rightarrow> prolog \<Rightarrow> pyval" where
  "run_subdomain_analysis ops p =
     PDict ([(''most_critical'',
               try_or_none (
                 bindE (p ''most_critical_subdomain(D, SD, Name, Count)'') (\<lambda>most_critical.
                   case most_critical of
                     [] \<Rightarrow> Inr PNone
                   | sol # rest \<Rightarrow> subdomain_entry ops sol)))] @
            (case p ''most_critical_subdomain_in_top_domain(D, SD, Name, Count)'' of
               Inl e \<Rightarrow> [(''most_critical_in_top_domain'', PNone)]
             | Inr [] \<Rightarrow> []
             | Inr (sol # rest) \<Rightarrow>
                 [(''most_critical_in_top_domain'', try_or_none (subdomain_entry ops sol))]))"

definition run_pattern_analysis :: "py_ops \<Rightarrow> prolog \<Rightarrow> pyval" where
  "run_pattern_analysis ops p =
     PDict
       [(''critical_patterns'',
           PDict [(''critical_ai_risks'', count_metric p ''critical_ai_risks_count(Count)''),
                  (''malicious_human_risks'', count_metric p ''malicious_human_risks_count(Count)''),
                  (''high_threat_attacks'', count_metric p ''high_threat_attacks_count(Count)''),
                  (''unintended_ai_failures'', count_metric p ''unintended_ai_failures_count(Count)''),
                  (''human_error_risks'', count_metric p ''human_error_risks_count(Count)''),
                  (''intentional_ai_risks'', count_metric p ''intentional_ai_risks_count(Count)''),
                  (''preventable_critical_ai_risks'',
                     count_metric p ''preventable_critical_ai_risks_count(Count)''),
                  (''critical_human_errors'', count_metric p ''critical_human_errors_count(Count)''),
                  (''low_priority_preventable'',
                     count_metric p ''low_priority_preventable_count(Count)'')]),
        (''moderate_patterns'',
           PDict [(''moderate_operational_risks'',
                     count_metric p ''moderate_operational_risks_count(Count)''),
                  (''moderate_ai_risks'', count_metric p ''moderate_ai_risks_count(Count)''),
                  (''moderate_human_risks'', count_metric p ''moderate_human_risks_count(Count)''),
                  (''moderate_intentional_ai_risks'',
                     count_metric p ''moderate_intentional_ai_risks_count(Count)''),
                  (''moderate_human_intentional_risks'',
                     count_metric p ''moderate_human_intentional_risks_count(Count)'')]),
        (''prevention_patterns'',
           PDict [(''preventable_ai_risks'', count_metric p ''preventable_ai_risks_count(Count)''),
                  (''preventable_human_risks'',
                     count_metric p ''preventable_human_risks_count(Count)''),
                  (''preventable_intentional_threats'',
                     count_metric p ''preventable_intentional_threats_count(Count)'')]),
        (''low_patterns'',
           PDict [(''low_operational_risks'', count_metric p ''low_operational_risks_count(Count)'')]),
        (''subdomain_analysis'', run_subdomain_analysis ops p),
        (''distribution_metrics'',
           PDict [(''ai_predeployment_percentage'',
                     rounded_metric ops p ''percentage_ai_predeployment(P)'' ''P''),
                  (''high_intentional_percentage'',
                     rounded_metric ops p ''percentage_high_intentional(P)'' ''P''),
                  (''ai_human_ratio'', rounded_metric ops p ''ai_human_ratio(R)'' ''R'')]),
        (''alerts'', run_alerts ops p)]"

text \<open>The other three groups of queries; every block stores \<open>None\<close> on an exception.\<close>

definition top_subdomain :: "prolog \<Rightarrow> pyval" where
  "top_subdomain p =
     (case p ''most_critical_subdomain_in_top_domain(D, SD, SDN, C)'' of
        Inl e \<Rightarrow> PNone
      | Inr [] \<Rightarrow> PNone
      | Inr (sol # rest) \<Rightarrow>
          try_or_none (
            bindE (py_subscript (PDict sol) ''SD'') (\<lambda>sd.
            bindE (py_subscript (PDict sol) ''SDN'') (\<lambda>sdn.
            bindE (py_subscript (PDict sol) ''C'') (\<lambda>c.
              Inr (PDict [(''subdomain'', sd), (''subdomain_name'', sdn), (''high_count'', c)]))))))"

definition most_critical_domain :: "prolog \<Rightarrow> pyval" where
  "most_critical_domain p =
     try_or_none (
       bindE (p ''most_critical_domain(D, N, C)'') (\<lambda>most_critical.
         case most_critical of
           [] \<Rightarrow> Inr PNone
         | sol # rest \<Rightarrow>
             bindE (py_subscript (PDict sol) ''D'') (\<lambda>domain.
             bindE (py_subscript (PDict sol) ''N'') (\<lambda>domain_name.
             bindE (py_subscript (PDict sol) ''C'') (\<lambda>c.
               Inr (PDict [(''domain'', domain), (''domain_name'', domain_name),
                           (''high_count'', c),
                           (''most_critical_subdomain'', top_subdomain p)]))))))"

definition rank_text :: "nat \<Rightarrow> string" where
  "rank_text r = (if r = 1 then ''1'' else if r = 2 then ''2'' else ''3'')"

fun ranked_domains :: "prolog \<Rightarrow> nat list \<Rightarrow> pyexn + pyval list" where
  "ranked_domains p [] = Inr []"
| "ranked_domains p (rank # ranks) =
     bindE (p (''critical_domain_ranked('' @ rank_text rank @ '', D, N, C)'')) (\<lambda>result.
     bindE (case result of
              [] \<Rightarrow> Inr []
            | sol # rest \<Rightarrow>
                bindE (py_subscript (PDict sol) ''D'') (\<lambda>domain.
                bindE (py_subscript (PDict sol) ''N'') (\<lambda>domain_name.
                bindE (py_subscript (PDict sol) ''C'') (\<lambda>c.
                  Inr [PDict [(''rank'', PInt (int rank)), (''domain'', domain),
                              (''domain_name'', domain_name), (''high_count'', c)]])))) (\<lambda>entry.
     bindE (ranked_domains p ranks) (\<lambda>entries. Inr (entry @ entries))))"

definition run_executive_summary :: "py_ops \<Rightarrow> prolog \<Rightarrow> pyval" where
  "run_executive_summary ops p =
     PDict [(''global_risk_score'', rounded_metric ops p ''global_risk_score(S)'' ''S''),
            (''overall_risk_level'', try_or_none (first_binding p ''overall_risk_level(L)'' ''L'')),
            (''primary_concern'', try_or_none (first_binding p ''primary_concern(C)'' ''C'')),
            (''recommended_action'', try_or_none (first_binding p ''recommended_action(A)'' ''A'')),
            (''most_critical_domain'', most_critical_domain p),
            (''top_3_critical_domains'',
               (case ranked_domains p [1, 2, 3] of Inr ds \<Rightarrow> PList ds | Inl e \<Rightarrow> PList []))]"

text \<open>\<open>d[k] = v\<close> on a dictionary: an old key keeps its place.\<close>

fun dict_set :: "(string \<times> pyval) list \<Rightarrow> string \<Rightarrow> pyval \<Rightarrow> (string \<times> pyval) list" where
  "dict_set [] k v = [(k, v)]"
| "dict_set (kv # kvs) k v = (if fst kv = k then (k, v) # kvs else kv # dict_set kvs k v)"

text \<open>
  The per-domain counts.  A solution without \<open>D\<close>, or a \<open>D\<close> that cannot be a
  dictionary key, ends the loop with what has been stored; a key is kept by its text.
\<close>

fun by_domain_loop :: "py_ops \<Rightarrow> prolog \<Rightarrow> (string \<times> pyval) list \<Rightarrow> solution list \<Rightarrow> (string \<times> pyval) list" where
  "by_domain_loop ops p acc [] = acc"
| "by_domain_loop ops p acc (sol # rest) =
     (case py_subscript (PDict sol) ''D'' of
        Inl e \<Rightarrow> acc
      | Inr domain_id \<Rightarrow>
          if \<not> hashable domain_id then acc
          else by_domain_loop ops p
                 (dict_set acc (py_format ops domain_id)
                    (count_metric p (''risks_in_domain('' @ quoted (py_format ops domain_id) @ '', Count)'')))
                 rest)"

definition run_basic_counting_analysis :: "py_ops \<Rightarrow> prolog \<Rightarrow> pyval" where
  "run_basic_counting_analysis ops p =
     PDict [(''total_risks'', count_metric p ''total_risks(Count)''),
            (''by_severity'',
               PDict [(''low'', count_metric p ''risks_by_severity(low, Count)''),
                      (''medium'', count_metric p ''risks_by_severity(medium, Count)''),
                      (''high'', count_metric p ''risks_by_severity(high, Count)'')]),
            (''by_entity'',
               PDict [(''ai'', count_metric p ''risks_by_entity(ai, Count)''),
                      (''human'', count_metric p ''risks_by_entity(human, Count)''),
                      (''other'', count_metric p ''risks_by_entity(other, Count)'')]),
            (''by_intent'',
               PDict [(''intentional'', count_metric p ''risks_by_intent(intentional, Count)''),
                      (''unintentional'', count_metric p ''risks_by_intent(unintentional, Count)''),
                      (''other'', count_metric p ''risks_by_intent(other, Count)'')]),
            (''by_timing'',
               PDict [(''pre-deployment'', count_metric p ''risks_by_timing('pre-deployment', Count)''),
                      (''post-deployment'', count_metric p ''risks_by_timing('post-deployment', Count)''),
                      (''other'', count_metric p ''risks_by_timing('other', Count)'')]),
            (''by_domain'',
               PDict (case p ''domain(D, _)'' of
                        Inl e \<Rightarrow> []
                      | Inr domains \<Rightarrow> by_domain_loop ops p [] domains))]"

definition dominant_pattern :: "prolog \<Rightarrow> pyval" where
  "dominant_pattern p =
     try_or_none (
       bindE (p ''dominant_pattern(E, I, T, C)'') (\<lambda>dominant.
         case dominant of
           [] \<Rightarrow> Inr PNone
         | sol # rest \<Rightarrow>
             bindE (py_subscript (PDict sol) ''E'') (\<lambda>entity.
             bindE (py_subscript (PDict sol) ''I'') (\<lambda>intent.
             bindE (py_subscript (PDict sol) ''T'') (\<lambda>timing.
             bindE (py_subscript (PDict sol) ''C'') (\<lambda>c.
               Inr (PDict [(''entity'', entity), (''intent'', intent),
                           (''timing'', timing), (''count'', c)])))))))"

definition run_context_analysis :: "py_ops \<Rightarrow> prolog \<Rightarrow> pyval" where
  "run_context_analysis ops p =
     PDict [(''risk_profile_comparison'',
               try_or_none (first_binding p ''risk_profile_comparison(C)'' ''C'')),
            (''dominant_pattern'', dominant_pattern p),
            (''fully_defined_causality_percentage'',
               rounded_metric ops p ''fully_defined_causality_percentage(P)'' ''P''),
            (''domain_coverage_percentage'',
               rounded_metric ops p ''domain_coverage_percentage(P)'' ''P''),
            (''subdomain_coverage_percentage'',
               rounded_metric ops p ''subdomain_coverage_percentage(P)'' ''P'')]"

text \<open>
  The \<open>try\<close> block of \<open>node_execute_heuristic_analysis\<close>.  Each of the four functions
  catches its own exceptions, so the block yields the dictionary.
\<close>

definition heuristic_results :: "py_ops \<Rightarrow> prolog \<Rightarrow> pyexn + pyval" where
  "heuristic_results ops p =
     Inr (PDict [(''executive_summary'', run_executive_summary ops p),
                 (''counting'', run_basic_counting_analysis ops p),
                 (''patterns'', run_pattern_analysis ops p),
                 (''context'', run_context_analysis ops p)])"

section \<open>The world outside the stages\<close>

text \<open>
  Files, the clock, the identifier generator, the generation service, the Prolog runtime
  and the report renderer are parameters: each call gives a value or raises.  The record
  fixes one behaviour for the whole run.  \<open>validate_domain\<close> is the validation of the
  generated document followed by \<open>model_dump\<close>; \<open>prolog_start\<close> is \<open>Prolog()\<close>,
  \<open>consult\<close> and the \<open>assertz\<close> of every fact; \<open>repr_errors\<close> is the text of a
  list of strings inside an f-string.
\<close>

record env =
  pyops :: py_ops
  base_dir :: string
  timestamp :: string
  uuid4_hex :: string
  read_json :: "string \<Rightarrow> pyexn + pyval"
  is_file :: "string \<Rightarrow> bool"
  make_dirs :: "string \<Rightarrow> pyexn + unit"
  write_json :: "string \<Rightarrow> pyval \<Rightarrow> pyexn + unit"
  get_llm_instance :: "pyexn + unit"
  structured_client :: "pyexn + unit"
  domain_llm :: "pyval \<Rightarrow> pyval \<Rightarrow> pyexn + pyval"
  validate_domain :: "pyval \<Rightarrow> pyexn + pyval"
  causality_llm :: "pyval \<Rightarrow> string \<Rightarrow> pyexn + pyval"
  rules_file_exists :: bool
  prolog_start :: "fact list \<Rightarrow> pyexn + prolog"
  summary_text :: "pyval \<Rightarrow> pyval \<Rightarrow> pyval \<Rightarrow> pyexn + string"
  html_report :: "pyval \<Rightarrow> pyval \<Rightarrow> pyval \<Rightarrow> pyval \<Rightarrow> pyexn + string"
  repr_errors :: "string list \<Rightarrow> string"

text \<open>\<open>state.get(key)\<close>, and the tests and defaults the nodes apply to it.\<close>

definition opt_val :: "pyval option \<Rightarrow> pyval" where
  "opt_val x = (case x of None \<Rightarrow> PNone | Some v \<Rightarrow> v)"

definition is_none :: "pyval option \<Rightarrow> bool" where
  "is_none x = (opt_val x = PNone)"

definition or_empty :: "pyval \<Rightarrow> pyval" where
  "or_empty v = (if truthy v then v else PDict [])"

definition get_or_empty :: "pyval option \<Rightarrow> pyval" where
  "get_or_empty x = (case x of None \<Rightarrow> PDict [] | Some v \<Rightarrow> v)"

text \<open>\<open>len(v)\<close>.\<close>

definition py_len :: "pyval \<Rightarrow> pyexn + nat" where
  "py_len v =
     (case v of
        PDict kvs \<Rightarrow> Inr (length kvs)
      | PList xs \<Rightarrow> Inr (length xs)
      | PStr s \<Rightarrow> Inr (length s)
      | _ \<Rightarrow> Inl (PyExn TypeError (''object of type '' @ quoted (type_name v) @ '' has no len()'')))"

text \<open>\<open>v[k] = x\<close> for a string \<open>k\<close>.\<close>

definition py_setitem :: "pyval \<Rightarrow> string \<Rightarrow> pyval \<Rightarrow> pyexn + pyval" where
  "py_setitem v k x =
     (case v of
        PDict kvs \<Rightarrow> Inr (PDict (dict_set kvs k x))
      | PList xs \<Rightarrow> Inl (PyExn TypeError ''list indices must be integers or slices, not str'')
      | _ \<Rightarrow> Inl (PyExn TypeError
                 (quoted (type_name v) @ '' object does not support item assignment'')))"

text \<open>
  \<open>dict(v)\<close>: a copy of a dictionary, or the dictionary of a list of pairs with string
  keys.  Any other argument is taken to raise (pairs in another shape and keys that are
  not strings are outside this model).
\<close>

fun pairs_of :: "pyval list \<Rightarrow> (string \<times> pyval) list option" where
  "pairs_of [] = Some []"
| "pairs_of (PList [PStr k, x] # rest) =
     (case pairs_of rest of None \<Rightarrow> None | Some kvs \<Rightarrow> Some ((k, x) # kvs))"
| "pairs_of (v # rest) = None"

definition py_dict :: "pyval \<Rightarrow> pyexn + (string \<times> pyval) list" where
  "py_dict v =
     (case v of
        PDict kvs \<Rightarrow> Inr kvs
      | PList xs \<Rightarrow>
          (case pairs_of xs of
             Some kvs \<Rightarrow> Inr (fold (\<lambda>kv acc. dict_set acc (fst kv) (snd kv)) kvs [])
           | None \<Rightarrow> Inl (PyExn ValueError ''dictionary update sequence element has the wrong length''))
      | _ \<Rightarrow> Inl (PyExn TypeError (quoted (type_name v) @ '' object is not iterable'')))"

text \<open>
  The metadata envelope of a saved file: \<open>meta.update\<close> with the timestamp, the step
  labels and the error list.
\<close>

definition envelope :: "env \<Rightarrow> (string \<times> pyval) list \<Rightarrow> string \<Rightarrow> pyval \<Rightarrow> string list \<Rightarrow> (string \<times> pyval) list" where
  "envelope ev meta current_step next_step errs =
     dict_set (dict_set (dict_set (dict_set meta
       ''timestamp'' (PStr (timestamp ev)))
       ''analysis_current_step'' (PStr current_step))
       ''analysis_next_step'' next_step)
       ''errors'' (PList (map PStr errs))"

text \<open>
  The arguments of the log call after a save in the domain and causality stages:
  \<open>len(analysis)\<close> and \<open>sum(len(v.get("risks", [])) for v in analysis.values())\<close>.
\<close>

fun risk_counts :: "(string \<times> pyval) list \<Rightarrow> pyexn + unit" where
  "risk_counts [] = Inr ()"
| "risk_counts (kv # rest) =
     bindE (py_get (snd kv) ''risks'' (PList [])) (\<lambda>risks.
     bindE (py_len risks) (\<lambda>n. risk_counts rest))"

definition save_log :: "state \<Rightarrow> pyexn + unit" where
  "save_log s =
     bindE (py_len (get_or_empty (analysis s))) (\<lambda>n.
     bindE (py_items (get_or_empty (analysis s))) risk_counts)"

section \<open>The heuristic analyzer: nodes\<close>

definition heuristic_node_load :: "state \<Rightarrow> state outcome" where
  "heuristic_node_load s =
     (let s1 = s\<lparr>errors := []\<rparr> in
      if is_none (analysis s1) then
        Returned (s1\<lparr>errors := add_error ''No analysis data present in initial state'' (errors s1)\<rparr>)
      else
        (let s2 = (if is_none (metadata s1) then s1\<lparr>metadata := Some (PDict [])\<rparr> else s1) in
         case py_len (get_or_empty (analysis s2)) of
           Inl e \<Rightarrow> Raised e s2
         | Inr n \<Rightarrow> Returned s2))"

definition rules_file :: "env \<Rightarrow> string" where
  "rules_file ev = base_dir ev @ ''/agents/heuristic_analyzer/rules.pl''"

text \<open>
  The \<open>try\<close> block of \<open>node_initialize_prolog\<close>, and the node: the handler records
  the message and raises again.
\<close>

definition prolog_outcome :: "env \<Rightarrow> state \<Rightarrow> pyexn + prolog" where
  "prolog_outcome ev s =
     (if \<not> rules_file_exists ev
      then Inl (PyExn FileNotFoundError (''Rules file not found: '' @ rules_file ev))
      else prolog_start ev (prolog_facts s))"

definition node_initialize_prolog :: "env \<Rightarrow> state \<Rightarrow> state outcome" where
  "node_initialize_prolog ev s =
     (case prolog_outcome ev s of
        Inr pl \<Rightarrow> Returned (s\<lparr>prolog := Some pl\<rparr>)
      | Inl e \<Rightarrow>
          Raised (PyExn RuntimeError (''Prolog initialization failed: '' @ exn_str e))
            (s\<lparr>errors := add_error (''Prolog initialization failed: '' @ exn_str e) (errors s)\<rparr>))"

definition node_execute_heuristic_analysis :: "env \<Rightarrow> state \<Rightarrow> state outcome" where
  "node_execute_heuristic_analysis ev s =
     (case prolog s of
        None \<Rightarrow> Returned (s\<lparr>errors := add_error ''Prolog instance not available'' (errors s)\<rparr>)
      | Some pl \<Rightarrow>
          (case heuristic_results (pyops ev) pl of
             Inr h \<Rightarrow> Returned (s\<lparr>heuristic := Some h\<rparr>)
           | Inl e \<Rightarrow>
               Raised (PyExn RuntimeError (''Heuristic analysis failed: '' @ exn_str e))
                 (s\<lparr>errors := add_error (''Heuristic analysis failed: '' @ exn_str e) (errors s)\<rparr>)))"

text \<open>
  The \<open>try\<close> block of the heuristic \<open>node_save\<close>: the directory, the run identifier,
  the file, and the arguments of the log call.
\<close>

definition heuristic_save :: "env \<Rightarrow> state \<Rightarrow> pyexn + unit" where
  "heuristic_save ev s =
     bindE (make_dirs ev (base_dir ev @ ''/files/analysis/heuristic'')) (\<lambda>u.
     bindE (py_get (or_empty (opt_val (metadata s))) ''run_id'' PNone) (\<lambda>run_id.
       if \<not> truthy run_id then
         Inl (PyExn RuntimeError ''Missing run_id in state; run must start from domain analyzer'')
       else
         bindE (py_dict (or_empty (opt_val (metadata s)))) (\<lambda>meta.
         bindE (write_json ev
                  (base_dir ev @ ''/files/analysis/heuristic/heuristic_analysis_'' @
                   py_format (pyops ev) run_id @ ''.json'')
                  (PDict [(''metadata'',
                             PDict (envelope ev meta ''heuristic_evaluation''
                                      (PStr ''report_generation'') (errors s))),
                          (''analysis'', opt_val (analysis s)),
                          (''heuristic'', opt_val (heuristic s))])) (\<lambda>w.
         bindE (py_get (get_or_empty (heuristic s)) ''counting'' (PDict [])) (\<lambda>counting.
         bindE (py_get counting ''total_risks'' PNone) (\<lambda>t.
         bindE (py_get (get_or_empty (heuristic s)) ''executive_summary'' (PDict [])) (\<lambda>summary.
         bindE (py_get summary ''global_risk_score'' PNone) (\<lambda>g. Inr ()))))))))"

definition heuristic_node_save :: "env \<Rightarrow> state \<Rightarrow> state outcome" where
  "heuristic_node_save ev s =
     (case heuristic_save ev s of
        Inr u \<Rightarrow> Returned s
      | Inl e \<Rightarrow> Returned (s\<lparr>errors := add_error (''Save failed: '' @ exn_str e) (errors s)\<rparr>))"

text \<open>
  A compiled linear graph runs its nodes in the order of the edges; an exception in a node
  ends the invocation.  Between two nodes the state lives in channels.  Every state class
  declares \<open>errors: Annotated[List[str], add]\<close>: after a node the channel of the error
  list holds its own list followed by the list the node returned, and every other field
  holds what the node returned.  A node is given the list of the channel itself and
  returns its whole state.  So a node that appends in place has already changed the
  channel's list when the update adds the returned list, the same object, to it: the
  channel then holds the returned list twice.  A node that first rebinds
  \<open>state["errors"]\<close> to a new list (the load nodes of the causality, heuristic and
  report stages) leaves the channel's list as it was: the channel then holds the list it
  had followed by the new one.
\<close>

definition in_place :: "(state \<Rightarrow> state outcome) \<Rightarrow> state \<Rightarrow> state outcome" where
  "in_place node s =
     (case node s of
        Returned s' \<Rightarrow> Returned (s'\<lparr>errors := errors s' @ errors s'\<rparr>)
      | Raised e s' \<Rightarrow> Raised e s')"

definition rebound :: "(state \<Rightarrow> state outcome) \<Rightarrow> state \<Rightarrow> state outcome" where
  "rebound node s =
     (case node s of
        Returned s' \<Rightarrow> Returned (s'\<lparr>errors := errors s @ errors s'\<rparr>)
      | Raised e s' \<Rightarrow> Raised e s')"

definition then_node :: "state outcome \<Rightarrow> (state \<Rightarrow> state outcome) \<Rightarrow> state outcome" where
  "then_node r node = (case r of Returned s \<Rightarrow> node s | Raised e s \<Rightarrow> Raised e s)"

definition heuristic_graph :: "env \<Rightarrow> state \<Rightarrow> state outcome" where
  "heuristic_graph ev s =
     then_node (then_node (then_node (then_node
       (rebound heuristic_node_load s)
       (in_place node_generate_prolog_facts))
       (in_place (node_initialize_prolog ev)))
       (in_place (node_execute_heuristic_analysis ev)))
       (in_place (heuristic_node_save ev))"

section \<open>The domain analyzer: nodes\<close>

text \<open>
  \<open>node_load\<close> handles a missing file and invalid JSON; any other exception of its
  \<open>try\<close> block leaves the node.  The run identifier of the document is kept when it is
  truthy; otherwise \<open>uuid4().hex\<close> is taken.
\<close>

definition domain_node_load :: "env \<Rightarrow> string \<Rightarrow> state \<Rightarrow> state outcome" where
  "domain_node_load ev file_path s =
     (case read_json ev file_path of
        Inl e \<Rightarrow>
          (if exn_kind_of e = FileNotFoundError then
             Returned (s\<lparr>errors := add_error
               (''[DOMAIN][FATAL] load_questionnaire: file_not_found file_path='' @ file_path)
               (errors s)\<rparr>)
           else if exn_kind_of e = JSONDecodeError then
             Returned (s\<lparr>errors := add_error
               (''[DOMAIN][FATAL] load_questionnaire: invalid_json file_path='' @ file_path @
                '' error='' @ exn_str e)
               (errors s)\<rparr>)
           else Raised e s)
      | Inr q \<Rightarrow>
          (let s1 = s\<lparr>questionnaire := Some q\<rparr> in
           case bindE (py_get q ''metadata'' (PDict [])) (\<lambda>m.
                bindE (py_get (or_empty m) ''run_id'' PNone) (\<lambda>r.
                  py_setitem (get_or_empty (metadata s1)) ''run_id''
                    (if truthy r then r else PStr (uuid4_hex ev)))) of
             Inl e \<Rightarrow> Raised e s1
           | Inr md \<Rightarrow> Returned (s1\<lparr>metadata := Some md\<rparr>)))"

definition domain_node_validate :: "state \<Rightarrow> state outcome" where
  "domain_node_validate s =
     (let data = opt_val (questionnaire s) in
      if \<not> truthy data then
        Returned (s\<lparr>errors := add_error ''Missing questionnaire'' (errors s)\<rparr>)
      else
        (case py_contains ''metadata'' data of
           Inl e \<Rightarrow> Raised e s
         | Inr False \<Rightarrow>
             Returned (s\<lparr>errors := add_error ''Missing field: metadata'' (errors s)\<rparr>)
         | Inr True \<Rightarrow>
             (case py_contains ''responses'' data of
                Inl e \<Rightarrow> Raised e s
              | Inr False \<Rightarrow>
                  Returned (s\<lparr>errors := add_error ''Missing field: responses'' (errors s)\<rparr>)
              | Inr True \<Rightarrow>
                  (case bindE (py_get (or_empty (opt_val (metadata s))) ''run_id'' PNone) (\<lambda>existing_run.
                        bindE (py_get data ''metadata'' PNone) (\<lambda>m.
                        bindE (py_dict (or_empty m)) (\<lambda>md. Inr (existing_run, md)))) of
                     Inl e \<Rightarrow> Raised e s
                   | Inr (existing_run, md) \<Rightarrow>
                       Returned (s\<lparr>metadata := Some (PDict
                         (if truthy existing_run \<and> \<not> truthy (dict_get md ''run_id'' PNone)
                          then dict_set md ''run_id'' existing_run else md))\<rparr>)))))"

text \<open>
  What \<open>node_analyze\<close> does with the responses before its \<open>try\<close> block:
  \<open>len(responses)\<close>, then \<open>responses.items()\<close> and \<open>resp.get\<close> on every answer.
\<close>

fun answers_readable :: "(string \<times> pyval) list \<Rightarrow> pyexn + unit" where
  "answers_readable [] = Inr ()"
| "answers_readable (kv # rest) =
     bindE (py_get (snd kv) ''question'' PNone) (\<lambda>q. answers_readable rest)"

definition domain_prompt :: "state \<Rightarrow> pyexn + pyval \<times> pyval" where
  "domain_prompt s =
     (let data = opt_val (questionnaire s) in
      bindE (py_get data ''responses'' (PDict [])) (\<lambda>responses.
      bindE (py_len responses) (\<lambda>n.
      bindE (py_get data ''metadata'' PNone) (\<lambda>m.
      bindE (py_get (or_empty m) ''language'' (PStr ''en'')) (\<lambda>language.
      bindE (py_items responses) (\<lambda>items.
      bindE (answers_readable items) (\<lambda>u. Inr (responses, language))))))))"

text \<open>
  \<open>node_analyze\<close>: the client and the prompt come before the \<open>try\<close> block; the
  check for a missing questionnaire appends its message without looking for it.
\<close>

definition domain_node_analyze :: "env \<Rightarrow> state \<Rightarrow> state outcome" where
  "domain_node_analyze ev s =
     (case get_llm_instance ev of
        Inl e \<Rightarrow> Raised e s
      | Inr u \<Rightarrow>
          if \<not> truthy (opt_val (questionnaire s)) then
            Returned (s\<lparr>errors := errors s @ [''analyze_responses: no_questionnaire'']\<rparr>)
          else
            (case domain_prompt s of
               Inl e \<Rightarrow> Raised e s
             | Inr (responses, language) \<Rightarrow>
                 (case bindE (structured_client ev) (\<lambda>u. domain_llm ev responses language) of
                    Inl e \<Rightarrow>
                      Returned (s\<lparr>errors := add_error (''[DOMAIN][FATAL] '' @ exn_str e) (errors s)\<rparr>)
                  | Inr parsed \<Rightarrow>
                      (case validate_domain ev parsed of
                         Inr a \<Rightarrow> Returned (s\<lparr>analysis := Some a\<rparr>)
                       | Inl e \<Rightarrow>
                           if exn_kind_of e = ValidationError then
                             Returned (s\<lparr>errors := add_error
                               (''[DOMAIN][FATAL] validation_error: '' @ exn_str e) (errors s)\<rparr>)
                           else
                             Returned (s\<lparr>errors := add_error
                               (''[DOMAIN][FATAL] '' @ exn_str e) (errors s)\<rparr>)))))"

definition domain_save_output :: "env \<Rightarrow> state \<Rightarrow> pyexn + string" where
  "domain_save_output ev s =
     bindE (make_dirs ev (base_dir ev @ ''/files/analysis/domain'')) (\<lambda>u.
     bindE (py_get (get_or_empty (metadata s)) ''run_id'' PNone) (\<lambda>run_id.
       if \<not> truthy run_id then
         Inl (PyExn RuntimeError
           ''Missing run_id in state; ensure the flow starts from domain analyzer which creates run_id'')
       else
         (let path = base_dir ev @ ''/files/analysis/domain/domain_analysis_'' @
                     py_format (pyops ev) run_id @ ''.json'' in
          bindE (py_dict (or_empty (opt_val (metadata s)))) (\<lambda>meta.
          bindE (write_json ev path
                   (PDict [(''metadata'',
                              PDict (envelope ev meta ''domain_evaluation''
                                       (PStr ''causality_evaluation'') (errors s))),
                           (''analysis'', opt_val (analysis s))])) (\<lambda>w. Inr path)))))"

definition domain_node_save :: "env \<Rightarrow> state \<Rightarrow> state outcome" where
  "domain_node_save ev s =
     (case bindE (domain_save_output ev s) (\<lambda>out_path. save_log s) of
        Inr u \<Rightarrow> Returned s
      | Inl e \<Rightarrow> Returned (s\<lparr>errors := add_error (exn_str e) (errors s)\<rparr>))"

definition domain_graph :: "env \<Rightarrow> string \<Rightarrow> state \<Rightarrow> state outcome" where
  "domain_graph ev file_path s =
     then_node (then_node (then_node
       (in_place (domain_node_load ev file_path) s)
       (in_place domain_node_validate))
       (in_place (domain_node_analyze ev)))
       (in_place (domain_node_save ev))"

section \<open>The causality analyzer: nodes\<close>

definition causality_node_load :: "state \<Rightarrow> state outcome" where
  "causality_node_load s =
     (let s1 = s\<lparr>errors := []\<rparr> in
      if is_none (analysis s1) then
        Returned (s1\<lparr>errors := add_error ''No analysis data present in initial state'' (errors s1)\<rparr>)
      else Returned s1)"

fun validate_items :: "(string \<times> pyval) list \<Rightarrow> pyexn + unit" where
  "validate_items [] = Inr ()"
| "validate_items (kv # rest) =
     (case snd kv of
        PDict entry \<Rightarrow>
          (case map_of entry ''risks'' of
             None \<Rightarrow> Inl (PyExn ValueError (''Domain '' @ fst kv @ '' missing 'risks' list''))
           | Some (PList rs) \<Rightarrow> validate_items rest
           | Some x \<Rightarrow> Inl (PyExn ValueError (''Domain '' @ fst kv @ '' 'risks' must be a list'')))
      | _ \<Rightarrow> Inl (PyExn ValueError (''Domain '' @ fst kv @ '' missing 'risks' list'')))"

text \<open>\<open>node_validate\<close>: the handler appends \<open>str(e)\<close> without looking for it.\<close>

definition causality_node_validate :: "state \<Rightarrow> state outcome" where
  "causality_node_validate s =
     (if is_none (analysis s) then
        Returned (s\<lparr>errors := add_error ''No analysis data present to validate'' (errors s)\<rparr>)
      else
        (case bindE (py_items (opt_val (analysis s))) validate_items of
           Inr u \<Rightarrow> Returned s
         | Inl e \<Rightarrow> Returned (s\<lparr>errors := errors s @ [exn_str e]\<rparr>)))"

definition flat_to_nested_risk :: "pyval \<Rightarrow> pyexn + pyval" where
  "flat_to_nested_risk flat =
     bindE (py_subscript flat ''title'') (\<lambda>title.
     bindE (py_subscript flat ''explanation'') (\<lambda>explanation.
     bindE (py_subscript flat ''severity'') (\<lambda>severity.
     bindE (py_get flat ''severity_rationale'' (PStr [])) (\<lambda>severity_rationale.
     bindE (py_subscript flat ''mitigation'') (\<lambda>mitigation.
     bindE (py_subscript flat ''entity'') (\<lambda>entity.
     bindE (py_subscript flat ''entity_rationale'') (\<lambda>entity_rationale.
     bindE (py_subscript flat ''intent'') (\<lambda>intent.
     bindE (py_subscript flat ''intent_rationale'') (\<lambda>intent_rationale.
     bindE (py_subscript flat ''timing'') (\<lambda>timing.
     bindE (py_subscript flat ''timing_rationale'') (\<lambda>timing_rationale.
       Inr (PDict
         [(''title'', title), (''explanation'', explanation), (''severity'', severity),
          (''severity_rationale'', severity_rationale), (''mitigation'', mitigation),
          (''causality'',
             PDict [(''entity'', PDict [(''value'', entity), (''rationale'', entity_rationale)]),
                    (''intent'', PDict [(''value'', intent), (''rationale'', intent_rationale)]),
                    (''timing'', PDict [(''value'', timing), (''rationale'', timing_rationale)])])]
       ))))))))))))"

fun nested_risks :: "pyval list \<Rightarrow> pyexn + pyval list" where
  "nested_risks [] = Inr []"
| "nested_risks (risk # rest) =
     bindE (flat_to_nested_risk risk) (\<lambda>r.
     bindE (nested_risks rest) (\<lambda>rs. Inr (r # rs)))"

fun nested_items :: "(string \<times> pyval) list \<Rightarrow> pyexn + (string \<times> pyval) list" where
  "nested_items [] = Inr []"
| "nested_items (kv # rest) =
     bindE (py_subscript (snd kv) ''risks'') (\<lambda>risks.
     bindE (py_iter risks) (\<lambda>rs.
     bindE (nested_risks rs) (\<lambda>ns.
     bindE (nested_items rest) (\<lambda>items.
       Inr ((fst kv, PDict [(''risks'', PList ns)]) # items)))))"

definition convert_analysis_to_nested :: "pyval \<Rightarrow> pyexn + pyval" where
  "convert_analysis_to_nested a =
     bindE (py_items a) (\<lambda>kvs. bindE (nested_items kvs) (\<lambda>items. Inr (PDict items)))"

text \<open>
  \<open>node_analyze\<close>: the client, the language and the prompt come before the \<open>try\<close>
  block (the prompt needs a string for the language); the handler appends \<open>str(e)\<close>
  without looking for it.
\<close>

definition causality_prompt :: "env \<Rightarrow> state \<Rightarrow> pyexn + string" where
  "causality_prompt ev s =
     bindE (get_llm_instance ev) (\<lambda>u.
     bindE (py_get (or_empty (opt_val (metadata s))) ''language'' (PStr ''en'')) (\<lambda>language.
     bindE (case language of
              PStr l \<Rightarrow> Inr l
            | _ \<Rightarrow> Inl (PyExn TypeError
                     (''replace() argument 2 must be str, not '' @ type_name language))) (\<lambda>l.
     bindE (structured_client ev) (\<lambda>u. Inr l))))"

definition causality_node_analyze :: "env \<Rightarrow> state \<Rightarrow> state outcome" where
  "causality_node_analyze ev s =
     (case causality_prompt ev s of
        Inl e \<Rightarrow> Raised e s
      | Inr l \<Rightarrow>
          (case bindE (causality_llm ev (opt_val (analysis s)) l) convert_analysis_to_nested of
             Inr a \<Rightarrow> Returned (s\<lparr>analysis := Some a\<rparr>)
           | Inl e \<Rightarrow> Returned (s\<lparr>errors := errors s @ [exn_str e]\<rparr>)))"

definition causality_save_output :: "env \<Rightarrow> state \<Rightarrow> pyexn + string" where
  "causality_save_output ev s =
     bindE (make_dirs ev (base_dir ev @ ''/files/analysis/causality'')) (\<lambda>u.
     bindE (py_get (or_empty (opt_val (metadata s))) ''run_id'' PNone) (\<lambda>run_id.
       if \<not> truthy run_id then
         Inl (PyExn RuntimeError ''Missing run_id in state; run must start from domain analyzer'')
       else
         (let path = base_dir ev @ ''/files/analysis/causality/causality_analysis_'' @
                     py_format (pyops ev) run_id @ ''.json'' in
          bindE (py_dict (or_empty (opt_val (metadata s)))) (\<lambda>meta.
          bindE (write_json ev path
                   (PDict [(''metadata'',
                              PDict (envelope ev meta ''causality_evaluation''
                                       (PStr ''heuristic_evaluation'') (errors s))),
                           (''analysis'', opt_val (analysis s))])) (\<lambda>w. Inr path)))))"

text \<open>
  \<open>node_save\<close>: the handler appends the message, and then appends it again unless it
  is in the list, which it now is.
\<close>

definition causality_node_save :: "env \<Rightarrow> state \<Rightarrow> state outcome" where
  "causality_node_save ev s =
     (case bindE (causality_save_output ev s) (\<lambda>out_path. save_log s) of
        Inr u \<Rightarrow> Returned s
      | Inl e \<Rightarrow>
          Returned (s\<lparr>errors := add_error (exn_str e) (errors s @ [exn_str e])\<rparr>))"

definition causality_graph :: "env \<Rightarrow> state \<Rightarrow> state outcome" where
  "causality_graph ev s =
     then_node (then_node (then_node
       (rebound causality_node_load s)
       (in_place causality_node_validate))
       (in_place (causality_node_analyze ev)))
       (in_place (causality_node_save ev))"

section \<open>The report generator: nodes\<close>

definition report_node_load :: "state \<Rightarrow> state outcome" where
  "report_node_load s =
     (let s1 = s\<lparr>errors := []\<rparr> in
      if is_none (analysis s1) \<or> is_none (heuristic s1) then
        Returned (s1\<lparr>errors :=
          add_error ''Missing analysis or heuristic data in initial state'' (errors s1)\<rparr>)
      else
        (let s2 = (if is_none (questionnaire s1) then s1\<lparr>questionnaire := Some (PDict [])\<rparr> else s1);
             s3 = (if is_none (metadata s2) then s2\<lparr>metadata := Some (PDict [])\<rparr> else s2)
         in case bindE (py_get (get_or_empty (heuristic s3)) ''counting'' (PDict [])) (\<lambda>counting.
                 py_get counting ''total_risks'' PNone) of
              Inl e \<Rightarrow> Raised e s3
            | Inr t \<Rightarrow> Returned s3))"

text \<open>
  \<open>node_generate_html_report\<close>: the whole body is one \<open>try\<close> block whose handler
  only logs.  The summary text is stored in the metadata before the report is rendered,
  and stays there when the rendering fails.
\<close>

definition node_generate_html_report :: "env \<Rightarrow> state \<Rightarrow> state outcome" where
  "node_generate_html_report ev s =
     (let s0 = (case metadata s of None \<Rightarrow> s\<lparr>metadata := Some (PDict [])\<rparr> | Some m \<Rightarrow> s);
          meta = get_or_empty (metadata s)
      in case bindE (py_get meta ''language'' (PStr ''en'')) (\<lambda>language.
              bindE (summary_text ev (get_or_empty (heuristic s)) (get_or_empty (analysis s)) language)
                (\<lambda>txt. py_setitem meta ''executive_summary_text'' (PStr txt))) of
           Inl e \<Rightarrow> Returned s0
         | Inr meta1 \<Rightarrow>
             (let s1 = s0\<lparr>metadata := Some meta1\<rparr>;
                  run_id = (case py_get meta1 ''run_id'' PNone of Inr r \<Rightarrow> r | Inl e \<Rightarrow> PNone);
                  answers_path = base_dir ev @ ''/files/answers/answers_'' @
                                 py_format (pyops ev) run_id @ ''.json'';
                  s2 = (if \<not> truthy (opt_val (questionnaire s1)) \<and> truthy run_id
                           \<and> is_file ev answers_path
                        then (case read_json ev answers_path of
                                Inr q \<Rightarrow> s1\<lparr>questionnaire := Some q\<rparr>
                              | Inl e \<Rightarrow> s1)
                        else s1)
              in case html_report ev (get_or_empty (metadata s2)) (get_or_empty (heuristic s2))
                        (get_or_empty (analysis s2)) (get_or_empty (questionnaire s2)) of
                   Inl e \<Rightarrow> Returned s2
                 | Inr path \<Rightarrow> Returned (s2\<lparr>html_path := Some path\<rparr>)))"

definition dict_setdefault :: "(string \<times> pyval) list \<Rightarrow> string \<Rightarrow> pyval \<Rightarrow> (string \<times> pyval) list" where
  "dict_setdefault kvs k v = (if map_of kvs k = None then dict_set kvs k v else kvs)"

definition report_save :: "env \<Rightarrow> state \<Rightarrow> pyexn + unit" where
  "report_save ev s =
     bindE (make_dirs ev (base_dir ev @ ''/files/reports'')) (\<lambda>u.
     bindE (py_get (or_empty (opt_val (metadata s))) ''run_id'' PNone) (\<lambda>run_id.
       if \<not> truthy run_id then
         Inl (PyExn RuntimeError ''Missing run_id in state; run must start from domain analyzer'')
       else
         bindE (py_dict (or_empty (opt_val (metadata s)))) (\<lambda>meta.
         bindE (py_dict (or_empty (dict_get meta ''taxonomy_versions'' PNone))) (\<lambda>tax.
           write_json ev
             (base_dir ev @ ''/files/reports/report_metadata_'' @ py_format (pyops ev) run_id @ ''.json'')
             (PDict
               (dict_set (dict_set (dict_set (dict_set (dict_set (dict_set meta
                  ''taxonomy_versions''
                    (PDict (dict_setdefault (dict_setdefault tax ''domain'' (PStr ''v0.1''))
                              ''causal'' (PStr ''v0.1''))))
                  ''timestamp'' (PStr (timestamp ev)))
                  ''analysis_current_step'' (PStr ''report_generation''))
                  ''analysis_next_step'' PNone)
                  ''html_report'' (case html_path s of None \<Rightarrow> PNone | Some h \<Rightarrow> PStr h))
                  ''errors'' (PList (map PStr (errors s)))))))))"

definition report_node_save :: "env \<Rightarrow> state \<Rightarrow> state outcome" where
  "report_node_save ev s =
     (case report_save ev s of
        Inr u \<Rightarrow> Returned s
      | Inl e \<Rightarrow>
          Returned (s\<lparr>errors := add_error (''Metadata save failed: '' @ exn_str e) (errors s)\<rparr>))"

definition report_graph :: "env \<Rightarrow> state \<Rightarrow> state outcome" where
  "report_graph ev s =
     then_node (then_node
       (rebound report_node_load s)
       (in_place (node_generate_html_report ev)))
       (in_place (report_node_save ev))"

section \<open>The orchestrator\<close>

text \<open>
  The orchestrator state holds the final state of every stage that has run.  A step takes
  the compiled graph of its stage; \<open>result.get("errors")\<close> is truthy when the list is
  not empty.  The stored states are values.  In the code a seed holds the metadata
  dictionary of the stage before it, not a copy, so a key that a later stage adds in place
  (\<open>executive_summary_text\<close> in the report stage) also shows in the states stored
  earlier; the keys an earlier stage has written keep their values.
\<close>

record orch =
  input_file :: string
  domain_state :: "state option"
  causality_state :: "state option"
  heuristic_state :: "state option"
  report_state :: "state option"

definition missing_key :: "string \<Rightarrow> pyexn" where
  "missing_key k = PyExn KeyError (quoted k)"

definition domain_step_with :: "(state \<Rightarrow> state outcome) \<Rightarrow> env \<Rightarrow> orch \<Rightarrow> orch outcome" where
  "domain_step_with graph ev os =
     (case domain_state os of
        None \<Rightarrow> Raised (missing_key ''domain_state'') os
      | Some seed \<Rightarrow>
          (case graph seed of
             Raised e s \<Rightarrow> Raised e os
           | Returned result \<Rightarrow>
               if errors result \<noteq> [] then
                 Raised (PyExn PlainException
                           (''Domain analysis failed: '' @ repr_errors ev (errors result))) os
               else Returned (os\<lparr>domain_state := Some result\<rparr>)))"

definition causality_seed :: "state \<Rightarrow> state" where
  "causality_seed d =
     \<lparr>metadata = Some (get_or_empty (metadata d)),
      questionnaire = Some (get_or_empty (questionnaire d)),
      analysis = Some (get_or_empty (analysis d)),
      heuristic = None, prolog_facts = [], prolog = None, html_path = None, errors = []\<rparr>"

definition causality_step_with :: "(state \<Rightarrow> state outcome) \<Rightarrow> env \<Rightarrow> orch \<Rightarrow> orch outcome" where
  "causality_step_with graph ev os =
     (case domain_state os of
        None \<Rightarrow> Raised (missing_key ''domain_state'') os
      | Some d \<Rightarrow>
          (case graph (causality_seed d) of
             Raised e s \<Rightarrow> Raised e os
           | Returned result \<Rightarrow>
               if errors result \<noteq> [] then
                 Raised (PyExn PlainException
                           (''Causality analysis failed: '' @ repr_errors ev (errors result))) os
               else Returned (os\<lparr>causality_state := Some result\<rparr>)))"

definition heuristic_seed :: "state \<Rightarrow> state" where
  "heuristic_seed c =
     \<lparr>metadata = Some (get_or_empty (metadata c)), questionnaire = None,
      analysis = Some (get_or_empty (analysis c)),
      heuristic = Some (PDict []), prolog_facts = [], prolog = None, html_path = None,
      errors = []\<rparr>"

definition heuristic_step_with :: "(state \<Rightarrow> state outcome) \<Rightarrow> env \<Rightarrow> orch \<Rightarrow> orch outcome" where
  "heuristic_step_with graph ev os =
     (case causality_state os of
        None \<Rightarrow> Raised (missing_key ''causality_state'') os
      | Some c \<Rightarrow>
          (case graph (heuristic_seed c) of
             Raised e s \<Rightarrow> Raised e os
           | Returned result \<Rightarrow>
               if errors result \<noteq> [] then
                 Raised (PyExn PlainException
                           (''Heuristic analysis failed: '' @ repr_errors ev (errors result))) os
               else Returned (os\<lparr>heuristic_state := Some result\<rparr>)))"

definition report_seed :: "state \<Rightarrow> state \<Rightarrow> state" where
  "report_seed h c =
     \<lparr>metadata = Some (get_or_empty (metadata h)),
      questionnaire = Some (get_or_empty (questionnaire c)),
      analysis = Some (get_or_empty (analysis h)),
      heuristic = Some (get_or_empty (heuristic h)),
      prolog_facts = [], prolog = None, html_path = Some [], errors = []\<rparr>"

definition report_step_with :: "(state \<Rightarrow> state outcome) \<Rightarrow> env \<Rightarrow> orch \<Rightarrow> orch outcome" where
  "report_step_with graph ev os =
     (case heuristic_state os of
        None \<Rightarrow> Raised (missing_key ''heuristic_state'') os
      | Some h \<Rightarrow>
          (case causality_state os of
             None \<Rightarrow> Raised (missing_key ''causality_state'') os
           | Some c \<Rightarrow>
               (case graph (report_seed h c) of
                  Raised e s \<Rightarrow> Raised e os
                | Returned result \<Rightarrow>
                    if errors result \<noteq> [] then
                      Raised (PyExn PlainException
                                (''Report generation failed: '' @ repr_errors ev (errors result))) os
                    else Returned (os\<lparr>report_state := Some result\<rparr>))))"

definition then_step :: "orch outcome \<Rightarrow> (orch \<Rightarrow> orch outcome) \<Rightarrow> orch outcome" where
  "then_step r step = (case r of Returned os \<Rightarrow> step os | Raised e os \<Rightarrow> Raised e os)"

text \<open>The orchestrator graph over the four compiled stage graphs.\<close>

definition orchestrate ::
  "(state \<Rightarrow> state outcome) \<Rightarrow> (state \<Rightarrow> state outcome) \<Rightarrow> (state \<Rightarrow> state outcome) \<Rightarrow>
   (state \<Rightarrow> state outcome) \<Rightarrow> env \<Rightarrow> orch \<Rightarrow> orch outcome" where
  "orchestrate g_domain g_causality g_heuristic g_report ev os =
     then_step (then_step (then_step
       (domain_step_with g_domain ev os)
       (causality_step_with g_causality ev))
       (heuristic_step_with g_heuristic ev))
       (report_step_with g_report ev)"

definition domain_step :: "env \<Rightarrow> orch \<Rightarrow> orch outcome" where
  "domain_step ev os = domain_step_with (domain_graph ev (input_file os)) ev os"

definition causality_step :: "env \<Rightarrow> orch \<Rightarrow> orch outcome" where
  "causality_step ev os = causality_step_with (causality_graph ev) ev os"

definition heuristic_step :: "env \<Rightarrow> orch \<Rightarrow> orch outcome" where
  "heuristic_step ev os = heuristic_step_with (heuristic_graph ev) ev os"

definition report_step :: "env \<Rightarrow> orch \<Rightarrow> orch outcome" where
  "report_step ev os = report_step_with (report_graph ev) ev os"

definition initial_orch :: "string \<Rightarrow> orch" where
  "initial_orch file =
     \<lparr>input_file = file,
      domain_state = Some \<lparr>metadata = Some (PDict []), questionnaire = Some (PDict []),
                           analysis = Some (PDict []), heuristic = None, prolog_facts = [],
                           prolog = None, html_path = None, errors = []\<rparr>,
      causality_state = None, heuristic_state = None, report_state = None\<rparr>"

definition run_orchestrator :: "env \<Rightarrow> string \<Rightarrow> orch outcome" where
  "run_orchestrator ev file =
     (if \<not> is_file ev file then
        Raised (PyExn FileNotFoundError (''Input file not found: '' @ file)) (initial_orch file)
      else
        orchestrate (domain_graph ev file) (causality_graph ev) (heuristic_graph ev)
          (report_graph ev) ev (initial_orch file))"

text \<open>
  What an alert is read against.  The first solution of a query binds a variable to a
  value.  The percentage of a count in the total is the float \<open>count / total * 100\<close>
  when the total is positive and the integer 0 otherwise.  A value rounded to two decimals
  is the integer itself for an integer and the rounded float for a float.  The number of
  distinct members of a list counts two numbers that denote the same number once.  The
  record of an alert holds a flag and a value.
\<close>

definition answers :: "prolog \<Rightarrow> string \<Rightarrow> string \<Rightarrow> pyval \<Rightarrow> bool" where
  "answers p q v x = (case p q of Inr (sol # rest) \<Rightarrow> map_of sol v = Some x | _ \<Rightarrow> False)"






section \<open>Reading the outcome of a node\<close>

text \<open>
  A node raises; it returns with the message put in the error list unless it is there; it
  returns with the message appended whatever the list holds.  A state lacks a run
  identifier when its metadata is absent or is a dictionary whose \<open>run_id\<close> is absent
  or falsy.
\<close>

definition raises :: "'a outcome \<Rightarrow> bool" where
  "raises r = (case r of Raised e s \<Rightarrow> True | Returned s \<Rightarrow> False)"

definition recorded :: "string \<Rightarrow> state \<Rightarrow> state outcome \<Rightarrow> bool" where
  "recorded msg s r = (r = Returned (s\<lparr>errors := add_error msg (errors s)\<rparr>))"

definition appended :: "string \<Rightarrow> state \<Rightarrow> state outcome \<Rightarrow> bool" where
  "appended msg s r = (r = Returned (s\<lparr>errors := errors s @ [msg]\<rparr>))"

definition lacks_run_id :: "state \<Rightarrow> bool" where
  "lacks_run_id s =
     (case metadata s of
        None \<Rightarrow> True
      | Some (PDict kvs) \<Rightarrow> \<not> truthy (dict_get kvs ''run_id'' PNone)
      | Some v \<Rightarrow> False)"

text \<open>
  The error list a pipeline returns, the run identifier a state carries, and what the
  orchestrator sees of a stage: the stage fails when its pipeline raises or returns a
  non-empty error list.
\<close>

definition final_errors :: "state outcome \<Rightarrow> string list option" where
  "final_errors r = (case r of Returned s \<Rightarrow> Some (errors s) | Raised e s \<Rightarrow> None)"

definition run_id_of :: "state \<Rightarrow> pyval option" where
  "run_id_of s = (case metadata s of Some (PDict kvs) \<Rightarrow> map_of kvs ''run_id'' | _ \<Rightarrow> None)"

definition stage_failed :: "state outcome \<Rightarrow> bool" where
  "stage_failed r = (case r of Raised e s \<Rightarrow> True | Returned s \<Rightarrow> errors s \<noteq> [])"

section \<open>Reading the fact base\<close>

datatype fact_kind = KDomain | KSubdomain | KRisk | KEntity | KIntent | KTiming

fun kind_of :: "fact \<Rightarrow> fact_kind" where
  "kind_of (DomainFact d n) = KDomain"
| "kind_of (SubdomainFact d s n) = KSubdomain"
| "kind_of (RiskFact d s i t sev) = KRisk"
| "kind_of (CausalityEntity d s i v) = KEntity"
| "kind_of (CausalityIntent d s i v) = KIntent"
| "kind_of (CausalityTiming d s i v) = KTiming"

text \<open>The (domain, subdomain, ordinal) triple of a risk fact or a causality fact.\<close>

fun risk_key :: "fact \<Rightarrow> (string \<times> string \<times> nat) option" where
  "risk_key (DomainFact d n) = None"
| "risk_key (SubdomainFact d s n) = None"
| "risk_key (RiskFact d s i t sev) = Some (d, s, i)"
| "risk_key (CausalityEntity d s i v) = Some (d, s, i)"
| "risk_key (CausalityIntent d s i v) = Some (d, s, i)"
| "risk_key (CausalityTiming d s i v) = Some (d, s, i)"

definition per_risk :: "fact \<Rightarrow> bool" where
  "per_risk f = (risk_key f \<noteq> None)"

definition keyed :: "fact list \<Rightarrow> (fact_kind \<times> (string \<times> string \<times> nat) option) list" where
  "keyed fs = map (\<lambda>f. (kind_of f, risk_key f)) (filter per_risk fs)"

text \<open>
  The inventory the extraction is written for: every entry a dictionary whose
  \<open>risks\<close>, when present, is a list of dictionaries; a title is a string; a
  \<open>causality\<close> is a dictionary, and next to a nested \<open>entity\<close> the
  \<open>intent\<close> and \<open>timing\<close> are dictionaries too.
\<close>

definition absent_or_dict :: "pyval option \<Rightarrow> bool" where
  "absent_or_dict x = (case x of None \<Rightarrow> True | Some v \<Rightarrow> is_dict v)"

definition valid_causality :: "pyval \<Rightarrow> bool" where
  "valid_causality c =
     (case c of
        PDict kvs \<Rightarrow>
          (case map_of kvs ''entity'' of
             Some (PDict e) \<Rightarrow>
               absent_or_dict (map_of kvs ''intent'') \<and> absent_or_dict (map_of kvs ''timing'')
           | _ \<Rightarrow> True)
      | _ \<Rightarrow> False)"

definition valid_risk :: "pyval \<Rightarrow> bool" where
  "valid_risk r =
     (case r of
        PDict kvs \<Rightarrow>
          (case map_of kvs ''title'' of None \<Rightarrow> True | Some t \<Rightarrow> is_str t) \<and>
          (case map_of kvs ''causality'' of None \<Rightarrow> True | Some c \<Rightarrow> valid_causality c)
      | _ \<Rightarrow> False)"

definition valid_content :: "pyval \<Rightarrow> bool" where
  "valid_content c =
     (case c of
        PDict kvs \<Rightarrow>
          (case map_of kvs ''risks'' of
             None \<Rightarrow> True
           | Some (PList rs) \<Rightarrow> list_all valid_risk rs
           | Some _ \<Rightarrow> False)
      | _ \<Rightarrow> False)"

definition valid_inventory :: "(string \<times> pyval) list \<Rightarrow> bool" where
  "valid_inventory a = list_all (\<lambda>kc. valid_content (snd kc)) a"

definition two_part_keys :: "(string \<times> pyval) list \<Rightarrow> bool" where
  "two_part_keys a = list_all (\<lambda>kc. length (split_dot (fst kc)) = 2) a"

text \<open>The risk list of one inventory entry.\<close>

definition risks_of :: "pyval \<Rightarrow> pyval list" where
  "risks_of content =
     (case content of
        PDict kvs \<Rightarrow> (case map_of kvs ''risks'' of Some (PList rs) \<Rightarrow> rs | _ \<Rightarrow> [])
      | _ \<Rightarrow> [])"

text \<open>
  The specification of the per-risk facts: for the risk at 1-based position \<open>i\<close> of
  subdomain \<open>d.s\<close>, one risk fact and the three causality facts, all four with the triple
  \<open>(d, s, i)\<close>.
\<close>

definition spec_block :: "string \<Rightarrow> string \<Rightarrow> nat \<Rightarrow> (fact_kind \<times> (string \<times> string \<times> nat) option) list" where
  "spec_block d s i =
     [(KRisk, Some (d, s, i)), (KEntity, Some (d, s, i)),
      (KIntent, Some (d, s, i)), (KTiming, Some (d, s, i))]"

definition spec_entry :: "string \<times> pyval \<Rightarrow> (fact_kind \<times> (string \<times> string \<times> nat) option) list" where
  "spec_entry kc =
     (case split_dot (fst kc) of
        [d, s] \<Rightarrow> concat (map (spec_block d s) [1 ..< Suc (length (risks_of (snd kc)))])
      | _ \<Rightarrow> [])"

definition spec_keyed :: "(string \<times> pyval) list \<Rightarrow> (fact_kind \<times> (string \<times> string \<times> nat) option) list" where
  "spec_keyed a = concat (map spec_entry a)"

text \<open>
  The value of one causality dimension in the nested form:
  \<open>risk["causality"][axis]["value"]\<close>, when every step is a dictionary with the key.
\<close>

definition nested_value :: "(string \<times> pyval) list \<Rightarrow> string \<Rightarrow> pyval option" where
  "nested_value kvs axis =
     (case map_of kvs ''causality'' of
        Some (PDict cs) \<Rightarrow>
          (case map_of cs axis of Some (PDict ds) \<Rightarrow> map_of ds ''value'' | _ \<Rightarrow> None)
      | _ \<Rightarrow> None)"

section \<open>Example data\<close>

text \<open>The inventory of the specification's scenario, its second risk reduced to a title.\<close>

definition example_risk_high :: pyval where
  "example_risk_high =
     PDict [(''title'', PStr ''Model inversion''),
            (''severity'', PStr ''high''),
            (''causality'',
               PDict [(''entity'', PDict [(''value'', PStr ''ai'')]),
                      (''intent'', PDict [(''value'', PStr ''intentional'')]),
                      (''timing'', PDict [(''value'', PStr ''post-deployment'')])])]"

definition example_risk_bare :: pyval where
  "example_risk_bare = PDict [(''title'', PStr ''Operator's slip'')]"

definition example_inventory :: "(string \<times> pyval) list" where
  "example_inventory =
     [(''2.1'', PDict [(''risks'', PList [example_risk_high, example_risk_bare])])]"

definition example_state :: "(string \<times> pyval) list \<Rightarrow> state" where
  "example_state a =
     \<lparr>metadata = Some (PDict [(''run_id'', PStr ''r1'')]), questionnaire = None,
      analysis = Some (PDict a), heuristic = Some (PDict []), prolog_facts = [],
      prolog = None, html_path = None, errors = []\<rparr>"

text \<open>
  Float operations without rounding error, rounding to two decimals half to even; and
  what a Prolog instance answers for the scenario inventory (two risks under \<open>2.1\<close>,
  one high and one low), for an empty fact base (every count 0, no other solution), and for
  a fact base of twelve risks whose six high-severity risks lie in four domains (the
  solutions name one domain twice, and one as the integer 4 and as the float 4.0).
\<close>

definition round_half_even :: "rat \<Rightarrow> int" where
  "round_half_even x =
     (if x - of_int \<lfloor>x\<rfloor> < 1 / 2 then \<lfloor>x\<rfloor>
      else if 1 / 2 < x - of_int \<lfloor>x\<rfloor> then \<lfloor>x\<rfloor> + 1
      else if even \<lfloor>x\<rfloor> then \<lfloor>x\<rfloor> else \<lfloor>x\<rfloor> + 1)"

definition exact_ops :: py_ops where
  "exact_ops = \<lparr>fdiv = (\<lambda>a b. a / b), fmul = (\<lambda>a b. a * b),
                 fround2 = (\<lambda>r. of_int (round_half_even (r * 100)) / 100),
                 str_other = (\<lambda>v. [])\<rparr>"




text \<open>
  A world in which everything works: the answers file exists and holds a questionnaire
  without a run identifier, the generation service returns one risk under \<open>2.1\<close>, the
  Prolog runtime starts and has no solution for any query, files can be written.
\<close>

definition example_questionnaire :: pyval where
  "example_questionnaire =
     PDict [(''metadata'', PDict [(''language'', PStr ''en'')]),
            (''responses'',
               PDict [(''2.1'', PDict [(''question'', PStr ''Is personal data processed?''),
                                       (''answer'', PStr ''Yes'')])])]"

definition example_flat_risk :: pyval where
  "example_flat_risk =
     PDict [(''title'', PStr ''Model inversion''), (''explanation'', PStr ''Training data leaks''),
            (''severity'', PStr ''high''), (''severity_rationale'', PStr ''Personal data''),
            (''mitigation'', PStr ''Differential privacy''),
            (''entity'', PStr ''ai''), (''entity_rationale'', PStr ''The model leaks''),
            (''intent'', PStr ''intentional''), (''intent_rationale'', PStr ''An attack''),
            (''timing'', PStr ''post-deployment''), (''timing_rationale'', PStr ''In use'')]"

definition example_env :: env where
  "example_env =
     \<lparr>pyops = exact_ops,
      base_dir = ''/srv/area'',
      timestamp = ''20250101_120000'',
      uuid4_hex = ''0123456789abcdef0123456789abcdef'',
      read_json = (\<lambda>path. if path = ''/srv/area/files/answers/a.json''
                     then Inr example_questionnaire
                     else Inl (PyExn FileNotFoundError ''No such file or directory'')),
      is_file = (\<lambda>path. path = ''/srv/area/files/answers/a.json''),
      make_dirs = (\<lambda>path. Inr ()),
      write_json = (\<lambda>path doc. Inr ()),
      get_llm_instance = Inr (),
      structured_client = Inr (),
      domain_llm = (\<lambda>responses language. Inr (PDict [(''2.1'', PDict [(''risks'', PList [example_flat_risk])])])),
      validate_domain = (\<lambda>parsed. Inr parsed),
      causality_llm = (\<lambda>a language. Inr (PDict [(''2.1'', PDict [(''risks'', PList [example_flat_risk])])])),
      rules_file_exists = True,
      prolog_start = (\<lambda>fs. Inr (\<lambda>q. Inr [])),
      summary_text = (\<lambda>h a language. Inr ''Summary''),
      html_report = (\<lambda>m h a q. Inr ''/srv/area/files/reports/report.html''),
      repr_errors = (\<lambda>errs. concat errs)\<rparr>"

text \<open>A state that has lost its identifier, and one entry without a risk list.\<close>

definition state_without_run_id :: state where
  "state_without_run_id =
     \<lparr>metadata = Some (PDict [(''language'', PStr ''en'')]), questionnaire = None,
      analysis = Some (PDict example_inventory), heuristic = Some (PDict []), prolog_facts = [],
      prolog = None, html_path = None, errors = []\<rparr>"

definition state_without_risks :: state where
  "state_without_risks =
     \<lparr>metadata = Some (PDict [(''run_id'', PStr ''r1'')]), questionnaire = None,
      analysis = Some (PDict [(''1.1'', PDict [])]), heuristic = None, prolog_facts = [],
      prolog = None, html_path = None, errors = []\<rparr>"

text \<open>
  Two more worlds: one whose generation service fails in the causality stage with the text
  the validation of \<open>state_without_risks\<close> records, and one whose answers file holds
  a questionnaire without responses.
\<close>

definition failing_service_env :: env where
  "failing_service_env =
     example_env\<lparr>causality_llm :=
       (\<lambda>a language. Inl (PyExn ValueError ''Domain 1.1 missing 'risks' list''))\<rparr>"

definition no_responses_env :: env where
  "no_responses_env =
     example_env\<lparr>read_json :=
       (\<lambda>path. Inr (PDict [(''metadata'', PDict [(''language'', PStr ''en'')])]))\<rparr>"

text \<open>
  The run of the orchestrator in that world: the answers file, the context the
  orchestrator starts the domain stage with, and the final context of each stage.  The
  last world differs in the answers file, which holds a JSON list.
\<close>

definition example_file :: string where
  "example_file = ''/srv/area/files/answers/a.json''"

definition example_initial :: state where
  "example_initial =
     \<lparr>metadata = Some (PDict []), questionnaire = Some (PDict []),
      analysis = Some (PDict []), heuristic = None, prolog_facts = [],
      prolog = None, html_path = None, errors = []\<rparr>"

definition example_domain_final :: state where
  "example_domain_final =
     \<lparr>metadata = Some (PDict [(''language'', PStr ''en''),
                              (''run_id'', PStr ''0123456789abcdef0123456789abcdef'')]),
      questionnaire = Some example_questionnaire,
      analysis = Some (PDict [(''2.1'', PDict [(''risks'', PList [example_flat_risk])])]),
      heuristic = None, prolog_facts = [], prolog = None, html_path = None, errors = []\<rparr>"

definition example_nested_risk :: pyval where
  "example_nested_risk =
     PDict [(''title'', PStr ''Model inversion''), (''explanation'', PStr ''Training data leaks''),
            (''severity'', PStr ''high''), (''severity_rationale'', PStr ''Personal data''),
            (''mitigation'', PStr ''Differential privacy''),
            (''causality'',
               PDict [(''entity'', PDict [(''value'', PStr ''ai''), (''rationale'', PStr ''The model leaks'')]),
                      (''intent'', PDict [(''value'', PStr ''intentional''), (''rationale'', PStr ''An attack'')]),
                      (''timing'', PDict [(''value'', PStr ''post-deployment''), (''rationale'', PStr ''In use'')])])]"

definition example_causality_final :: state where
  "example_causality_final =
     (causality_seed example_domain_final)\<lparr>analysis :=
        Some (PDict [(''2.1'', PDict [(''risks'', PList [example_nested_risk])])])\<rparr>"

definition example_heuristic_value :: pyval where
  "example_heuristic_value =
     PDict [(''executive_summary'', run_executive_summary exact_ops (\<lambda>q. Inr [])),
            (''counting'', run_basic_counting_analysis exact_ops (\<lambda>q. Inr [])),
            (''patterns'', run_pattern_analysis exact_ops (\<lambda>q. Inr [])),
            (''context'', run_context_analysis exact_ops (\<lambda>q. Inr []))]"

definition example_heuristic_final :: "fact list \<Rightarrow> state" where
  "example_heuristic_final fs =
     (heuristic_seed example_causality_final)
       \<lparr>prolog_facts := fs, prolog := Some (\<lambda>q. Inr []), heuristic := Some example_heuristic_value\<rparr>"

definition example_report_final :: state where
  "example_report_final =
     \<lparr>metadata = Some (PDict [(''language'', PStr ''en''),
                              (''run_id'', PStr ''0123456789abcdef0123456789abcdef''),
                              (''executive_summary_text'', PStr ''Summary'')]),
      questionnaire = Some example_questionnaire,
      analysis = Some (PDict [(''2.1'', PDict [(''risks'', PList [example_nested_risk])])]),
      heuristic = Some example_heuristic_value,
      prolog_facts = [], prolog = None,
      html_path = Some ''/srv/area/files/reports/report.html'', errors = []\<rparr>"

definition list_file_env :: env where
  "list_file_env = example_env\<lparr>read_json := (\<lambda>path. Inr (PList []))\<rparr>"

section \<open>Properties of the fact extraction\<close>


lemma bindE_Inr [simp]: "bindE (Inr x) f = f x" by (simp add: bindE_def)
lemma bindE_Inl [simp]: "bindE (Inl e) f = Inl e" by (simp add: bindE_def)

lemma causality_values_valid:
  assumes "valid_causality c"
  shows "\<exists>e i t. causality_values (PDict kvs) c = Inr (e, i, t)"
proof -
  from assms obtain cs where c: "c = PDict cs"
    by (cases c) (auto simp: valid_causality_def)
  show ?thesis
  proof (cases "map_of cs ''entity''")
    case None
    then show ?thesis
      by (simp add: c causality_values_def py_contains_def py_get_def)
  next
    case (Some ev)
    show ?thesis
    proof (cases "is_dict ev")
      case False
      then show ?thesis using Some
        by (simp add: c causality_values_def py_contains_def py_get_def py_subscript_def)
    next
      case True
      then obtain es where ev: "ev = PDict es" by (cases ev) auto
      from assms Some ev have i: "absent_or_dict (map_of cs ''intent'')"
        and t: "absent_or_dict (map_of cs ''timing'')"
        by (auto simp: valid_causality_def c)
      have gi: "\<exists>x. py_get (dict_get cs ''intent'' (PDict [])) ''value'' (PStr ''other'') = Inr x"
        using i by (cases "map_of cs ''intent''"; cases "the (map_of cs ''intent'')")
          (auto simp: absent_or_dict_def dict_get_def py_get_def)
      have gt: "\<exists>x. py_get (dict_get cs ''timing'' (PDict [])) ''value'' (PStr ''other'') = Inr x"
        using t by (cases "map_of cs ''timing''"; cases "the (map_of cs ''timing'')")
          (auto simp: absent_or_dict_def dict_get_def py_get_def)
      from gi gt show ?thesis using Some ev
        by (auto simp: c causality_values_def py_contains_def py_get_def py_subscript_def dict_get_def)
    qed
  qed
qed

lemma risk_facts_valid:
  assumes "valid_risk r"
  shows "\<exists>t sev e i tm. risk_facts d s n r =
     Inr [RiskFact d s n t sev, CausalityEntity d s n e, CausalityIntent d s n i, CausalityTiming d s n tm]"
proof -
  from assms obtain kvs where r: "r = PDict kvs"
    by (cases r) (auto simp: valid_risk_def)
  from assms r have "\<exists>t. escape_prolog_value (dict_get kvs ''title'' (PStr [])) = Inr t"
    by (cases "map_of kvs ''title''"; cases "the (map_of kvs ''title'')")
       (auto simp: valid_risk_def dict_get_def escape_prolog_value_def)
  then obtain t where t: "escape_prolog_value (dict_get kvs ''title'' (PStr [])) = Inr t" by blast
  from assms r have "valid_causality (dict_get kvs ''causality'' (PDict []))"
    by (cases "map_of kvs ''causality''") (auto simp: valid_risk_def dict_get_def valid_causality_def)
  from causality_values_valid[OF this, of kvs] obtain e i tm where
    cv: "causality_values (PDict kvs) (dict_get kvs ''causality'' (PDict [])) = Inr (e, i, tm)" by blast
  show ?thesis
    by (simp add: r risk_facts_def py_get_def t cv)
qed

lemma keyed_append [simp]: "keyed (xs @ ys) = keyed xs @ keyed ys"
  by (simp add: keyed_def)

lemma keyed_Nil [simp]: "keyed [] = []"
  by (simp add: keyed_def)

lemma keyed_Domain [simp]: "keyed (DomainFact d n # fs) = keyed fs"
  by (simp add: keyed_def per_risk_def)

lemma keyed_Subdomain [simp]: "keyed (SubdomainFact d s n # fs) = keyed fs"
  by (simp add: keyed_def per_risk_def)

lemma keyed_block:
  "keyed [RiskFact d s n t sev, CausalityEntity d s n e, CausalityIntent d s n i, CausalityTiming d s n tm]
     = spec_block d s n"
  by (simp add: keyed_def per_risk_def spec_block_def)

lemma per_risk_block:
  "filter per_risk [RiskFact d s n t sev, CausalityEntity d s n e, CausalityIntent d s n i, CausalityTiming d s n tm]
     = [RiskFact d s n t sev, CausalityEntity d s n e, CausalityIntent d s n i, CausalityTiming d s n tm]"
  by (simp add: per_risk_def)

lemma risks_loop_valid:
  "list_all valid_risk rs \<Longrightarrow>
   \<exists>fs. risks_loop d s n rs = Inr fs \<and> keyed fs = concat (map (spec_block d s) [n ..< n + length rs])
      \<and> filter per_risk fs = fs"
proof (induction rs arbitrary: n)
  case Nil
  then show ?case by (simp add: keyed_def)
next
  case (Cons r rs)
  from Cons.prems have vr: "valid_risk r" and vrs: "list_all valid_risk rs" by simp_all
  from risk_facts_valid[OF vr, of d s n] obtain t sev e i tm where
    rf: "risk_facts d s n r =
     Inr [RiskFact d s n t sev, CausalityEntity d s n e, CausalityIntent d s n i, CausalityTiming d s n tm]"
    by blast
  from Cons.IH[OF vrs, of "Suc n"] obtain gs where
    gs: "risks_loop d s (Suc n) rs = Inr gs"
    and kg: "keyed gs = concat (map (spec_block d s) [Suc n ..< Suc n + length rs])"
    and fg: "filter per_risk gs = gs" by blast
  have up: "[n ..< n + length (r # rs)] = n # [Suc n ..< Suc n + length rs]"
    by (subst upt_rec) simp
  have "risks_loop d s n (r # rs) =
      Inr ([RiskFact d s n t sev, CausalityEntity d s n e, CausalityIntent d s n i, CausalityTiming d s n tm] @ gs)"
    by (simp add: rf gs)
  moreover have "keyed ([RiskFact d s n t sev, CausalityEntity d s n e, CausalityIntent d s n i, CausalityTiming d s n tm] @ gs)
      = concat (map (spec_block d s) [n ..< n + length (r # rs)])"
    unfolding up keyed_append keyed_block kg by simp
  moreover have "filter per_risk ([RiskFact d s n t sev, CausalityEntity d s n e, CausalityIntent d s n i, CausalityTiming d s n tm] @ gs)
      = [RiskFact d s n t sev, CausalityEntity d s n e, CausalityIntent d s n i, CausalityTiming d s n tm] @ gs"
    unfolding filter_append per_risk_block fg by simp
  ultimately show ?case by blast
qed


lemma item_step_skip:
  assumes "is_dict c" and "length (split_dot k) \<noteq> 2"
  shows "item_step g (k, c) = Inr g"
proof -
  from assms(1) obtain kvs where c: "c = PDict kvs" by (cases c) auto
  from assms(2) show ?thesis
    by (auto simp: item_step_def c py_get_def split: list.splits)
qed

lemma item_step_two_parts:
  assumes "valid_content c" and "length (split_dot k) = 2"
  shows "\<exists>g'. item_step g (k, c) = Inr g' \<and> keyed (facts g') = keyed (facts g) @ spec_entry (k, c)"
proof -
  from assms(1) obtain kvs where c: "c = PDict kvs"
    by (cases c) (auto simp: valid_content_def)
  from assms(2) obtain d s where ds: "split_dot k = [d, s]"
    by (cases "split_dot k"; cases "tl (split_dot k)") auto
  from assms(1) c have it: "py_iter (dict_get kvs ''risks'' (PList [])) = Inr (risks_of c)"
    and va: "list_all valid_risk (risks_of c)"
    by (auto simp: valid_content_def risks_of_def dict_get_def py_iter_def split: option.splits pyval.splits)
  from risks_loop_valid[OF va, of d s "Suc 0"] obtain fs where
    fs: "risks_loop d s (Suc 0) (risks_of c) = Inr fs"
    and kf: "keyed fs = concat (map (spec_block d s) [Suc 0 ..< Suc 0 + length (risks_of c)])" by blast
  have se: "spec_entry (k, c) = keyed fs"
    by (simp add: spec_entry_def ds kf del: upt_Suc)
  show ?thesis
    using it fs se
    by (simp add: item_step_def c py_get_def ds Let_def)
qed

lemma valid_content_is_dict: "valid_content c \<Longrightarrow> is_dict c"
  by (cases c) (simp_all add: valid_content_def)

lemma spec_entry_skip: "length (split_dot k) \<noteq> 2 \<Longrightarrow> spec_entry (k, c) = []"
  by (auto simp: spec_entry_def split: list.splits)

lemma item_step_valid:
  assumes "valid_content c"
  shows "\<exists>g'. item_step g (k, c) = Inr g' \<and> keyed (facts g') = keyed (facts g) @ spec_entry (k, c)"
proof (cases "length (split_dot k) = 2")
  case True
  from item_step_two_parts[OF assms True] show ?thesis .
next
  case False
  from item_step_skip[OF valid_content_is_dict[OF assms] False] spec_entry_skip[OF False]
  show ?thesis by simp
qed

lemma items_loop_valid:
  "valid_inventory a \<Longrightarrow>
   \<exists>g'. items_loop g a = Inr g' \<and> keyed (facts g') = keyed (facts g) @ spec_keyed a"
proof (induction a arbitrary: g)
  case Nil
  then show ?case by (simp add: spec_keyed_def)
next
  case (Cons kc a)
  obtain k c where kc: "kc = (k, c)" by (cases kc)
  from Cons.prems kc have vc: "valid_content c" and va: "valid_inventory a"
    by (simp_all add: valid_inventory_def)
  from item_step_valid[OF vc, of g] obtain g1 where
    g1: "item_step g (k, c) = Inr g1" and k1: "keyed (facts g1) = keyed (facts g) @ spec_entry (k, c)"
    by blast
  from Cons.IH[OF va, of g1] obtain g2 where
    g2: "items_loop g1 a = Inr g2" and k2: "keyed (facts g2) = keyed (facts g1) @ spec_keyed a"
    by blast
  show ?case
    by (simp add: kc g1 g2 k1 k2 spec_keyed_def)
qed

lemma count_spec_block: "length (filter (\<lambda>p. fst p = KRisk) (spec_block d s i)) = 1"
  by (simp add: spec_block_def)

lemma count_spec_blocks:
  "length (filter (\<lambda>p. fst p = KRisk) (concat (map (spec_block d s) is))) = length is"
  by (induction "is") (simp_all add: spec_block_def)

lemma count_spec_entry:
  "length (split_dot (fst kc)) = 2 \<Longrightarrow>
   length (filter (\<lambda>p. fst p = KRisk) (spec_entry kc)) = length (risks_of (snd kc))"
  by (auto simp: spec_entry_def count_spec_blocks simp del: upt_Suc split: list.splits)

lemma count_spec_keyed:
  "two_part_keys a \<Longrightarrow>
   length (filter (\<lambda>p. fst p = KRisk) (spec_keyed a)) = sum_list (map (\<lambda>kc. length (risks_of (snd kc))) a)"
  by (induction a) (simp_all add: spec_keyed_def two_part_keys_def count_spec_entry)

lemma count_keyed:
  "length (filter (\<lambda>p. fst p = KRisk) (keyed fs)) = length (filter (\<lambda>f. kind_of f = KRisk) fs)"
proof (induction fs)
  case Nil
  then show ?case by (simp add: keyed_def)
next
  case (Cons f fs)
  then show ?case by (cases f) (simp_all add: keyed_def per_risk_def)
qed

lemma generate_facts_valid:
  assumes "valid_inventory a"
  shows "\<exists>fs. generate_facts (PDict a) = Inr fs \<and> keyed fs = spec_keyed a"
proof -
  from items_loop_valid[OF assms, of "\<lparr>facts = [], domains_seen = {}, subdomains_seen = {}\<rparr>"]
  obtain g where g: "items_loop \<lparr>facts = [], domains_seen = {}, subdomains_seen = {}\<rparr> a = Inr g"
    and k: "keyed (facts g) = spec_keyed a"
    by auto
  have "generate_facts (PDict a) = Inr (facts g)"
    by (simp add: generate_facts_def py_items_def g)
  with k show ?thesis by blast
qed

lemma node_generate_valid:
  assumes "analysis s = Some (PDict a)" and "valid_inventory a"
  shows "\<exists>fs. node_generate_prolog_facts s = Returned (s\<lparr>prolog_facts := fs\<rparr>)
           \<and> generate_facts (PDict a) = Inr fs \<and> keyed fs = spec_keyed a"
proof -
  from generate_facts_valid[OF assms(2)] obtain fs where
    "generate_facts (PDict a) = Inr fs" and "keyed fs = spec_keyed a" by blast
  then show ?thesis by (simp add: node_generate_prolog_facts_def assms(1))
qed

text \<open>
  Claim C5.  For an inventory of well-formed entries whose keys all split into two parts,
  the extraction node returns with the error list untouched; the facts hold one risk fact
  per risk (their number is the sum of the lengths of the risk lists), and the per-risk
  facts are, entry by entry and risk by risk, the risk fact followed by the entity, intent
  and timing facts, all four with the triple (domain, subdomain, ordinal), the ordinal
  counting from 1 within the entry.
\<close>

theorem fact_extraction_one_block_per_risk:
  assumes "analysis s = Some (PDict a)" and "valid_inventory a" and "two_part_keys a"
  shows "\<exists>fs. node_generate_prolog_facts s = Returned (s\<lparr>prolog_facts := fs\<rparr>)
           \<and> length (filter (\<lambda>f. kind_of f = KRisk) fs) = sum_list (map (\<lambda>kc. length (risks_of (snd kc))) a)
           \<and> keyed fs = spec_keyed a"
proof -
  from node_generate_valid[OF assms(1,2)] obtain fs where
    n: "node_generate_prolog_facts s = Returned (s\<lparr>prolog_facts := fs\<rparr>)"
    and k: "keyed fs = spec_keyed a" by blast
  have "length (filter (\<lambda>f. kind_of f = KRisk) fs) = sum_list (map (\<lambda>kc. length (risks_of (snd kc))) a)"
    using count_keyed[of fs] count_spec_keyed[OF assms(3)] k by simp
  with n k show ?thesis by blast
qed

lemma items_loop_append:
  "items_loop g (a1 @ a2) = bindE (items_loop g a1) (\<lambda>g'. items_loop g' a2)"
  by (induction a1 arbitrary: g) (simp_all add: bindE_def split: sum.splits)

lemma items_loop_skip:
  assumes "is_dict c" and "length (split_dot k) \<noteq> 2"
  shows "items_loop g (a1 @ (k, c) # a2) = items_loop g (a1 @ a2)"
  by (simp add: items_loop_append item_step_skip[OF assms])

text \<open>
  Claim C6.  An entry whose key does not split into exactly two parts on the dot leaves the
  extraction as it is without the entry: the same facts (none for the key, no domain and no
  subdomain fact either) or the same exception.  When the other entries are well formed the
  node returns, the error list is untouched, and the facts are those of the other entries.
\<close>

theorem malformed_key_contributes_nothing:
  assumes "analysis s = Some (PDict (a1 @ (k, c) # a2))"
    and "is_dict c" and "length (split_dot k) \<noteq> 2"
  shows "generate_facts (PDict (a1 @ (k, c) # a2)) = generate_facts (PDict (a1 @ a2))
       \<and> (valid_inventory (a1 @ a2) \<longrightarrow>
            (\<exists>fs. node_generate_prolog_facts s = Returned (s\<lparr>prolog_facts := fs\<rparr>)
                \<and> generate_facts (PDict (a1 @ a2)) = Inr fs
                \<and> keyed fs = spec_keyed (a1 @ a2)))"
proof -
  have eq: "generate_facts (PDict (a1 @ (k, c) # a2)) = generate_facts (PDict (a1 @ a2))"
    by (simp add: generate_facts_def py_items_def items_loop_skip[OF assms(2,3)])
  have "\<exists>fs. node_generate_prolog_facts s = Returned (s\<lparr>prolog_facts := fs\<rparr>)
                \<and> generate_facts (PDict (a1 @ a2)) = Inr fs
                \<and> keyed fs = spec_keyed (a1 @ a2)" if v: "valid_inventory (a1 @ a2)"
  proof -
    from generate_facts_valid[OF v] obtain fs where
      fs: "generate_facts (PDict (a1 @ a2)) = Inr fs" and k: "keyed fs = spec_keyed (a1 @ a2)" by blast
    from fs eq have "node_generate_prolog_facts s = Returned (s\<lparr>prolog_facts := fs\<rparr>)"
      by (simp add: node_generate_prolog_facts_def assms(1))
    with fs k show ?thesis by blast
  qed
  with eq show ?thesis by blast
qed

lemma causality_values_default:
  assumes "valid_causality c"
  shows "\<exists>e i t. causality_values (PDict kvs) c = Inr (e, i, t)
     \<and> (nested_value [(''causality'', c)] ''entity'' = None \<and> map_of kvs ''entity'' = None \<longrightarrow> e = PStr ''other'')
     \<and> (nested_value [(''causality'', c)] ''intent'' = None \<and> map_of kvs ''intent'' = None \<longrightarrow> i = PStr ''other'')
     \<and> (nested_value [(''causality'', c)] ''timing'' = None \<and> map_of kvs ''timing'' = None \<longrightarrow> t = PStr ''other'')"
proof -
  from assms obtain cs where c: "c = PDict cs"
    by (cases c) (auto simp: valid_causality_def)
  show ?thesis
  proof (cases "map_of cs ''entity''")
    case None
    then show ?thesis
      by (simp add: c causality_values_def py_contains_def py_get_def dict_get_def split: option.splits)
  next
    case (Some ev)
    show ?thesis
    proof (cases "is_dict ev")
      case False
      then show ?thesis using Some
        by (simp add: c causality_values_def py_contains_def py_get_def py_subscript_def dict_get_def
            split: option.splits)
    next
      case True
      then obtain es where ev: "ev = PDict es" by (cases ev) auto
      from assms Some ev have i: "absent_or_dict (map_of cs ''intent'')"
        and t: "absent_or_dict (map_of cs ''timing'')"
        by (auto simp: valid_causality_def c)
      have gi: "\<exists>x. py_get (dict_get cs ''intent'' (PDict [])) ''value'' (PStr ''other'') = Inr x
          \<and> (nested_value [(''causality'', c)] ''intent'' = None \<longrightarrow> x = PStr ''other'')"
        using i by (cases "map_of cs ''intent''"; cases "the (map_of cs ''intent'')")
          (auto simp: absent_or_dict_def dict_get_def py_get_def nested_value_def c split: option.splits)
      have gt: "\<exists>x. py_get (dict_get cs ''timing'' (PDict [])) ''value'' (PStr ''other'') = Inr x
          \<and> (nested_value [(''causality'', c)] ''timing'' = None \<longrightarrow> x = PStr ''other'')"
        using t by (cases "map_of cs ''timing''"; cases "the (map_of cs ''timing'')")
          (auto simp: absent_or_dict_def dict_get_def py_get_def nested_value_def c split: option.splits)
      have ge: "nested_value [(''causality'', c)] ''entity'' = None \<longrightarrow> dict_get es ''value'' (PStr ''other'') = PStr ''other''"
        using Some ev by (simp add: nested_value_def c dict_get_def)
      from gi gt ge show ?thesis using Some ev
        by (auto simp: c causality_values_def py_contains_def py_get_def py_subscript_def dict_get_def)
    qed
  qed
qed


lemma risk_facts_default:
  assumes "valid_risk (PDict kvs)"
  obtains t sev e i tm where
    "risk_facts d s n (PDict kvs) =
       Inr [RiskFact d s n t sev, CausalityEntity d s n e, CausalityIntent d s n i, CausalityTiming d s n tm]"
    and "map_of kvs ''severity'' = None \<longrightarrow> sev = PStr ''medium''"
    and "nested_value kvs ''entity'' = None \<and> map_of kvs ''entity'' = None \<longrightarrow> e = PStr ''other''"
    and "nested_value kvs ''intent'' = None \<and> map_of kvs ''intent'' = None \<longrightarrow> i = PStr ''other''"
    and "nested_value kvs ''timing'' = None \<and> map_of kvs ''timing'' = None \<longrightarrow> tm = PStr ''other''"
proof -
  from assms have "\<exists>t. escape_prolog_value (dict_get kvs ''title'' (PStr [])) = Inr t"
    by (cases "map_of kvs ''title''"; cases "the (map_of kvs ''title'')")
       (auto simp: valid_risk_def dict_get_def escape_prolog_value_def)
  then obtain t where t: "escape_prolog_value (dict_get kvs ''title'' (PStr [])) = Inr t" by blast
  let ?c = "dict_get kvs ''causality'' (PDict [])"
  from assms have vc: "valid_causality ?c"
    by (cases "map_of kvs ''causality''") (auto simp: valid_risk_def dict_get_def valid_causality_def)
  have nv: "nested_value [(''causality'', ?c)] x = nested_value kvs x" for x
    by (cases "map_of kvs ''causality''") (simp_all add: nested_value_def dict_get_def)
  from causality_values_default[OF vc, of kvs] obtain e i tm where
    cv: "causality_values (PDict kvs) ?c = Inr (e, i, tm)"
    and de: "nested_value kvs ''entity'' = None \<and> map_of kvs ''entity'' = None \<longrightarrow> e = PStr ''other''"
    and di: "nested_value kvs ''intent'' = None \<and> map_of kvs ''intent'' = None \<longrightarrow> i = PStr ''other''"
    and dt: "nested_value kvs ''timing'' = None \<and> map_of kvs ''timing'' = None \<longrightarrow> tm = PStr ''other''"
    unfolding nv by blast
  have rf: "risk_facts d s n (PDict kvs) =
       Inr [RiskFact d s n t (dict_get kvs ''severity'' (PStr ''medium'')),
            CausalityEntity d s n e, CausalityIntent d s n i, CausalityTiming d s n tm]"
    by (simp add: risk_facts_def py_get_def t cv)
  have sv: "map_of kvs ''severity'' = None \<longrightarrow> dict_get kvs ''severity'' (PStr ''medium'') = PStr ''medium''"
    by (simp add: dict_get_def)
  from that[OF rf sv de di dt] show ?thesis .
qed

lemma risks_loop_contains:
  "risks_loop d s n rs = Inr fs \<Longrightarrow> j < length rs \<Longrightarrow>
   \<exists>bs. risk_facts d s (n + j) (rs ! j) = Inr bs \<and> set bs \<subseteq> set fs"
proof (induction rs arbitrary: n j fs)
  case Nil
  then show ?case by simp
next
  case (Cons r rs)
  from Cons.prems(1) obtain bs gs where
    bs: "risk_facts d s n r = Inr bs" and gs: "risks_loop d s (Suc n) rs = Inr gs"
    and fs: "fs = bs @ gs"
    by (auto simp: bindE_def split: sum.splits)
  show ?case
  proof (cases j)
    case 0
    then show ?thesis using bs fs by simp
  next
    case (Suc j')
    with Cons.prems(2) have "j' < length rs" by simp
    from Cons.IH[OF gs this] obtain cs where
      "risk_facts d s (Suc n + j') (rs ! j') = Inr cs" and "set cs \<subseteq> set gs" by blast
    then show ?thesis using Suc fs by auto
  qed
qed

lemma item_step_mono:
  "item_step g kc = Inr g' \<Longrightarrow> set (facts g) \<subseteq> set (facts g')"
  by (cases kc) (auto simp: item_step_def bindE_def Let_def split: sum.splits list.splits if_splits)

lemma items_loop_mono:
  "items_loop g a = Inr g' \<Longrightarrow> set (facts g) \<subseteq> set (facts g')"
proof (induction a arbitrary: g)
  case Nil
  then show ?case by simp
next
  case (Cons kc a)
  from Cons.prems obtain g1 where g1: "item_step g kc = Inr g1" and g2: "items_loop g1 a = Inr g'"
    by (auto simp: bindE_def split: sum.splits)
  from item_step_mono[OF g1] Cons.IH[OF g2] show ?case by blast
qed

lemma item_step_contains:
  assumes "item_step g (k, c) = Inr g'" and "valid_content c" and "split_dot k = [d, s]"
    and "j < length (risks_of c)"
  shows "\<exists>bs. risk_facts d s (Suc j) (risks_of c ! j) = Inr bs \<and> set bs \<subseteq> set (facts g')"
proof -
  from assms(2) obtain kvs where c: "c = PDict kvs"
    by (cases c) (auto simp: valid_content_def)
  from assms(2) c have it: "py_iter (dict_get kvs ''risks'' (PList [])) = Inr (risks_of c)"
    by (auto simp: valid_content_def risks_of_def dict_get_def py_iter_def split: option.splits pyval.splits)
  from assms(2) c have va: "list_all valid_risk (risks_of c)"
    by (auto simp: valid_content_def risks_of_def split: option.splits pyval.splits)
  from risks_loop_valid[OF va, of d s "Suc 0"] obtain fs where
    fs: "risks_loop d s (Suc 0) (risks_of c) = Inr fs" by blast
  from assms(1) it fs have sub: "set fs \<subseteq> set (facts g')"
    by (auto simp: item_step_def c py_get_def assms(3) Let_def split: if_splits)
  from risks_loop_contains[OF fs assms(4)] sub show ?thesis by auto
qed

lemma items_loop_contains:
  "items_loop g a = Inr g' \<Longrightarrow> (k, c) \<in> set a \<Longrightarrow> valid_content c \<Longrightarrow>
   split_dot k = [d, s] \<Longrightarrow> j < length (risks_of c) \<Longrightarrow>
   \<exists>bs. risk_facts d s (Suc j) (risks_of c ! j) = Inr bs \<and> set bs \<subseteq> set (facts g')"
proof (induction a arbitrary: g)
  case Nil
  then show ?case by simp
next
  case (Cons kc a)
  from Cons.prems(1) obtain g1 where g1: "item_step g kc = Inr g1" and g2: "items_loop g1 a = Inr g'"
    by (auto simp: bindE_def split: sum.splits)
  show ?case
  proof (cases "kc = (k, c)")
    case True
    from item_step_contains[OF g1[unfolded True] Cons.prems(3,4,5)] items_loop_mono[OF g2]
    show ?thesis by blast
  next
    case False
    with Cons.prems(2) have "(k, c) \<in> set a" by simp
    from Cons.IH[OF g2 this Cons.prems(3,4,5)] show ?thesis .
  qed
qed

text \<open>
  Claim C10.  For the risk at position \<open>j + 1\<close> of an entry of a well-formed
  inventory, the node returns without recording an error and the facts contain the four
  facts of that risk; the severity is \<open>medium\<close> when the risk has no
  \<open>severity\<close> key, and a causality value is \<open>other\<close> when it is absent both
  in the nested form and as a flat top-level key.
\<close>

theorem missing_fields_take_defaults:
  assumes "analysis st = Some (PDict a)" and "valid_inventory a"
    and "(k, c) \<in> set a" and "split_dot k = [d, s]"
    and "j < length (risks_of c)" and "risks_of c ! j = PDict kvs"
  shows "\<exists>fs t sev e i tm.
       node_generate_prolog_facts st = Returned (st\<lparr>prolog_facts := fs\<rparr>)
     \<and> risk_facts d s (Suc j) (PDict kvs) =
         Inr [RiskFact d s (Suc j) t sev, CausalityEntity d s (Suc j) e,
              CausalityIntent d s (Suc j) i, CausalityTiming d s (Suc j) tm]
     \<and> {RiskFact d s (Suc j) t sev, CausalityEntity d s (Suc j) e,
         CausalityIntent d s (Suc j) i, CausalityTiming d s (Suc j) tm} \<subseteq> set fs
     \<and> (map_of kvs ''severity'' = None \<longrightarrow> sev = PStr ''medium'')
     \<and> (nested_value kvs ''entity'' = None \<and> map_of kvs ''entity'' = None \<longrightarrow> e = PStr ''other'')
     \<and> (nested_value kvs ''intent'' = None \<and> map_of kvs ''intent'' = None \<longrightarrow> i = PStr ''other'')
     \<and> (nested_value kvs ''timing'' = None \<and> map_of kvs ''timing'' = None \<longrightarrow> tm = PStr ''other'')"
proof -
  from assms(2,3) have vc: "valid_content c"
    by (auto simp: valid_inventory_def list_all_iff)
  from vc assms(5,6) have vr: "valid_risk (PDict kvs)"
    by (cases c) (auto simp: valid_content_def risks_of_def list_all_length split: option.splits pyval.splits)
  from items_loop_valid[OF assms(2), of "\<lparr>facts = [], domains_seen = {}, subdomains_seen = {}\<rparr>"]
  obtain g where g: "items_loop \<lparr>facts = [], domains_seen = {}, subdomains_seen = {}\<rparr> a = Inr g"
    by blast
  then have gf: "generate_facts (PDict a) = Inr (facts g)"
    by (simp add: generate_facts_def py_items_def)
  then have n: "node_generate_prolog_facts st = Returned (st\<lparr>prolog_facts := facts g\<rparr>)"
    by (simp add: node_generate_prolog_facts_def assms(1))
  from items_loop_contains[OF g assms(3) vc assms(4,5)] obtain bs where
    bs: "risk_facts d s (Suc j) (PDict kvs) = Inr bs" and sub: "set bs \<subseteq> set (facts g)"
    unfolding assms(6) by blast
  obtain t sev e i tm where
    rf: "risk_facts d s (Suc j) (PDict kvs) =
       Inr [RiskFact d s (Suc j) t sev, CausalityEntity d s (Suc j) e,
            CausalityIntent d s (Suc j) i, CausalityTiming d s (Suc j) tm]"
    and d1: "map_of kvs ''severity'' = None \<longrightarrow> sev = PStr ''medium''"
    and d2: "nested_value kvs ''entity'' = None \<and> map_of kvs ''entity'' = None \<longrightarrow> e = PStr ''other''"
    and d3: "nested_value kvs ''intent'' = None \<and> map_of kvs ''intent'' = None \<longrightarrow> i = PStr ''other''"
    and d4: "nested_value kvs ''timing'' = None \<and> map_of kvs ''timing'' = None \<longrightarrow> tm = PStr ''other''"
    by (rule risk_facts_default[OF vr, of d s "Suc j"])
  from bs rf sub have "{RiskFact d s (Suc j) t sev, CausalityEntity d s (Suc j) e,
         CausalityIntent d s (Suc j) i, CausalityTiming d s (Suc j) tm} \<subseteq> set (facts g)"
    by auto
  with n rf d1 d2 d3 d4 show ?thesis
    apply -
    apply (rule exI[of _ "facts g"])
    apply (rule exI[of _ t])
    apply (rule exI[of _ sev])
    apply (rule exI[of _ e])
    apply (rule exI[of _ i])
    apply (rule exI[of _ tm])
    apply simp
    done
qed


lemma example_analysis: "analysis (example_state a) = Some (PDict a)"
  by (simp add: example_state_def)

lemma example_inventory_valid: "valid_inventory example_inventory"
  by (simp add: example_inventory_def example_risk_high_def example_risk_bare_def
      valid_inventory_def valid_content_def valid_risk_def valid_causality_def absent_or_dict_def)

text \<open>Claim C5 at the scenario inventory: two risks under \<open>2.1\<close>, eight per-risk facts.\<close>

theorem fact_extraction_one_block_per_risk_witness:
  "\<exists>fs. node_generate_prolog_facts (example_state example_inventory) =
           Returned ((example_state example_inventory)\<lparr>prolog_facts := fs\<rparr>)
      \<and> length (filter (\<lambda>f. kind_of f = KRisk) fs) = 2
      \<and> keyed fs =
          [(KRisk, Some (''2'', ''1'', 1)), (KEntity, Some (''2'', ''1'', 1)),
           (KIntent, Some (''2'', ''1'', 1)), (KTiming, Some (''2'', ''1'', 1)),
           (KRisk, Some (''2'', ''1'', 2)), (KEntity, Some (''2'', ''1'', 2)),
           (KIntent, Some (''2'', ''1'', 2)), (KTiming, Some (''2'', ''1'', 2))]"
proof -
  have keys: "two_part_keys example_inventory"
    by (simp add: two_part_keys_def example_inventory_def)
  have total: "sum_list (map (\<lambda>kc. length (risks_of (snd kc))) example_inventory) = 2"
    by (simp add: example_inventory_def risks_of_def)
  have spec: "spec_keyed example_inventory =
          [(KRisk, Some (''2'', ''1'', 1)), (KEntity, Some (''2'', ''1'', 1)),
           (KIntent, Some (''2'', ''1'', 1)), (KTiming, Some (''2'', ''1'', 1)),
           (KRisk, Some (''2'', ''1'', 2)), (KEntity, Some (''2'', ''1'', 2)),
           (KIntent, Some (''2'', ''1'', 2)), (KTiming, Some (''2'', ''1'', 2))]"
    by (simp add: example_inventory_def risks_of_def spec_keyed_def spec_entry_def spec_block_def
        numeral_2_eq_2)
  from fact_extraction_one_block_per_risk[OF example_analysis example_inventory_valid keys]
  show ?thesis unfolding total spec .
qed

text \<open>Claim C6 at the key \<open>abc\<close> put in front of the scenario inventory.\<close>

theorem malformed_key_contributes_nothing_witness:
  "generate_facts (PDict ((''abc'', PDict [(''risks'', PList [example_risk_bare])]) # example_inventory))
     = generate_facts (PDict example_inventory)
   \<and> (\<exists>fs. node_generate_prolog_facts
               (example_state ((''abc'', PDict [(''risks'', PList [example_risk_bare])]) # example_inventory))
            = Returned ((example_state ((''abc'', PDict [(''risks'', PList [example_risk_bare])]) # example_inventory))
                          \<lparr>prolog_facts := fs\<rparr>)
          \<and> generate_facts (PDict example_inventory) = Inr fs
          \<and> keyed fs = spec_keyed example_inventory)"
proof -
  have an: "analysis (example_state ((''abc'', PDict [(''risks'', PList [example_risk_bare])]) # example_inventory))
      = Some (PDict ([] @ (''abc'', PDict [(''risks'', PList [example_risk_bare])]) # example_inventory))"
    by (simp add: example_state_def)
  have dict: "is_dict (PDict [(''risks'', PList [example_risk_bare])])" by simp
  have parts: "length (split_dot ''abc'') \<noteq> 2" by simp
  from malformed_key_contributes_nothing[OF an dict parts] example_inventory_valid
  show ?thesis by simp
qed

text \<open>Claim C10 at the second risk of the scenario inventory, which has a title only.\<close>

theorem missing_fields_take_defaults_witness:
  "\<exists>fs t. node_generate_prolog_facts (example_state example_inventory) =
           Returned ((example_state example_inventory)\<lparr>prolog_facts := fs\<rparr>)
     \<and> risk_facts ''2'' ''1'' 2 example_risk_bare =
         Inr [RiskFact ''2'' ''1'' 2 t (PStr ''medium''), CausalityEntity ''2'' ''1'' 2 (PStr ''other''),
              CausalityIntent ''2'' ''1'' 2 (PStr ''other''), CausalityTiming ''2'' ''1'' 2 (PStr ''other'')]
     \<and> {RiskFact ''2'' ''1'' 2 t (PStr ''medium''), CausalityEntity ''2'' ''1'' 2 (PStr ''other''),
         CausalityIntent ''2'' ''1'' 2 (PStr ''other''), CausalityTiming ''2'' ''1'' 2 (PStr ''other'')} \<subseteq> set fs"
proof -
  let ?c = "PDict [(''risks'', PList [example_risk_high, example_risk_bare])]"
  let ?kvs = "[(''title'', PStr ''Operator's slip'')]"
  have mem: "(''2.1'', ?c) \<in> set example_inventory"
    by (simp add: example_inventory_def)
  have parts: "split_dot ''2.1'' = [''2'', ''1'']" by simp
  have len: "1 < length (risks_of ?c)" by (simp add: risks_of_def)
  have nth: "risks_of ?c ! 1 = PDict ?kvs" by (simp add: risks_of_def example_risk_bare_def)
  have absent: "map_of ?kvs ''severity'' = None" "nested_value ?kvs ''entity'' = None"
    "map_of ?kvs ''entity'' = None" "nested_value ?kvs ''intent'' = None"
    "map_of ?kvs ''intent'' = None" "nested_value ?kvs ''timing'' = None"
    "map_of ?kvs ''timing'' = None"
    by (simp_all add: nested_value_def)
  from missing_fields_take_defaults[OF example_analysis example_inventory_valid mem parts len nth]
  show ?thesis
    unfolding example_risk_bare_def using absent
    by (simp add: numeral_2_eq_2)
qed

section \<open>Properties of the alerts\<close>

lemma bindE_eq_Inr: "bindE m f = Inr y \<longleftrightarrow> (\<exists>x. m = Inr x \<and> f x = Inr y)"
  by (cases m) simp_all


































section \<open>Properties of the nodes\<close>


lemma then_node_Returned [simp]: "then_node (Returned s) f = f s"
  by (simp add: then_node_def)

lemma then_node_Raised [simp]: "then_node (Raised e s) f = Raised e s"
  by (simp add: then_node_def)





















lemma errors_Nil_update: "errors s = [] \<Longrightarrow> s\<lparr>errors := []\<rparr> = s"
  by (cases s) simp

lemma in_place_clean:
  "node s = Returned s' \<Longrightarrow> errors s' = [] \<Longrightarrow> in_place node s = Returned s'"
  by (simp add: in_place_def errors_Nil_update)

lemma rebound_clean:
  "node s = Returned s' \<Longrightarrow> errors s = [] \<Longrightarrow> rebound node s = Returned s'"
  by (simp add: rebound_def)


lemma lacks_run_id_get:
  assumes "lacks_run_id s"
  shows "\<exists>r. py_get (or_empty (opt_val (metadata s))) ''run_id'' PNone = Inr r \<and> \<not> truthy r"
    and "\<exists>r. py_get (get_or_empty (metadata s)) ''run_id'' PNone = Inr r \<and> \<not> truthy r"
  using assms
  by (auto simp: lacks_run_id_def or_empty_def opt_val_def get_or_empty_def py_get_def dict_get_def
      split: option.splits pyval.splits)

lemma domain_save_missing_run_id:
  assumes "lacks_run_id s" and "\<forall>d. make_dirs ev d = Inr ()"
  shows "recorded ''Missing run_id in state; ensure the flow starts from domain analyzer which creates run_id''
           s (domain_node_save ev s)"
  using lacks_run_id_get(2)[OF assms(1)] assms(2)
  by (auto simp: domain_node_save_def domain_save_output_def recorded_def)

lemma causality_save_missing_run_id:
  assumes "lacks_run_id s" and "\<forall>d. make_dirs ev d = Inr ()"
  shows "appended ''Missing run_id in state; run must start from domain analyzer''
           s (causality_node_save ev s)"
  using lacks_run_id_get(1)[OF assms(1)] assms(2)
  by (auto simp: causality_node_save_def causality_save_output_def appended_def add_error_def)

lemma heuristic_save_missing_run_id:
  assumes "lacks_run_id s" and "\<forall>d. make_dirs ev d = Inr ()"
  shows "recorded ''Save failed: Missing run_id in state; run must start from domain analyzer''
           s (heuristic_node_save ev s)"
  using lacks_run_id_get(1)[OF assms(1)] assms(2)
  by (auto simp: heuristic_node_save_def heuristic_save_def recorded_def)

lemma report_save_missing_run_id:
  assumes "lacks_run_id s" and "\<forall>d. make_dirs ev d = Inr ()"
  shows "recorded ''Metadata save failed: Missing run_id in state; run must start from domain analyzer''
           s (report_node_save ev s)"
  using lacks_run_id_get(1)[OF assms(1)] assms(2)
  by (auto simp: report_node_save_def report_save_def recorded_def)

lemma save_never_raises:
  "\<not> raises (domain_node_save ev s)" "\<not> raises (causality_node_save ev s)"
  "\<not> raises (heuristic_node_save ev s)" "\<not> raises (report_node_save ev s)"
  by (simp_all add: raises_def domain_node_save_def causality_node_save_def heuristic_node_save_def
      report_node_save_def split: sum.splits)

text \<open>
  Claim C2 as amended.  When the state lacks a run identifier (and the output directory can
  be made), the save node of every stage raises inside its own \<open>try\<close> block, catches
  the exception, puts the message in the error list (the causality stage appends it
  without looking for it) and returns the state.  No save node raises, whatever the state
  and the world.
\<close>

theorem persist_records_missing_run_id:
  assumes "lacks_run_id s" and "\<forall>d. make_dirs ev d = Inr ()"
  shows "recorded ''Missing run_id in state; ensure the flow starts from domain analyzer which creates run_id''
           s (domain_node_save ev s)
       \<and> appended ''Missing run_id in state; run must start from domain analyzer''
           s (causality_node_save ev s)
       \<and> recorded ''Save failed: Missing run_id in state; run must start from domain analyzer''
           s (heuristic_node_save ev s)
       \<and> recorded ''Metadata save failed: Missing run_id in state; run must start from domain analyzer''
           s (report_node_save ev s)
       \<and> \<not> raises (domain_node_save ev' s') \<and> \<not> raises (causality_node_save ev' s')
       \<and> \<not> raises (heuristic_node_save ev' s') \<and> \<not> raises (report_node_save ev' s')"
  using domain_save_missing_run_id[OF assms] causality_save_missing_run_id[OF assms]
    heuristic_save_missing_run_id[OF assms] report_save_missing_run_id[OF assms]
    save_never_raises[of ev' s']
  by simp

lemma example_dirs: "\<forall>d. make_dirs example_env d = Inr ()"
  by (simp add: example_env_def)

lemma example_lacks: "lacks_run_id state_without_run_id"
  by (simp add: lacks_run_id_def state_without_run_id_def dict_get_def)

text \<open>
  Claim C2 fails on the code: on a state without run identifier the save nodes return, with
  the message recorded.
\<close>

theorem persist_returns_counterexample:
  "heuristic_node_save example_env state_without_run_id =
     Returned (state_without_run_id\<lparr>errors :=
       [''Save failed: Missing run_id in state; run must start from domain analyzer'']\<rparr>)
 \<and> domain_node_save example_env state_without_run_id =
     Returned (state_without_run_id\<lparr>errors :=
       [''Missing run_id in state; ensure the flow starts from domain analyzer which creates run_id'']\<rparr>)
 \<and> causality_node_save example_env state_without_run_id =
     Returned (state_without_run_id\<lparr>errors :=
       [''Missing run_id in state; run must start from domain analyzer'']\<rparr>)"
  using heuristic_save_missing_run_id[OF example_lacks example_dirs]
    domain_save_missing_run_id[OF example_lacks example_dirs]
    causality_save_missing_run_id[OF example_lacks example_dirs]
  by (simp add: recorded_def appended_def add_error_def state_without_run_id_def)

text \<open>Claim C2 as amended, at the state without run identifier.\<close>

theorem persist_records_missing_run_id_witness:
  "lacks_run_id state_without_run_id
 \<and> recorded ''Save failed: Missing run_id in state; run must start from domain analyzer''
      state_without_run_id (heuristic_node_save example_env state_without_run_id)
 \<and> errors state_without_run_id = []
 \<and> \<not> raises (heuristic_node_save example_env state_without_run_id)"
  using persist_records_missing_run_id[OF example_lacks example_dirs, of example_env state_without_run_id]
    example_lacks
  by (simp add: state_without_run_id_def)

text \<open>
  Claim C8 against the code.  The validate handler of the causality stage appends its
  message without the presence check: on a state whose list holds the message it leaves
  the message twice.  And the error list of a compiled graph multiplies what it holds.
  The causality pipeline, run on an entry without a risk list while the generation service
  fails with the text the validation has recorded, returns the message twelve times: the
  validate node leaves it once and the channel update twice, the analyze node appends a
  third and the update makes six, the save node appends nothing and the update makes
  twelve.  The domain pipeline, run on a questionnaire without responses, returns its
  message eight times although the validate node checks before appending.
\<close>

theorem unchecked_append_duplicates_message:
  "causality_node_validate (state_without_risks\<lparr>errors := [''Domain 1.1 missing 'risks' list'']\<rparr>)
     = Returned (state_without_risks\<lparr>errors :=
         [''Domain 1.1 missing 'risks' list'', ''Domain 1.1 missing 'risks' list'']\<rparr>)
 \<and> causality_graph failing_service_env state_without_risks
     = Returned (state_without_risks\<lparr>errors := replicate 12 ''Domain 1.1 missing 'risks' list''\<rparr>)
 \<and> final_errors (domain_graph no_responses_env example_file example_initial)
     = Some (replicate 8 ''Missing field: responses'')"
proof -
  let ?m = "''Domain 1.1 missing 'risks' list''"
  let ?s = state_without_risks
  have v0: "causality_node_validate (?s\<lparr>errors := [?m]\<rparr>) = Returned (?s\<lparr>errors := [?m, ?m]\<rparr>)"
    by (simp add: causality_node_validate_def state_without_risks_def is_none_def opt_val_def
        py_items_def py_get_def dict_get_def)
  have l: "causality_node_load ?s = Returned ?s"
    by (simp add: causality_node_load_def state_without_risks_def is_none_def opt_val_def
        get_or_empty_def py_len_def Let_def)
  have v: "causality_node_validate ?s = Returned (?s\<lparr>errors := [?m]\<rparr>)"
    by (simp add: causality_node_validate_def state_without_risks_def is_none_def opt_val_def
        py_items_def py_get_def dict_get_def)
  have a: "causality_node_analyze failing_service_env (?s\<lparr>errors := [?m, ?m]\<rparr>)
             = Returned (?s\<lparr>errors := [?m, ?m, ?m]\<rparr>)"
    by (simp add: causality_node_analyze_def causality_prompt_def failing_service_env_def
        example_env_def state_without_risks_def opt_val_def or_empty_def get_or_empty_def
        py_get_def dict_get_def Let_def)
  have sv: "causality_node_save failing_service_env (?s\<lparr>errors := replicate 6 ?m\<rparr>)
             = Returned (?s\<lparr>errors := replicate 6 ?m\<rparr>)"
    by (simp add: causality_node_save_def causality_save_output_def save_log_def
        failing_service_env_def example_env_def state_without_risks_def opt_val_def or_empty_def
        get_or_empty_def py_get_def dict_get_def py_dict_def py_len_def py_items_def py_format_def
        Let_def)
  have g: "causality_graph failing_service_env ?s = Returned (?s\<lparr>errors := replicate 12 ?m\<rparr>)"
  proof -
    have e: "errors ?s = []" by (simp add: state_without_risks_def)
    have 1: "rebound causality_node_load ?s = Returned ?s"
      by (rule rebound_clean[where node = causality_node_load, OF l e])
    have 2: "in_place causality_node_validate ?s = Returned (?s\<lparr>errors := [?m, ?m]\<rparr>)"
      by (simp add: in_place_def v)
    have 3: "in_place (causality_node_analyze failing_service_env) (?s\<lparr>errors := [?m, ?m]\<rparr>)
               = Returned (?s\<lparr>errors := replicate 6 ?m\<rparr>)"
      by (simp add: in_place_def a eval_nat_numeral)
    have 4: "in_place (causality_node_save failing_service_env) (?s\<lparr>errors := replicate 6 ?m\<rparr>)
               = Returned (?s\<lparr>errors := replicate 12 ?m\<rparr>)"
      by (simp add: in_place_def sv replicate_add[symmetric])
    show ?thesis
      unfolding causality_graph_def by (simp only: 1 2 3 4 then_node_Returned)
  qed
  have d: "final_errors (domain_graph no_responses_env example_file example_initial)
             = Some (replicate 8 ''Missing field: responses'')"
    by (simp add: final_errors_def domain_graph_def in_place_def
        domain_node_load_def domain_node_validate_def domain_node_analyze_def
        domain_node_save_def domain_save_output_def domain_prompt_def save_log_def
        no_responses_env_def example_env_def example_file_def example_initial_def
        add_error_def py_get_def dict_get_def or_empty_def opt_val_def get_or_empty_def
        py_setitem_def py_contains_def py_dict_def py_len_def py_items_def py_format_def
        Let_def eval_nat_numeral)
  from v0 g d show ?thesis by simp
qed



lemma no_rules_outcome:
  "prolog_outcome (example_env\<lparr>rules_file_exists := False\<rparr>) s =
     Inl (PyExn FileNotFoundError ''Rules file not found: /srv/area/agents/heuristic_analyzer/rules.pl'')"
  by (simp add: prolog_outcome_def rules_file_def example_env_def)



section \<open>Properties of the orchestrator\<close>

subsection \<open>The run identifier through the stages\<close>

lemma then_node_eq_Returned:
  "then_node r f = Returned s'' \<longleftrightarrow> (\<exists>s'. r = Returned s' \<and> f s' = Returned s'')"
  by (cases r) simp_all

lemma in_place_Returned_D:
  assumes "in_place node s = Returned t"
  obtains s' where "node s = Returned s'" and "t = s'\<lparr>errors := errors s' @ errors s'\<rparr>"
  using assms by (cases "node s") (auto simp: in_place_def)

lemma rebound_Returned_D:
  assumes "rebound node s = Returned t"
  obtains s' where "node s = Returned s'" and "t = s'\<lparr>errors := errors s @ errors s'\<rparr>"
  using assms by (cases "node s") (auto simp: rebound_def)

lemma in_place_no_errors:
  assumes "in_place node s = Returned t" and "errors t = []"
  shows "node s = Returned t"
proof -
  from assms(1) obtain s' where n: "node s = Returned s'"
    and t: "t = s'\<lparr>errors := errors s' @ errors s'\<rparr>" by (rule in_place_Returned_D)
  from t assms(2) have "errors s' = []" by simp
  with t have "t = s'" by (simp add: errors_Nil_update)
  with n show ?thesis by simp
qed

lemma run_id_of_errors [simp]: "run_id_of (s\<lparr>errors := es\<rparr>) = run_id_of s"
  by (simp add: run_id_of_def)

lemma add_error_not_Nil [simp]: "add_error m errs \<noteq> []"
  by (auto simp: add_error_def)

lemma map_of_dict_set: "map_of (dict_set kvs k v) k' = (if k' = k then Some v else map_of kvs k')"
  by (induction kvs) auto

lemma causality_load_meta:
  "causality_node_load s = Returned s' \<Longrightarrow> metadata s' = metadata s"
  by (auto simp: causality_node_load_def Let_def split: if_splits)

lemma causality_validate_meta:
  "causality_node_validate s = Returned s' \<Longrightarrow> metadata s' = metadata s"
  by (auto simp: causality_node_validate_def split: if_splits sum.splits)

lemma causality_analyze_meta:
  "causality_node_analyze ev s = Returned s' \<Longrightarrow> metadata s' = metadata s"
  by (auto simp: causality_node_analyze_def split: if_splits sum.splits)

lemma causality_save_meta:
  "causality_node_save ev s = Returned s' \<Longrightarrow> metadata s' = metadata s"
  by (auto simp: causality_node_save_def split: if_splits sum.splits)

lemma causality_graph_meta:
  assumes "causality_graph ev s = Returned s'"
  shows "metadata s' = metadata s"
proof -
  from assms obtain t1 t2 t3 where a: "rebound causality_node_load s = Returned t1"
    and b: "in_place causality_node_validate t1 = Returned t2"
    and c: "in_place (causality_node_analyze ev) t2 = Returned t3"
    and d: "in_place (causality_node_save ev) t3 = Returned s'"
    unfolding causality_graph_def then_node_eq_Returned by blast
  from a obtain s1 where a1: "causality_node_load s = Returned s1"
    and a2: "t1 = s1\<lparr>errors := errors s @ errors s1\<rparr>" by (rule rebound_Returned_D)
  from b obtain s2 where b1: "causality_node_validate t1 = Returned s2"
    and b2: "t2 = s2\<lparr>errors := errors s2 @ errors s2\<rparr>" by (rule in_place_Returned_D)
  from c obtain s3 where c1: "causality_node_analyze ev t2 = Returned s3"
    and c2: "t3 = s3\<lparr>errors := errors s3 @ errors s3\<rparr>" by (rule in_place_Returned_D)
  from d obtain s4 where d1: "causality_node_save ev t3 = Returned s4"
    and d2: "s' = s4\<lparr>errors := errors s4 @ errors s4\<rparr>" by (rule in_place_Returned_D)
  show ?thesis
    using causality_load_meta[OF a1] causality_validate_meta[OF b1] causality_analyze_meta[OF c1]
      causality_save_meta[OF d1] a2 b2 c2 d2
    by simp
qed

lemma heuristic_load_run_id:
  "heuristic_node_load s = Returned s' \<Longrightarrow> run_id_of s' = run_id_of s"
  by (auto simp: heuristic_node_load_def Let_def run_id_of_def is_none_def opt_val_def
      split: if_splits sum.splits option.splits)

lemma generate_meta:
  "node_generate_prolog_facts s = Returned s' \<Longrightarrow> metadata s' = metadata s"
  by (auto simp: node_generate_prolog_facts_def split: sum.splits)

lemma initialize_meta:
  "node_initialize_prolog ev s = Returned s' \<Longrightarrow> metadata s' = metadata s"
  by (auto simp: node_initialize_prolog_def split: sum.splits)

lemma execute_meta:
  "node_execute_heuristic_analysis ev s = Returned s' \<Longrightarrow> metadata s' = metadata s"
  by (auto simp: node_execute_heuristic_analysis_def split: sum.splits option.splits)

lemma heuristic_save_meta:
  "heuristic_node_save ev s = Returned s' \<Longrightarrow> metadata s' = metadata s"
  by (auto simp: heuristic_node_save_def split: sum.splits)

lemma heuristic_graph_run_id:
  assumes "heuristic_graph ev s = Returned s'"
  shows "run_id_of s' = run_id_of s"
proof -
  from assms obtain t1 t2 t3 t4 where a: "rebound heuristic_node_load s = Returned t1"
    and b: "in_place node_generate_prolog_facts t1 = Returned t2"
    and c: "in_place (node_initialize_prolog ev) t2 = Returned t3"
    and d: "in_place (node_execute_heuristic_analysis ev) t3 = Returned t4"
    and e: "in_place (heuristic_node_save ev) t4 = Returned s'"
    unfolding heuristic_graph_def then_node_eq_Returned by blast
  from a obtain s1 where a1: "heuristic_node_load s = Returned s1"
    and a2: "t1 = s1\<lparr>errors := errors s @ errors s1\<rparr>" by (rule rebound_Returned_D)
  from b obtain s2 where b1: "node_generate_prolog_facts t1 = Returned s2"
    and b2: "t2 = s2\<lparr>errors := errors s2 @ errors s2\<rparr>" by (rule in_place_Returned_D)
  from c obtain s3 where c1: "node_initialize_prolog ev t2 = Returned s3"
    and c2: "t3 = s3\<lparr>errors := errors s3 @ errors s3\<rparr>" by (rule in_place_Returned_D)
  from d obtain s4 where d1: "node_execute_heuristic_analysis ev t3 = Returned s4"
    and d2: "t4 = s4\<lparr>errors := errors s4 @ errors s4\<rparr>" by (rule in_place_Returned_D)
  from e obtain s5 where e1: "heuristic_node_save ev t4 = Returned s5"
    and e2: "s' = s5\<lparr>errors := errors s5 @ errors s5\<rparr>" by (rule in_place_Returned_D)
  have "metadata s' = metadata t1"
    using generate_meta[OF b1] initialize_meta[OF c1] execute_meta[OF d1] heuristic_save_meta[OF e1]
      b2 c2 d2 e2
    by simp
  then have "run_id_of s' = run_id_of t1" by (simp add: run_id_of_def)
  with heuristic_load_run_id[OF a1] a2 show ?thesis by simp
qed

lemma report_load_run_id:
  "report_node_load s = Returned s' \<Longrightarrow> run_id_of s' = run_id_of s"
  by (auto simp: report_node_load_def Let_def run_id_of_def is_none_def opt_val_def
      split: if_splits sum.splits option.splits)

lemma py_setitem_Inr:
  "py_setitem m k v = Inr m' \<Longrightarrow> \<exists>kvs. m = PDict kvs \<and> m' = PDict (dict_set kvs k v)"
  by (cases m) (simp_all add: py_setitem_def)

lemma html_report_run_id:
  assumes "node_generate_html_report ev s = Returned s'"
  shows "run_id_of s' = run_id_of s"
proof -
  let ?meta = "get_or_empty (metadata s)"
  let ?s0 = "case metadata s of None \<Rightarrow> s\<lparr>metadata := Some (PDict [])\<rparr> | Some m \<Rightarrow> s"
  let ?body = "bindE (py_get ?meta ''language'' (PStr ''en'')) (\<lambda>language.
              bindE (summary_text ev (get_or_empty (heuristic s)) (get_or_empty (analysis s)) language)
                (\<lambda>txt. py_setitem ?meta ''executive_summary_text'' (PStr txt)))"
  have s0: "run_id_of ?s0 = run_id_of s"
    by (simp add: run_id_of_def split: option.splits)
  show ?thesis
  proof (cases ?body)
    case (Inl e)
    with assms have "s' = ?s0"
      by (simp add: node_generate_html_report_def Let_def)
    with s0 show ?thesis by simp
  next
    case (Inr meta1)
    then obtain body where "py_setitem ?meta ''executive_summary_text'' (PStr body) = Inr meta1"
      unfolding bindE_eq_Inr by blast
    from py_setitem_Inr[OF this] obtain kvs where
      m: "?meta = PDict kvs" and m1: "meta1 = PDict (dict_set kvs ''executive_summary_text'' (PStr body))"
      by blast
    from assms Inr have "metadata s' = Some meta1"
      by (auto simp: node_generate_html_report_def Let_def split: sum.splits if_splits option.splits)
    then have "run_id_of s' = map_of kvs ''run_id''"
      by (simp add: run_id_of_def m1 map_of_dict_set)
    moreover from m have "run_id_of s = map_of kvs ''run_id''"
      by (auto simp: run_id_of_def get_or_empty_def split: option.splits)
    ultimately show ?thesis by simp
  qed
qed

lemma report_save_meta:
  "report_node_save ev s = Returned s' \<Longrightarrow> metadata s' = metadata s"
  by (auto simp: report_node_save_def split: sum.splits)

lemma report_graph_run_id:
  assumes "report_graph ev s = Returned s'"
  shows "run_id_of s' = run_id_of s"
proof -
  from assms obtain t1 t2 where a: "rebound report_node_load s = Returned t1"
    and b: "in_place (node_generate_html_report ev) t1 = Returned t2"
    and c: "in_place (report_node_save ev) t2 = Returned s'"
    unfolding report_graph_def then_node_eq_Returned by blast
  from a obtain s1 where a1: "report_node_load s = Returned s1"
    and a2: "t1 = s1\<lparr>errors := errors s @ errors s1\<rparr>" by (rule rebound_Returned_D)
  from b obtain s2 where b1: "node_generate_html_report ev t1 = Returned s2"
    and b2: "t2 = s2\<lparr>errors := errors s2 @ errors s2\<rparr>" by (rule in_place_Returned_D)
  from c obtain s3 where c1: "report_node_save ev t2 = Returned s3"
    and c2: "s' = s3\<lparr>errors := errors s3 @ errors s3\<rparr>" by (rule in_place_Returned_D)
  have "run_id_of s' = run_id_of t2"
    using report_save_meta[OF c1] c2 by (simp add: run_id_of_def)
  with report_load_run_id[OF a1] html_report_run_id[OF b1] a2 b2 show ?thesis by simp
qed

lemma seeds_run_id:
  "run_id_of (causality_seed d) = run_id_of d"
  "run_id_of (heuristic_seed c) = run_id_of c"
  "run_id_of (report_seed h c) = run_id_of h"
  by (auto simp: run_id_of_def causality_seed_def heuristic_seed_def report_seed_def get_or_empty_def
      split: option.splits)

lemma py_get_Inr:
  "py_get v k d = Inr x \<Longrightarrow> \<exists>kvs. v = PDict kvs \<and> x = dict_get kvs k d"
  by (cases v) (simp_all add: py_get_def)

lemma truthy_dict_get:
  "truthy (dict_get kvs k PNone) \<Longrightarrow> map_of kvs k = Some (dict_get kvs k PNone)"
  by (cases "map_of kvs k") (simp_all add: dict_get_def)

lemma falsy_dict_get:
  "\<not> truthy (dict_get kvs k PNone) \<Longrightarrow> map_of kvs k = Some r \<Longrightarrow> \<not> truthy r"
  by (simp add: dict_get_def)

lemma domain_validate_errors:
  "domain_node_validate s = Returned s' \<Longrightarrow> errors s \<noteq> [] \<Longrightarrow> errors s' \<noteq> []"
  by (auto simp: domain_node_validate_def Let_def split: if_splits sum.splits bool.splits prod.splits)

lemma domain_analyze_errors:
  "domain_node_analyze ev s = Returned s' \<Longrightarrow> errors s \<noteq> [] \<Longrightarrow> errors s' \<noteq> []"
  by (auto simp: domain_node_analyze_def split: if_splits sum.splits prod.splits)

lemma domain_analyze_meta:
  "domain_node_analyze ev s = Returned s' \<Longrightarrow> metadata s' = metadata s"
  by (auto simp: domain_node_analyze_def split: if_splits sum.splits prod.splits)

lemma domain_save_ok:
  assumes "domain_node_save ev s = Returned d" and "errors d = []"
  shows "d = s \<and> (\<exists>rid. run_id_of s = Some rid \<and> truthy rid)"
proof -
  from assms obtain u where ok: "bindE (domain_save_output ev s) (\<lambda>out_path. save_log s) = Inr u"
    and d: "d = s"
    by (auto simp: domain_node_save_def split: sum.splits)
  from ok obtain path where "domain_save_output ev s = Inr path"
    unfolding bindE_eq_Inr by blast
  then obtain rid where g: "py_get (get_or_empty (metadata s)) ''run_id'' PNone = Inr rid"
    and t: "truthy rid"
    unfolding domain_save_output_def bindE_eq_Inr by (auto split: if_splits)
  from py_get_Inr[OF g] obtain kvs where k: "get_or_empty (metadata s) = PDict kvs"
    and r: "rid = dict_get kvs ''run_id'' PNone" by blast
  from t r have m: "map_of kvs ''run_id'' = Some rid" using truthy_dict_get by simp
  from k m have "run_id_of s = Some rid"
    by (auto simp: run_id_of_def get_or_empty_def split: option.splits)
  with d t show ?thesis by blast
qed

lemma domain_load_ok:
  assumes "metadata s0 = Some (PDict [])" and "domain_node_load ev file s0 = Returned s1"
    and "errors s1 = []"
  shows "\<exists>q m r0. read_json ev file = Inr q \<and> py_get q ''metadata'' (PDict []) = Inr m
           \<and> py_get (or_empty m) ''run_id'' PNone = Inr r0 \<and> questionnaire s1 = Some q
           \<and> metadata s1 = Some (PDict [(''run_id'', if truthy r0 then r0 else PStr (uuid4_hex ev))])"
proof (cases "read_json ev file")
  case (Inl e)
  with assms(2,3) show ?thesis
    by (auto simp: domain_node_load_def split: if_splits)
next
  case (Inr q)
  let ?chain = "bindE (py_get q ''metadata'' (PDict [])) (\<lambda>m.
                bindE (py_get (or_empty m) ''run_id'' PNone) (\<lambda>r.
                  py_setitem (get_or_empty (metadata (s0\<lparr>questionnaire := Some q\<rparr>))) ''run_id''
                    (if truthy r then r else PStr (uuid4_hex ev))))"
  from assms(2) Inr obtain md where c: "?chain = Inr md"
    and s1: "s1 = s0\<lparr>questionnaire := Some q, metadata := Some md\<rparr>"
    by (auto simp: domain_node_load_def Let_def split: sum.splits)
  from c obtain m r0 where m: "py_get q ''metadata'' (PDict []) = Inr m"
    and r0: "py_get (or_empty m) ''run_id'' PNone = Inr r0"
    and st: "py_setitem (get_or_empty (metadata (s0\<lparr>questionnaire := Some q\<rparr>))) ''run_id''
                    (if truthy r0 then r0 else PStr (uuid4_hex ev)) = Inr md"
    unfolding bindE_eq_Inr by blast
  from st assms(1) have "md = PDict [(''run_id'', if truthy r0 then r0 else PStr (uuid4_hex ev))]"
    by (simp add: get_or_empty_def py_setitem_def)
  with Inr m r0 s1 show ?thesis by simp
qed

lemma domain_validate_ok:
  assumes q: "questionnaire s1 = Some q"
    and m: "py_get q ''metadata'' (PDict []) = Inr m"
    and r0: "py_get (or_empty m) ''run_id'' PNone = Inr r0"
    and md: "metadata s1 = Some (PDict [(''run_id'', rid0)])"
    and rid0: "rid0 = (if truthy r0 then r0 else PStr u)"
    and e1: "errors s1 = []"
    and v: "domain_node_validate s1 = Returned s2" and e2: "errors s2 = []"
  shows "(truthy rid0 \<longrightarrow> run_id_of s2 = Some rid0)
       \<and> (\<not> truthy rid0 \<longrightarrow> (\<forall>r. run_id_of s2 = Some r \<longrightarrow> \<not> truthy r))"
proof -
  from py_get_Inr[OF m] obtain qk where qk: "q = PDict qk" and mv: "m = dict_get qk ''metadata'' (PDict [])"
    by blast
  from py_get_Inr[OF r0] obtain mk where mk: "or_empty m = PDict mk" and rv: "r0 = dict_get mk ''run_id'' PNone"
    by blast
  have data: "opt_val (questionnaire s1) = PDict qk" by (simp add: q qk opt_val_def)
  from v e2 have tq: "truthy (PDict qk)"
    by (auto simp: domain_node_validate_def Let_def data split: if_splits)
  from v e2 tq have cm: "map_of qk ''metadata'' \<noteq> None"
    by (auto simp: domain_node_validate_def Let_def data py_contains_def split: if_splits bool.splits)
  then have same: "dict_get qk ''metadata'' PNone = m"
    by (auto simp: mv dict_get_def)
  from v e2 tq cm have cr: "map_of qk ''responses'' \<noteq> None"
    by (auto simp: domain_node_validate_def Let_def data py_contains_def split: if_splits bool.splits)
  have ex: "py_get (or_empty (opt_val (metadata s1))) ''run_id'' PNone = Inr rid0"
    by (simp add: md opt_val_def or_empty_def py_get_def dict_get_def)
  have "metadata s2 = Some (PDict (if truthy rid0 \<and> \<not> truthy (dict_get mk ''run_id'' PNone)
                          then dict_set mk ''run_id'' rid0 else mk))"
    using v tq cm cr
    by (auto simp: domain_node_validate_def Let_def data py_contains_def ex py_get_def[of "PDict qk"]
        same mk py_dict_def)
  then have rid: "run_id_of s2 = map_of (if truthy rid0 \<and> \<not> truthy r0
                          then dict_set mk ''run_id'' rid0 else mk) ''run_id''"
    by (simp add: run_id_of_def rv)
  show ?thesis
  proof (cases "truthy r0")
    case True
    then have "rid0 = r0" by (simp add: rid0)
    with True rid rv truthy_dict_get[of mk "''run_id''"] show ?thesis by simp
  next
    case False
    show ?thesis
    proof (cases "truthy rid0")
      case True
      with False rid show ?thesis by (simp add: map_of_dict_set)
    next
      case f: False
      with False rid rv falsy_dict_get[of mk "''run_id''"] show ?thesis by auto
    qed
  qed
qed

lemma domain_graph_run_id:
  assumes "metadata s0 = Some (PDict [])" and "errors s0 = []"
    and "domain_graph ev file s0 = Returned d" and "errors d = []"
  shows "\<exists>q m r0. read_json ev file = Inr q \<and> py_get q ''metadata'' (PDict []) = Inr m
           \<and> py_get (or_empty m) ''run_id'' PNone = Inr r0
           \<and> truthy (if truthy r0 then r0 else PStr (uuid4_hex ev))
           \<and> run_id_of d = Some (if truthy r0 then r0 else PStr (uuid4_hex ev))"
proof -
  from assms(3) obtain s1 s2 s3 where a': "in_place (domain_node_load ev file) s0 = Returned s1"
    and b': "in_place domain_node_validate s1 = Returned s2"
    and c': "in_place (domain_node_analyze ev) s2 = Returned s3"
    and d': "in_place (domain_node_save ev) s3 = Returned d"
    unfolding domain_graph_def then_node_eq_Returned by blast
  from in_place_no_errors[OF d' assms(4)] have d: "domain_node_save ev s3 = Returned d" .
  from domain_save_ok[OF d assms(4)] obtain rid where ds: "d = s3"
    and rid: "run_id_of s3 = Some rid" and t: "truthy rid" by blast
  from ds assms(4) have e3: "errors s3 = []" by simp
  from in_place_no_errors[OF c' e3] have c: "domain_node_analyze ev s2 = Returned s3" .
  with e3 domain_analyze_errors[OF c] have e2: "errors s2 = []" by blast
  from in_place_no_errors[OF b' e2] have b: "domain_node_validate s1 = Returned s2" .
  with e2 domain_validate_errors[OF b] have e1: "errors s1 = []" by blast
  from in_place_no_errors[OF a' e1] have a: "domain_node_load ev file s0 = Returned s1" .
  from domain_load_ok[OF assms(1) a e1] obtain q m r0 where
    rj: "read_json ev file = Inr q" and m: "py_get q ''metadata'' (PDict []) = Inr m"
    and r0: "py_get (or_empty m) ''run_id'' PNone = Inr r0" and qs: "questionnaire s1 = Some q"
    and md: "metadata s1 = Some (PDict [(''run_id'', if truthy r0 then r0 else PStr (uuid4_hex ev))])"
    by blast
  let ?rid0 = "if truthy r0 then r0 else PStr (uuid4_hex ev)"
  from domain_validate_ok[OF qs m r0 md refl e1 b e2]
  have v1: "truthy ?rid0 \<longrightarrow> run_id_of s2 = Some ?rid0"
    and v2: "\<not> truthy ?rid0 \<longrightarrow> (\<forall>r. run_id_of s2 = Some r \<longrightarrow> \<not> truthy r)" by blast+
  have "run_id_of s3 = run_id_of s2" using domain_analyze_meta[OF c] by (simp add: run_id_of_def)
  with rid t v1 v2 have "truthy ?rid0 \<and> run_id_of s3 = Some ?rid0" by metis
  with rj m r0 ds show ?thesis by blast
qed

lemma then_step_Returned [simp]: "then_step (Returned os) f = f os"
  by (simp add: then_step_def)

lemma then_step_Raised [simp]: "then_step (Raised e os) f = Raised e os"
  by (simp add: then_step_def)

lemma raises_simps [simp]: "raises (Raised e x) = True" "raises (Returned x) = False"
  by (simp_all add: raises_def)

lemma stage_failed_simps [simp]:
  "stage_failed (Raised e s) = True" "stage_failed (Returned s) = (errors s \<noteq> [])"
  by (simp_all add: stage_failed_def)

lemma domain_step_with_ok:
  "domain_state os = Some s1 \<Longrightarrow> g s1 = Returned d \<Longrightarrow> errors d = [] \<Longrightarrow>
   domain_step_with g ev os = Returned (os\<lparr>domain_state := Some d\<rparr>)"
  by (simp add: domain_step_with_def)

lemma domain_step_with_fails:
  "domain_state os = Some s1 \<Longrightarrow> raises (domain_step_with g ev os) = stage_failed (g s1)"
  by (simp add: domain_step_with_def split: outcome.splits)

lemma causality_step_with_ok:
  "domain_state os = Some d \<Longrightarrow> g (causality_seed d) = Returned c \<Longrightarrow> errors c = [] \<Longrightarrow>
   causality_step_with g ev os = Returned (os\<lparr>causality_state := Some c\<rparr>)"
  by (simp add: causality_step_with_def)

lemma causality_step_with_fails:
  "domain_state os = Some d \<Longrightarrow>
   raises (causality_step_with g ev os) = stage_failed (g (causality_seed d))"
  by (simp add: causality_step_with_def split: outcome.splits)

lemma heuristic_step_with_ok:
  "causality_state os = Some c \<Longrightarrow> g (heuristic_seed c) = Returned h \<Longrightarrow> errors h = [] \<Longrightarrow>
   heuristic_step_with g ev os = Returned (os\<lparr>heuristic_state := Some h\<rparr>)"
  by (simp add: heuristic_step_with_def)

lemma heuristic_step_with_fails:
  "causality_state os = Some c \<Longrightarrow>
   raises (heuristic_step_with g ev os) = stage_failed (g (heuristic_seed c))"
  by (simp add: heuristic_step_with_def split: outcome.splits)

lemma report_step_with_ok:
  "heuristic_state os = Some h \<Longrightarrow> causality_state os = Some c \<Longrightarrow>
   g (report_seed h c) = Returned r \<Longrightarrow> errors r = [] \<Longrightarrow>
   report_step_with g ev os = Returned (os\<lparr>report_state := Some r\<rparr>)"
  by (simp add: report_step_with_def)

lemma report_step_with_fails:
  "heuristic_state os = Some h \<Longrightarrow> causality_state os = Some c \<Longrightarrow>
   raises (report_step_with g ev os) = stage_failed (g (report_seed h c))"
  by (simp add: report_step_with_def split: outcome.splits)

lemma raises_then_step:
  "raises r \<Longrightarrow> then_step r f = r"
  by (cases r) simp_all

lemma orchestrate_Returned:
  assumes "orchestrate g1 g2 g3 g4 ev os = Returned final"
  shows "\<exists>s1 d c h r. domain_state os = Some s1 \<and> g1 s1 = Returned d \<and> errors d = []
           \<and> g2 (causality_seed d) = Returned c \<and> errors c = []
           \<and> g3 (heuristic_seed c) = Returned h \<and> errors h = []
           \<and> g4 (report_seed h c) = Returned r \<and> errors r = []
           \<and> final = os\<lparr>domain_state := Some d, causality_state := Some c,
                          heuristic_state := Some h, report_state := Some r\<rparr>"
proof -
  from assms obtain s1 d where s1: "domain_state os = Some s1" and d: "g1 s1 = Returned d"
    and ed: "errors d = []"
    by (auto simp: orchestrate_def domain_step_with_def then_step_def
        split: option.splits outcome.splits if_splits)
  let ?os1 = "os\<lparr>domain_state := Some d\<rparr>"
  from assms have a1: "then_step (then_step (causality_step_with g2 ev ?os1)
       (heuristic_step_with g3 ev)) (report_step_with g4 ev) = Returned final"
    by (simp add: orchestrate_def domain_step_with_ok[where g = g1, OF s1 d ed])
  then obtain c where c: "g2 (causality_seed d) = Returned c" and ec: "errors c = []"
    by (auto simp: causality_step_with_def then_step_def split: outcome.splits if_splits)
  let ?os2 = "?os1\<lparr>causality_state := Some c\<rparr>"
  have c1: "causality_step_with g2 ev ?os1 = Returned ?os2"
    by (rule causality_step_with_ok[where g = g2 and d = d, OF _ c ec]) simp
  from a1 have a2: "then_step (heuristic_step_with g3 ev ?os2) (report_step_with g4 ev) = Returned final"
    by (simp add: c1)
  then obtain h where h: "g3 (heuristic_seed c) = Returned h" and eh: "errors h = []"
    by (auto simp: heuristic_step_with_def then_step_def split: outcome.splits if_splits)
  let ?os3 = "?os2\<lparr>heuristic_state := Some h\<rparr>"
  have h1: "heuristic_step_with g3 ev ?os2 = Returned ?os3"
    by (rule heuristic_step_with_ok[where g = g3 and c = c, OF _ h eh]) simp
  from a2 have a3: "report_step_with g4 ev ?os3 = Returned final"
    by (simp add: h1)
  then obtain r where r: "g4 (report_seed h c) = Returned r" and er: "errors r = []"
    and f: "final = ?os3\<lparr>report_state := Some r\<rparr>"
    by (auto simp: report_step_with_def split: outcome.splits if_splits)
  from s1 d ed c ec h eh r er f show ?thesis by simp
qed

text \<open>
  Claim C9.  When the orchestrator returns, the domain stage has put one run identifier in
  its metadata, the one of the input document's metadata when that is truthy and the
  freshly minted \<open>uuid4\<close> text otherwise; the final contexts of the causality,
  heuristic and report stages carry the same value under \<open>run_id\<close>.
\<close>

theorem run_id_threaded_through_stages:
  assumes "run_orchestrator ev file = Returned final"
  shows "\<exists>q m r0 d c h r.
           read_json ev file = Inr q \<and> py_get q ''metadata'' (PDict []) = Inr m
         \<and> py_get (or_empty m) ''run_id'' PNone = Inr r0
         \<and> truthy (if truthy r0 then r0 else PStr (uuid4_hex ev))
         \<and> domain_state final = Some d \<and> causality_state final = Some c
         \<and> heuristic_state final = Some h \<and> report_state final = Some r
         \<and> run_id_of d = Some (if truthy r0 then r0 else PStr (uuid4_hex ev))
         \<and> run_id_of c = run_id_of d \<and> run_id_of h = run_id_of d \<and> run_id_of r = run_id_of d"
proof -
  from assms have o: "orchestrate (domain_graph ev file) (causality_graph ev) (heuristic_graph ev)
          (report_graph ev) ev (initial_orch file) = Returned final"
    by (simp add: run_orchestrator_def split: if_splits)
  from orchestrate_Returned[OF o] obtain s1 d c h r where
    s1: "domain_state (initial_orch file) = Some s1"
    and d: "domain_graph ev file s1 = Returned d" and ed: "errors d = []"
    and c: "causality_graph ev (causality_seed d) = Returned c"
    and h: "heuristic_graph ev (heuristic_seed c) = Returned h"
    and r: "report_graph ev (report_seed h c) = Returned r"
    and f: "final = (initial_orch file)\<lparr>domain_state := Some d, causality_state := Some c,
                          heuristic_state := Some h, report_state := Some r\<rparr>"
    by blast
  from s1 have m0: "metadata s1 = Some (PDict [])" and e0: "errors s1 = []"
    by (auto simp: initial_orch_def)
  from domain_graph_run_id[OF m0 e0 d ed] obtain q m r0 where
    "read_json ev file = Inr q" "py_get q ''metadata'' (PDict []) = Inr m"
    "py_get (or_empty m) ''run_id'' PNone = Inr r0"
    "truthy (if truthy r0 then r0 else PStr (uuid4_hex ev))"
    "run_id_of d = Some (if truthy r0 then r0 else PStr (uuid4_hex ev))" by blast
  moreover have "run_id_of c = run_id_of d"
    using causality_graph_meta[OF c] seeds_run_id(1)[of d] by (simp add: run_id_of_def)
  moreover have "run_id_of h = run_id_of c"
    using heuristic_graph_run_id[OF h] seeds_run_id(2)[of c] by simp
  moreover have "run_id_of r = run_id_of h"
    using report_graph_run_id[OF r] seeds_run_id(3)[of h c] by simp
  ultimately show ?thesis using f by simp
qed

subsection \<open>Failure of a stage\<close>

lemma orchestrate_first:
  "raises (domain_step_with g1 ev os) \<Longrightarrow>
   orchestrate g1 g2 g3 g4 ev os = domain_step_with g1 ev os"
  by (simp add: orchestrate_def raises_then_step)

lemma orchestrate_second:
  "domain_step_with g1 ev os = Returned o1 \<Longrightarrow> raises (causality_step_with g2 ev o1) \<Longrightarrow>
   orchestrate g1 g2 g3 g4 ev os = causality_step_with g2 ev o1"
  by (simp add: orchestrate_def raises_then_step)

lemma orchestrate_third:
  "domain_step_with g1 ev os = Returned o1 \<Longrightarrow> causality_step_with g2 ev o1 = Returned o2 \<Longrightarrow>
   raises (heuristic_step_with g3 ev o2) \<Longrightarrow>
   orchestrate g1 g2 g3 g4 ev os = heuristic_step_with g3 ev o2"
  by (simp add: orchestrate_def raises_then_step)

lemma orchestrate_fourth:
  "domain_step_with g1 ev os = Returned o1 \<Longrightarrow> causality_step_with g2 ev o1 = Returned o2 \<Longrightarrow>
   heuristic_step_with g3 ev o2 = Returned o3 \<Longrightarrow>
   orchestrate g1 g2 g3 g4 ev os = report_step_with g4 ev o3"
  by (simp add: orchestrate_def)

lemma not_failed_Returned:
  "\<not> stage_failed r \<Longrightarrow> \<exists>s. r = Returned s \<and> errors s = []"
  by (cases r) simp_all

text \<open>
  Claim C4, as the code has it.  A step of the orchestrator raises exactly when its stage
  fails, that is when the stage's pipeline raises or returns a context with a non-empty
  error list; the run then ends with the exception of that step and no later stage is
  run.  When the stage returns with an empty error list the step stores the context, and
  the next stage is run on the seed built from it: metadata, questionnaire and analysis
  for the causality stage, metadata and analysis for the heuristic stage, and for the
  report stage the metadata, analysis and heuristic results of the heuristic stage with
  the questionnaire of the causality stage.
\<close>

theorem orchestrator_raises_iff_stage_fails:
  assumes "domain_state os = Some s1"
  shows
  "raises (domain_step_with g1 ev os) = stage_failed (g1 s1) \<and>
   (if stage_failed (g1 s1) then orchestrate g1 g2 g3 g4 ev os = domain_step_with g1 ev os
    else \<exists>d. g1 s1 = Returned d \<and> errors d = [] \<and>
      domain_step_with g1 ev os = Returned (os\<lparr>domain_state := Some d\<rparr>) \<and>
      raises (causality_step_with g2 ev (os\<lparr>domain_state := Some d\<rparr>))
        = stage_failed (g2 (causality_seed d)) \<and>
      (if stage_failed (g2 (causality_seed d))
       then orchestrate g1 g2 g3 g4 ev os = causality_step_with g2 ev (os\<lparr>domain_state := Some d\<rparr>)
       else \<exists>c. g2 (causality_seed d) = Returned c \<and> errors c = [] \<and>
         causality_step_with g2 ev (os\<lparr>domain_state := Some d\<rparr>)
           = Returned (os\<lparr>domain_state := Some d, causality_state := Some c\<rparr>) \<and>
         raises (heuristic_step_with g3 ev (os\<lparr>domain_state := Some d, causality_state := Some c\<rparr>))
           = stage_failed (g3 (heuristic_seed c)) \<and>
         (if stage_failed (g3 (heuristic_seed c))
          then orchestrate g1 g2 g3 g4 ev os
                 = heuristic_step_with g3 ev (os\<lparr>domain_state := Some d, causality_state := Some c\<rparr>)
          else \<exists>h. g3 (heuristic_seed c) = Returned h \<and> errors h = [] \<and>
            heuristic_step_with g3 ev (os\<lparr>domain_state := Some d, causality_state := Some c\<rparr>)
              = Returned (os\<lparr>domain_state := Some d, causality_state := Some c,
                              heuristic_state := Some h\<rparr>) \<and>
            raises (report_step_with g4 ev (os\<lparr>domain_state := Some d, causality_state := Some c,
                                                  heuristic_state := Some h\<rparr>))
              = stage_failed (g4 (report_seed h c)) \<and>
            orchestrate g1 g2 g3 g4 ev os
              = report_step_with g4 ev (os\<lparr>domain_state := Some d, causality_state := Some c,
                                             heuristic_state := Some h\<rparr>) \<and>
            (stage_failed (g4 (report_seed h c)) \<or>
             (\<exists>r. g4 (report_seed h c) = Returned r \<and> errors r = [] \<and>
                  orchestrate g1 g2 g3 g4 ev os
                    = Returned (os\<lparr>domain_state := Some d, causality_state := Some c,
                                    heuristic_state := Some h, report_state := Some r\<rparr>))))))"
proof -
  have r1: "raises (domain_step_with g1 ev os) = stage_failed (g1 s1)"
    by (rule domain_step_with_fails[OF assms])
  show ?thesis
  proof (cases "stage_failed (g1 s1)")
    case True
    with r1 show ?thesis by (simp add: orchestrate_first)
  next
    case f1: False
    from not_failed_Returned[OF f1] obtain d where d: "g1 s1 = Returned d" and ed: "errors d = []"
      by blast
    let ?o1 = "os\<lparr>domain_state := Some d\<rparr>"
    have s1: "domain_step_with g1 ev os = Returned ?o1"
      by (rule domain_step_with_ok[where g = g1, OF assms d ed])
    have r2: "raises (causality_step_with g2 ev ?o1) = stage_failed (g2 (causality_seed d))"
      by (rule causality_step_with_fails) simp
    show ?thesis
    proof (cases "stage_failed (g2 (causality_seed d))")
      case True
      with r2 have "orchestrate g1 g2 g3 g4 ev os = causality_step_with g2 ev ?o1"
        by (simp add: orchestrate_second[OF s1])
      with r1 f1 d ed s1 r2 True show ?thesis by simp
    next
      case f2: False
      from not_failed_Returned[OF f2] obtain c where
        c: "g2 (causality_seed d) = Returned c" and ec: "errors c = []" by blast
      let ?o2 = "os\<lparr>domain_state := Some d, causality_state := Some c\<rparr>"
      have s2: "causality_step_with g2 ev ?o1 = Returned ?o2"
        by (rule causality_step_with_ok[where g = g2 and d = d, OF _ c ec]) simp
      have r3: "raises (heuristic_step_with g3 ev ?o2) = stage_failed (g3 (heuristic_seed c))"
        by (rule heuristic_step_with_fails) simp
      show ?thesis
      proof (cases "stage_failed (g3 (heuristic_seed c))")
        case True
        with r3 have "orchestrate g1 g2 g3 g4 ev os = heuristic_step_with g3 ev ?o2"
          by (simp add: orchestrate_third[OF s1 s2])
        with r1 f1 d ed s1 r2 f2 c ec s2 r3 True show ?thesis by simp
      next
        case f3: False
        from not_failed_Returned[OF f3] obtain h where
          h: "g3 (heuristic_seed c) = Returned h" and eh: "errors h = []" by blast
        let ?o3 = "os\<lparr>domain_state := Some d, causality_state := Some c, heuristic_state := Some h\<rparr>"
        have s3: "heuristic_step_with g3 ev ?o2 = Returned ?o3"
          by (rule heuristic_step_with_ok[where g = g3 and c = c, OF _ h eh]) simp
        have r4: "raises (report_step_with g4 ev ?o3) = stage_failed (g4 (report_seed h c))"
          by (rule report_step_with_fails) simp_all
        have o4: "orchestrate g1 g2 g3 g4 ev os = report_step_with g4 ev ?o3"
          by (rule orchestrate_fourth[OF s1 s2 s3])
        have l4: "stage_failed (g4 (report_seed h c)) \<or>
             (\<exists>r. g4 (report_seed h c) = Returned r \<and> errors r = [] \<and>
                  orchestrate g1 g2 g3 g4 ev os
                    = Returned (?o3\<lparr>report_state := Some r\<rparr>))"
        proof (cases "stage_failed (g4 (report_seed h c))")
          case True then show ?thesis by simp
        next
          case f4: False
          from not_failed_Returned[OF f4] obtain r where
            r: "g4 (report_seed h c) = Returned r" and er: "errors r = []" by blast
          have "report_step_with g4 ev ?o3 = Returned (?o3\<lparr>report_state := Some r\<rparr>)"
            by (rule report_step_with_ok[where g = g4 and h = h and c = c, OF _ _ r er]) simp_all
          with o4 r er show ?thesis by simp
        qed
        from r1 f1 d ed s1 r2 f2 c ec s2 r3 f3 h eh s3 r4 o4 l4 show ?thesis by simp
      qed
    qed
  qed
qed

subsection \<open>A run in the example world\<close>

lemma ex_initial_state: "domain_state (initial_orch file) = Some example_initial"
  by (simp add: initial_orch_def example_initial_def)

lemma ex_domain_any:
  "domain_graph (example_env\<lparr>rules_file_exists := b\<rparr>) example_file example_initial
     = Returned example_domain_final"
  by (simp add: domain_graph_def in_place_def
      domain_node_load_def domain_node_validate_def domain_node_analyze_def
      domain_node_save_def domain_save_output_def domain_prompt_def save_log_def
      example_env_def example_file_def example_initial_def example_domain_final_def
      example_questionnaire_def example_flat_risk_def
      py_get_def dict_get_def or_empty_def opt_val_def get_or_empty_def py_setitem_def
      py_contains_def py_dict_def py_len_def py_items_def py_format_def Let_def)

lemma ex_causality_any:
  "causality_graph (example_env\<lparr>rules_file_exists := b\<rparr>) (causality_seed example_domain_final)
     = Returned example_causality_final"
  by (simp add: causality_graph_def in_place_def rebound_def
      causality_node_load_def causality_node_validate_def
      causality_node_analyze_def causality_prompt_def causality_node_save_def
      causality_save_output_def save_log_def convert_analysis_to_nested_def flat_to_nested_risk_def
      example_env_def example_domain_final_def example_causality_final_def causality_seed_def
      example_questionnaire_def example_flat_risk_def example_nested_risk_def
      is_none_def py_subscript_def py_iter_def
      py_get_def dict_get_def or_empty_def opt_val_def get_or_empty_def py_setitem_def
      py_contains_def py_dict_def py_len_def py_items_def py_format_def Let_def)

lemma ex_env_rules: "example_env\<lparr>rules_file_exists := True\<rparr> = example_env"
  by (simp add: example_env_def)

lemma ex_domain:
  "domain_graph example_env example_file example_initial = Returned example_domain_final"
  using ex_domain_any[of True] by (simp add: ex_env_rules)

lemma ex_causality:
  "causality_graph example_env (causality_seed example_domain_final)
     = Returned example_causality_final"
  using ex_causality_any[of True] by (simp add: ex_env_rules)

lemma example_nested_valid:
  "valid_inventory [(''2.1'', PDict [(''risks'', PList [example_nested_risk])])]"
  by (simp add: valid_inventory_def valid_content_def valid_risk_def valid_causality_def
      absent_or_dict_def example_nested_risk_def)

lemma ex_heuristic_seed:
  "heuristic_seed example_causality_final =
     \<lparr>metadata = Some (PDict [(''language'', PStr ''en''),
                              (''run_id'', PStr ''0123456789abcdef0123456789abcdef'')]),
      questionnaire = None,
      analysis = Some (PDict [(''2.1'', PDict [(''risks'', PList [example_nested_risk])])]),
      heuristic = Some (PDict []), prolog_facts = [], prolog = None, html_path = None,
      errors = []\<rparr>"
  by (simp add: heuristic_seed_def example_causality_final_def causality_seed_def
      example_domain_final_def get_or_empty_def)

lemma counting_get:
  "py_get (run_basic_counting_analysis ops p) ''total_risks'' PNone = Inr (count_metric p ''total_risks(Count)'')"
  by (simp add: run_basic_counting_analysis_def py_get_def dict_get_def)

lemma summary_get:
  "\<exists>v. py_get (run_executive_summary ops p) ''global_risk_score'' PNone = Inr v"
  by (simp add: run_executive_summary_def py_get_def dict_get_def)

lemma ex_facts:
  "\<exists>fs. then_node (rebound heuristic_node_load (heuristic_seed example_causality_final))
            (in_place node_generate_prolog_facts)
          = Returned ((heuristic_seed example_causality_final)\<lparr>prolog_facts := fs\<rparr>)"
proof -
  let ?s = "heuristic_seed example_causality_final"
  have e: "errors ?s = []" by (simp add: ex_heuristic_seed)
  have l: "heuristic_node_load ?s = Returned ?s"
    by (simp add: ex_heuristic_seed heuristic_node_load_def is_none_def opt_val_def
        get_or_empty_def py_len_def Let_def)
  have a: "analysis ?s = Some (PDict [(''2.1'', PDict [(''risks'', PList [example_nested_risk])])])"
    by (simp add: ex_heuristic_seed)
  from node_generate_valid[OF a example_nested_valid] obtain fs where
    g: "node_generate_prolog_facts ?s = Returned (?s\<lparr>prolog_facts := fs\<rparr>)" by blast
  have 1: "rebound heuristic_node_load ?s = Returned ?s"
    by (rule rebound_clean[where node = heuristic_node_load, OF l e])
  have 2: "in_place node_generate_prolog_facts ?s = Returned (?s\<lparr>prolog_facts := fs\<rparr>)"
    by (rule in_place_clean[where node = node_generate_prolog_facts, OF g]) (simp add: e)
  have "then_node (rebound heuristic_node_load ?s) (in_place node_generate_prolog_facts)
                 = Returned (?s\<lparr>prolog_facts := fs\<rparr>)"
    by (simp only: 1 2 then_node_Returned)
  then show ?thesis by (rule exI)
qed

lemma ex_heuristic_no_rules:
  "stage_failed (heuristic_graph (example_env\<lparr>rules_file_exists := False\<rparr>)
                   (heuristic_seed example_causality_final))"
proof -
  from ex_facts obtain fs where
    f: "then_node (rebound heuristic_node_load (heuristic_seed example_causality_final))
            (in_place node_generate_prolog_facts)
          = Returned ((heuristic_seed example_causality_final)\<lparr>prolog_facts := fs\<rparr>)" by blast
  show ?thesis
    unfolding heuristic_graph_def f
    by (simp add: in_place_def node_initialize_prolog_def no_rules_outcome)
qed

lemma ex_heuristic:
  "\<exists>fs. heuristic_graph example_env (heuristic_seed example_causality_final)
          = Returned (example_heuristic_final fs)"
proof -
  let ?s = "heuristic_seed example_causality_final"
  from ex_facts obtain fs where
    f: "then_node (rebound heuristic_node_load ?s) (in_place node_generate_prolog_facts)
          = Returned (?s\<lparr>prolog_facts := fs\<rparr>)" by blast
  have e: "errors ?s = []" by (simp add: ex_heuristic_seed)
  let ?s1 = "?s\<lparr>prolog_facts := fs\<rparr>"
  have i: "node_initialize_prolog example_env ?s1 = Returned (?s1\<lparr>prolog := Some (\<lambda>q. Inr [])\<rparr>)"
    by (simp add: node_initialize_prolog_def prolog_outcome_def example_env_def)
  let ?s2 = "?s1\<lparr>prolog := Some (\<lambda>q. Inr [])\<rparr>"
  have x: "node_execute_heuristic_analysis example_env ?s2
             = Returned (?s2\<lparr>heuristic := Some example_heuristic_value\<rparr>)"
    by (simp add: node_execute_heuristic_analysis_def heuristic_results_def
        example_heuristic_value_def example_env_def)
  let ?s3 = "?s2\<lparr>heuristic := Some example_heuristic_value\<rparr>"
  obtain v where
    v: "py_get (run_executive_summary exact_ops (\<lambda>q. Inr [])) ''global_risk_score'' PNone = Inr v"
    using summary_get by blast
  have sv: "heuristic_save example_env ?s3 = Inr ()"
    by (simp add: heuristic_save_def ex_heuristic_seed example_env_def example_heuristic_value_def
        py_get_def[of "PDict kvs" for kvs] dict_get_def or_empty_def opt_val_def get_or_empty_def
        py_dict_def counting_get v)
  have s: "heuristic_node_save example_env ?s3 = Returned ?s3"
    by (simp add: heuristic_node_save_def sv)
  have i': "in_place (node_initialize_prolog example_env) ?s1 = Returned ?s2"
    by (rule in_place_clean[where node = "node_initialize_prolog example_env", OF i]) (simp add: e)
  have x': "in_place (node_execute_heuristic_analysis example_env) ?s2 = Returned ?s3"
    by (rule in_place_clean[where node = "node_execute_heuristic_analysis example_env", OF x])
      (simp add: e)
  have s': "in_place (heuristic_node_save example_env) ?s3 = Returned ?s3"
    by (rule in_place_clean[where node = "heuristic_node_save example_env", OF s]) (simp add: e)
  have "heuristic_graph example_env ?s = Returned ?s3"
    unfolding heuristic_graph_def by (simp only: f then_node_Returned i' x' s')
  then have "heuristic_graph example_env ?s = Returned (example_heuristic_final fs)"
    by (simp add: example_heuristic_final_def)
  then show ?thesis by (rule exI)
qed

lemma ex_causality_questionnaire:
  "questionnaire example_causality_final = Some example_questionnaire"
  by (simp add: example_causality_final_def causality_seed_def example_domain_final_def
      get_or_empty_def)

lemma ex_report_seed:
  "report_seed (example_heuristic_final fs) example_causality_final =
     \<lparr>metadata = Some (PDict [(''language'', PStr ''en''),
                              (''run_id'', PStr ''0123456789abcdef0123456789abcdef'')]),
      questionnaire = Some example_questionnaire,
      analysis = Some (PDict [(''2.1'', PDict [(''risks'', PList [example_nested_risk])])]),
      heuristic = Some example_heuristic_value,
      prolog_facts = [], prolog = None, html_path = Some [], errors = []\<rparr>"
  by (simp add: report_seed_def example_heuristic_final_def ex_heuristic_seed get_or_empty_def
      ex_causality_questionnaire)

lemma ex_report:
  "report_graph example_env (report_seed (example_heuristic_final fs) example_causality_final)
     = Returned example_report_final"
proof -
  let ?s = "report_seed (example_heuristic_final fs) example_causality_final"
  have q: "example_questionnaire \<noteq> PNone" "truthy example_questionnaire"
    by (simp_all add: example_questionnaire_def)
  have hv: "example_heuristic_value \<noteq> PNone"
    "py_get example_heuristic_value ''counting'' (PDict []) = Inr (run_basic_counting_analysis exact_ops (\<lambda>q. Inr []))"
    by (simp_all add: example_heuristic_value_def py_get_def dict_get_def)
  have l: "report_node_load ?s = Returned ?s"
    by (simp add: ex_report_seed report_node_load_def is_none_def opt_val_def get_or_empty_def
        Let_def q hv counting_get)
  let ?s1 = "?s\<lparr>metadata := Some (PDict [(''language'', PStr ''en''),
                              (''run_id'', PStr ''0123456789abcdef0123456789abcdef''),
                              (''executive_summary_text'', PStr ''Summary'')]),
                html_path := Some ''/srv/area/files/reports/report.html''\<rparr>"
  have g: "node_generate_html_report example_env ?s = Returned ?s1"
    by (simp add: ex_report_seed node_generate_html_report_def get_or_empty_def opt_val_def Let_def
        py_get_def dict_get_def py_setitem_def example_env_def q)
  have sv: "report_save example_env ?s1 = Inr ()"
    by (simp add: ex_report_seed report_save_def example_env_def py_get_def dict_get_def
        or_empty_def opt_val_def py_dict_def)
  have s: "report_node_save example_env ?s1 = Returned ?s1"
    by (simp add: report_node_save_def sv)
  have e: "errors ?s = []" by (simp add: ex_report_seed)
  have l': "rebound report_node_load ?s = Returned ?s"
    by (rule rebound_clean[where node = report_node_load, OF l e])
  have g': "in_place (node_generate_html_report example_env) ?s = Returned ?s1"
    by (rule in_place_clean[where node = "node_generate_html_report example_env", OF g])
      (simp add: e)
  have s': "in_place (report_node_save example_env) ?s1 = Returned ?s1"
    by (rule in_place_clean[where node = "report_node_save example_env", OF s]) (simp add: e)
  have "report_graph example_env ?s = Returned ?s1"
    unfolding report_graph_def by (simp only: l' then_node_Returned g' s')
  then show ?thesis by (simp add: ex_report_seed example_report_final_def)
qed

lemma ex_errors:
  "errors example_domain_final = []" "errors example_causality_final = []"
  "errors example_report_final = []"
  by (simp_all add: example_domain_final_def example_causality_final_def causality_seed_def
      example_report_final_def)

lemma ex_heuristic_errors: "errors (example_heuristic_final fs) = []"
  by (simp add: example_heuristic_final_def ex_heuristic_seed)

lemma ex_run:
  "\<exists>fs. run_orchestrator example_env example_file =
     Returned ((initial_orch example_file)
       \<lparr>domain_state := Some example_domain_final,
          causality_state := Some example_causality_final,
          heuristic_state := Some (example_heuristic_final fs),
          report_state := Some example_report_final\<rparr>)"
proof -
  from ex_heuristic obtain fs where
    h: "heuristic_graph example_env (heuristic_seed example_causality_final)
          = Returned (example_heuristic_final fs)" by blast
  let ?os = "initial_orch example_file"
  have f: "is_file example_env example_file"
    by (simp add: example_env_def example_file_def)
  have 1: "domain_step_with (domain_graph example_env example_file) example_env ?os
             = Returned (?os\<lparr>domain_state := Some example_domain_final\<rparr>)"
    by (simp add: domain_step_with_def ex_initial_state ex_domain ex_errors)
  have 2: "causality_step_with (causality_graph example_env) example_env
             (?os\<lparr>domain_state := Some example_domain_final\<rparr>)
             = Returned (?os\<lparr>domain_state := Some example_domain_final,
                              causality_state := Some example_causality_final\<rparr>)"
    by (simp add: causality_step_with_def ex_causality ex_errors)
  have 3: "heuristic_step_with (heuristic_graph example_env) example_env
             (?os\<lparr>domain_state := Some example_domain_final,
                    causality_state := Some example_causality_final\<rparr>)
             = Returned (?os\<lparr>domain_state := Some example_domain_final,
                              causality_state := Some example_causality_final,
                              heuristic_state := Some (example_heuristic_final fs)\<rparr>)"
    by (simp add: heuristic_step_with_def h ex_heuristic_errors)
  have 4: "report_step_with (report_graph example_env) example_env
             (?os\<lparr>domain_state := Some example_domain_final,
                    causality_state := Some example_causality_final,
                    heuristic_state := Some (example_heuristic_final fs)\<rparr>)
             = Returned (?os\<lparr>domain_state := Some example_domain_final,
                              causality_state := Some example_causality_final,
                              heuristic_state := Some (example_heuristic_final fs),
                              report_state := Some example_report_final\<rparr>)"
    by (simp add: report_step_with_def ex_report ex_errors)
  have "run_orchestrator example_env example_file =
     Returned (?os\<lparr>domain_state := Some example_domain_final,
                      causality_state := Some example_causality_final,
                      heuristic_state := Some (example_heuristic_final fs),
                      report_state := Some example_report_final\<rparr>)"
    unfolding run_orchestrator_def orchestrate_def
    by (simp only: f not_True_eq_False if_False 1 2 3 4 then_step_Returned)
  then show ?thesis by (rule exI)
qed

text \<open>
  Claim C4 fails on the code in one direction: when the answers file holds a JSON list,
  the load node of the domain stage raises \<open>AttributeError\<close>, which no handler
  catches, so the orchestrator raises while the error list of the stage's context is empty.
\<close>

theorem orchestrator_raises_without_errors_counterexample:
  "domain_state (initial_orch example_file) = Some example_initial
   \<and> domain_graph list_file_env example_file example_initial
       = Raised (no_attribute (PList []) ''get'') (example_initial\<lparr>questionnaire := Some (PList [])\<rparr>)
   \<and> errors (example_initial\<lparr>questionnaire := Some (PList [])\<rparr>) = []
   \<and> raises (domain_step list_file_env (initial_orch example_file))
   \<and> raises (run_orchestrator list_file_env example_file)"
proof -
  have i: "domain_state (initial_orch example_file) = Some example_initial"
    by (simp add: initial_orch_def example_initial_def)
  have l: "domain_node_load list_file_env example_file example_initial
       = Raised (no_attribute (PList []) ''get'') (example_initial\<lparr>questionnaire := Some (PList [])\<rparr>)"
    by (simp add: domain_node_load_def list_file_env_def py_get_def)
  have g: "domain_graph list_file_env example_file example_initial
       = Raised (no_attribute (PList []) ''get'') (example_initial\<lparr>questionnaire := Some (PList [])\<rparr>)"
    by (simp add: domain_graph_def in_place_def l)
  have e: "errors (example_initial\<lparr>questionnaire := Some (PList [])\<rparr>) = []"
    by (simp add: example_initial_def)
  have f: "is_file list_file_env example_file"
    by (simp add: list_file_env_def example_env_def example_file_def)
  have s: "raises (domain_step list_file_env (initial_orch example_file))"
    by (simp add: domain_step_def domain_step_with_def i initial_orch_def[of example_file, THEN arg_cong[of _ _ input_file]] g)
  have r: "raises (run_orchestrator list_file_env example_file)"
    using f by (simp add: run_orchestrator_def orchestrate_def domain_step_with_def i g)
  from i g e s r show ?thesis by simp
qed

text \<open>
  The orchestrator theorem in the example world, where no stage fails and the run returns,
  and in the same world without the rules file, where the heuristic stage raises and so
  does the run.
\<close>

theorem orchestrator_raises_iff_stage_fails_witness:
  "domain_state (initial_orch example_file) = Some example_initial
   \<and> \<not> raises (domain_step_with (domain_graph example_env example_file) example_env
                 (initial_orch example_file))
   \<and> \<not> raises (run_orchestrator example_env example_file)
   \<and> raises (run_orchestrator (example_env\<lparr>rules_file_exists := False\<rparr>) example_file)"
proof -
  let ?os = "initial_orch example_file"
  let ?nr = "example_env\<lparr>rules_file_exists := False\<rparr>"
  have i: "domain_state ?os = Some example_initial" by (rule ex_initial_state)
  note d = ex_domain and c = ex_causality
  from ex_heuristic obtain fs where
    h: "heuristic_graph example_env (heuristic_seed example_causality_final)
          = Returned (example_heuristic_final fs)" by blast
  have f: "is_file example_env example_file" "is_file ?nr example_file"
    by (simp_all add: example_env_def example_file_def)
  have ok: "\<not> raises (domain_step_with (domain_graph example_env example_file) example_env ?os)
      \<and> orchestrate (domain_graph example_env example_file) (causality_graph example_env)
           (heuristic_graph example_env) (report_graph example_env) example_env ?os
          = Returned (?os\<lparr>domain_state := Some example_domain_final,
                            causality_state := Some example_causality_final,
                            heuristic_state := Some (example_heuristic_final fs),
                            report_state := Some example_report_final\<rparr>)"
    using orchestrator_raises_iff_stage_fails[OF i, where ?g1.0 = "domain_graph example_env example_file"
        and ev = example_env and ?g2.0 = "causality_graph example_env"
        and ?g3.0 = "heuristic_graph example_env" and ?g4.0 = "report_graph example_env"]
    apply (simp add: d c h ex_report ex_errors ex_heuristic_errors)
    apply (elim conjE)
    apply (rule trans[OF sym], assumption, assumption)
    done
  have bad: "raises (orchestrate (domain_graph ?nr example_file) (causality_graph ?nr)
           (heuristic_graph ?nr) (report_graph ?nr) ?nr ?os)"
    using orchestrator_raises_iff_stage_fails[OF i, where ?g1.0 = "domain_graph ?nr example_file"
        and ev = ?nr and ?g2.0 = "causality_graph ?nr"
        and ?g3.0 = "heuristic_graph ?nr" and ?g4.0 = "report_graph ?nr"]
    by (simp add: ex_domain_any ex_causality_any ex_errors ex_heuristic_no_rules)
  from ok have "\<not> raises (run_orchestrator example_env example_file)"
    using f(1) by (simp add: run_orchestrator_def)
  moreover have "raises (run_orchestrator ?nr example_file)"
    using f(2) bad by (simp add: run_orchestrator_def)
  ultimately show ?thesis using i ok by simp
qed

text \<open>
  Claim C9 in the example world: the questionnaire has no run identifier, the run returns,
  and the four final contexts carry the minted identifier.
\<close>

theorem run_id_threaded_through_stages_witness:
  "\<exists>final d c h r.
      run_orchestrator example_env example_file = Returned final
    \<and> domain_state final = Some d \<and> causality_state final = Some c
    \<and> heuristic_state final = Some h \<and> report_state final = Some r
    \<and> run_id_of d = Some (PStr (uuid4_hex example_env))
    \<and> run_id_of c = run_id_of d \<and> run_id_of h = run_id_of d \<and> run_id_of r = run_id_of d"
proof -
  from ex_run obtain final where f: "run_orchestrator example_env example_file = Returned final"
    by blast
  have rd: "read_json example_env example_file = Inr example_questionnaire"
    by (simp add: example_env_def example_file_def)
  from run_id_threaded_through_stages[OF f] obtain q m r0 d c h r where
    q: "read_json example_env example_file = Inr q"
    and m: "py_get q ''metadata'' (PDict []) = Inr m"
    and r0: "py_get (or_empty m) ''run_id'' PNone = Inr r0"
    and st: "domain_state final = Some d" "causality_state final = Some c"
      "heuristic_state final = Some h" "report_state final = Some r"
    and rid: "run_id_of d = Some (if truthy r0 then r0 else PStr (uuid4_hex example_env))"
      "run_id_of c = run_id_of d" "run_id_of h = run_id_of d" "run_id_of r = run_id_of d"
    by blast
  from q rd have "q = example_questionnaire" by simp
  with m have "m = PDict [(''language'', PStr ''en'')]"
    by (simp add: example_questionnaire_def py_get_def dict_get_def)
  with r0 have "r0 = PNone" by (simp add: or_empty_def py_get_def dict_get_def)
  with rid(1) have "run_id_of d = Some (PStr (uuid4_hex example_env))" by simp
  with f st rid(2-4) show ?thesis by blast
qed

end
